theory Spec2Isabelle
  imports Main "HOL-Library.Sublist"
begin

section \<open>Python string operations used by the sources\<close>

text \<open>
  Python \<open>str\<close> values are modelled as \<open>string\<close>; \<open>bytes.decode("utf-8")\<close> is the
  identity (the tools' output is taken to be ASCII text).
  \<open>s.endswith(suf)\<close> and \<open>sub in s\<close> are the suffix and the contiguous-substring
  relations of the list library, which are executable.
\<close>

definition endswith :: "string \<Rightarrow> string \<Rightarrow> bool" where
  "endswith s suf = suffix suf s"

definition str_in :: "string \<Rightarrow> string \<Rightarrow> bool" where
  "str_in sub s = sublist sub s"

text \<open>The ASCII characters for which \<open>str.isspace\<close> holds; \<open>str.strip()\<close> and
  \<open>str.split()\<close> (no argument) remove / split at exactly these.\<close>

definition isspace :: "char \<Rightarrow> bool" where
  "isspace c = (c \<in> set [CHR '' '', CHR 0x09, CHR 0x0A, CHR 0x0B, CHR 0x0C, CHR 0x0D,
                           CHR 0x1C, CHR 0x1D, CHR 0x1E, CHR 0x1F])"

definition strip :: "string \<Rightarrow> string" where
  "strip s = rev (dropWhile isspace (rev (dropWhile isspace s)))"

text \<open>\<open>s.split()\<close>: the maximal runs of non-whitespace characters.\<close>

fun split_ws_from :: "string \<Rightarrow> string \<Rightarrow> string list" where
  "split_ws_from cur [] = (if cur = [] then [] else [cur])"
| "split_ws_from cur (c # cs) =
     (if isspace c then (if cur = [] then [] else [cur]) @ split_ws_from [] cs
      else split_ws_from (cur @ [c]) cs)"

definition split_ws :: "string \<Rightarrow> string list" where
  "split_ws s = split_ws_from [] s"

text \<open>\<open>s.split(sep)\<close> for a one-character separator: never the empty list.\<close>

fun split_on :: "char \<Rightarrow> string \<Rightarrow> string list" where
  "split_on sep [] = [[]]"
| "split_on sep (c # cs) =
     (if c = sep then [] # split_on sep cs
      else (case split_on sep cs of
              [] \<Rightarrow> [[c]]
            | w # ws \<Rightarrow> (c # w) # ws))"

text \<open>\<open>s.splitlines()\<close>: lines end at LF, CR, CR LF, VT, FF, FS, GS, RS; a final line
  break opens no empty last line.\<close>

definition is_linebreak :: "char \<Rightarrow> bool" where
  "is_linebreak c = (c \<in> set [CHR 0x0A, CHR 0x0B, CHR 0x0C, CHR 0x0D, CHR 0x1C, CHR 0x1D, CHR 0x1E])"

fun splitlines_from :: "string \<Rightarrow> string \<Rightarrow> string list" where
  "splitlines_from cur [] = (if cur = [] then [] else [cur])"
| "splitlines_from cur [c] =
     (if is_linebreak c then [cur] else [cur @ [c]])"
| "splitlines_from cur (c # d # ds) =
     (if c = CHR 0x0D \<and> d = CHR 0x0A then cur # splitlines_from [] ds
      else if is_linebreak c then cur # splitlines_from [] (d # ds)
      else splitlines_from (cur @ [c]) (d # ds))"

definition splitlines :: "string \<Rightarrow> string list" where
  "splitlines s = splitlines_from [] s"

text \<open>\<open>str(n)\<close> for an integer, as the f-strings \<open>f"pull/{pr_id}/head"\<close> and
  \<open>f"PR #{id} ..."\<close> need it.\<close>

fun str_nat :: "nat \<Rightarrow> string" where
  "str_nat n = (if n < 10 then [''0123456789'' ! n]
                else str_nat (n div 10) @ [''0123456789'' ! (n mod 10)])"

declare str_nat.simps [simp del]

definition str_int :: "int \<Rightarrow> string" where
  "str_int i = (if i < 0 then ''-'' @ str_nat (nat (- i)) else str_nat (nat i))"

text \<open>\<open>str(x)\<close> of an \<open>Optional[str]\<close>, as in \<open>f"unable to find remote '{remote}'"\<close>.\<close>

definition str_opt :: "string option \<Rightarrow> string" where
  "str_opt x = (case x of None \<Rightarrow> ''None'' | Some s \<Rightarrow> s)"


section \<open>The artifact cache: the two lookups of \<open>run_for_local\<close>\<close>

text \<open>\<open>libpopcorn/podman.py\<close>, class \<open>PodmanImage\<close>.\<close>

record PodmanImage =
  name :: string
  tag :: string
  sha :: string

definition s3gw_image_name :: string where
  "s3gw_image_name = ''popcorn/s3gw''"

definition build_img_name :: string where
  "build_img_name = ''popcorn/builder''"

definition image_ref :: "PodmanImage \<Rightarrow> string" where
  "image_ref img = name img @ '':'' @ tag img"

text \<open>
  \<open>popcorn.py\<close> lines 406--410: the loop over \<open>images\<close> that looks for the runtime image;
  \<open>None\<close> is the initial \<open>s3gw_image = None\<close> left untouched, \<open>break\<close> ends the loop at the
  first hit.
\<close>

fun find_s3gw_image :: "PodmanImage list \<Rightarrow> string \<Rightarrow> string option" where
  "find_s3gw_image [] ceph_commit = None"
| "find_s3gw_image (img # images) ceph_commit =
     (if endswith (name img) s3gw_image_name \<and> ceph_commit = tag img
      then Some (image_ref img)
      else find_s3gw_image images ceph_commit)"

text \<open>\<open>popcorn.py\<close> lines 429--433: the loop that looks for the builder image; the test on
  the name is \<open>build_img_name in img.name\<close>.\<close>

fun find_build_image :: "PodmanImage list \<Rightarrow> string \<Rightarrow> string option" where
  "find_build_image [] tools_commit = None"
| "find_build_image (img # images) tools_commit =
     (if str_in build_img_name (name img) \<and> tools_commit = tag img
      then Some (image_ref img)
      else find_build_image images tools_commit)"

text \<open>The two matching conditions, named for the statements below.\<close>

definition s3gw_match :: "string \<Rightarrow> PodmanImage \<Rightarrow> bool" where
  "s3gw_match revision img = (endswith (name img) s3gw_image_name \<and> revision = tag img)"

definition build_match :: "string \<Rightarrow> PodmanImage \<Rightarrow> bool" where
  "build_match revision img = (str_in build_img_name (name img) \<and> revision = tag img)"

section \<open>External collaborators, exceptions and the transcript of a run\<close>

text \<open>
  Everything outside the Python process (git, podman, the test harness, the GitHub API, the
  file system) is a \<open>world\<close>: for every call it gives the answer, which may depend on
  the whole history of the run so far. The run's transcript is the list of \<open>event\<close>s in the
  order they happen, each external call with the answer it got. A subprocess that never
  returns is not modelled: every call is answered.
\<close>

text \<open>\<open>subprocess.CompletedProcess\<close>: the fields the sources read.\<close>

record completed_process =
  returncode :: int
  stdout :: string
  stderr :: string

text \<open>The reply of \<open>requests.get\<close>: the status code and, of the JSON object in its body,
  the key \<open>merged\<close> (\<open>None\<close>: key absent; \<open>Some b\<close>: present with truth value \<open>b\<close>), the
  only key any caller reads.\<close>

record http_response =
  status_code :: int
  merged :: "bool option"

text \<open>One object of the list that \<open>podman images --format json\<close> prints.\<close>

record podman_entry =
  entry_Id :: "string option"
  entry_Names :: "string list option"

datatype event =
    Exec "string option" "string list" "completed_process option"
  | Get string "http_response option"
  | Echo string

text \<open>
  Exceptions. \<open>PopcornError\<close> and \<open>NotFoundError\<close> come from \<open>libpopcorn/common.py\<close>, which
  is not among the sources: \<open>PopcornError\<close> carries the optional message that
  \<open>e.message\<close> reads. \<open>SystemExit n\<close> is \<open>sys.exit(n)\<close>. \<open>OSError\<close> and
  \<open>RequestException\<close> stand for a subprocess that could not be started and a request
  that got no reply.
\<close>

datatype exn =
    SystemExit int
  | PopcornError "string option"
  | NotFoundError
  | AssertionError
  | ValueError
  | AttributeError
  | OSError
  | RequestException
  | JSONDecodeError

record world =
  run_result :: "event list \<Rightarrow> string option \<Rightarrow> string list \<Rightarrow> completed_process option"
  get_result :: "event list \<Rightarrow> string \<Rightarrow> http_response option"
  path_exists :: "event list \<Rightarrow> string \<Rightarrow> bool"
  path_is_file :: "event list \<Rightarrow> string \<Rightarrow> bool"
  json_loads :: "string \<Rightarrow> podman_entry list option"
  repr_bytes :: "string \<Rightarrow> string"
  getcwd :: string

text \<open>
  A computation reads the history and gives the events it adds, in order, with either the
  exception that ended it (\<open>Inl\<close>) or its result (\<open>Inr\<close>).
\<close>

type_synonym 'a io = "event list \<Rightarrow> event list \<times> (exn + 'a)"

definition io_return :: "'a \<Rightarrow> 'a io" where
  "io_return x = (\<lambda>h. ([], Inr x))"

definition io_raise :: "exn \<Rightarrow> 'a io" where
  "io_raise e = (\<lambda>h. ([], Inl e))"

definition io_bind :: "'a io \<Rightarrow> ('a \<Rightarrow> 'b io) \<Rightarrow> 'b io" where
  "io_bind m f = (\<lambda>h. case m h of
       (evs, Inl e) \<Rightarrow> (evs, Inl e)
     | (evs, Inr x) \<Rightarrow> (case f x (h @ evs) of (evs', r) \<Rightarrow> (evs @ evs', r)))"

definition io_seq :: "'a io \<Rightarrow> 'b io \<Rightarrow> 'b io" where
  "io_seq m n = io_bind m (\<lambda>_. n)"

text \<open>\<open>try: m except ...\<close>: the handler says which exceptions it catches.\<close>

definition io_catch :: "'a io \<Rightarrow> (exn \<Rightarrow> 'a io option) \<Rightarrow> 'a io" where
  "io_catch m handler = (\<lambda>h. case m h of
       (evs, Inr x) \<Rightarrow> (evs, Inr x)
     | (evs, Inl e) \<Rightarrow> (case handler e of
           None \<Rightarrow> (evs, Inl e)
         | Some k \<Rightarrow> (case k (h @ evs) of (evs', r) \<Rightarrow> (evs @ evs', r))))"

definition io_assert :: "bool \<Rightarrow> unit io" where
  "io_assert b = (if b then io_return () else io_raise AssertionError)"

definition io_when :: "bool \<Rightarrow> unit io \<Rightarrow> unit io" where
  "io_when b m = (if b then m else io_return ())"

definition echo :: "string \<Rightarrow> unit io" where
  "echo s = (\<lambda>h. ([Echo s], Inr ()))"

definition sys_exit :: "int \<Rightarrow> 'a io" where
  "sys_exit n = io_raise (SystemExit n)"

definition subprocess_run :: "world \<Rightarrow> string option \<Rightarrow> string list \<Rightarrow> completed_process io" where
  "subprocess_run w cwd cmd = (\<lambda>h. case run_result w h cwd cmd of
       None \<Rightarrow> ([Exec cwd cmd None], Inl OSError)
     | Some p \<Rightarrow> ([Exec cwd cmd (Some p)], Inr p))"

definition requests_get :: "world \<Rightarrow> string \<Rightarrow> http_response io" where
  "requests_get w url = (\<lambda>h. case get_result w h url of
       None \<Rightarrow> ([Get url None], Inl RequestException)
     | Some r \<Rightarrow> ([Get url (Some r)], Inr r))"

definition assert_exists :: "world \<Rightarrow> string \<Rightarrow> unit io" where
  "assert_exists w p = (\<lambda>h. ([], if path_exists w h p then Inr () else Inl AssertionError))"

definition assert_is_file :: "world \<Rightarrow> string \<Rightarrow> unit io" where
  "assert_is_file w p = (\<lambda>h. ([], if path_is_file w h p then Inr () else Inl AssertionError))"

text \<open>\<open>e.message\<close> as \<open>click.echo\<close> prints it.\<close>

definition message :: "string option \<Rightarrow> string" where
  "message m = (case m of None \<Rightarrow> [] | Some s \<Rightarrow> s)"

text \<open>\<open>try: m except PopcornError as e: click.echo(e.message); sys.exit(1)\<close>.\<close>

definition exit_on_error :: "'a io \<Rightarrow> 'a io" where
  "exit_on_error m = io_catch m (\<lambda>e. case e of
       PopcornError msg \<Rightarrow> Some (io_seq (echo (message msg)) (sys_exit 1))
     | _ \<Rightarrow> None)"

text \<open>The exit status of the process: \<open>sys.exit(n)\<close> gives \<open>n\<close>, any other exception that
  nothing catches ends the interpreter with status 1, a command that returns gives 0.\<close>

definition exit_code :: "event list \<times> (exn + 'a) \<Rightarrow> int" where
  "exit_code r = (case snd r of Inr _ \<Rightarrow> 0 | Inl (SystemExit n) \<Rightarrow> n | Inl _ \<Rightarrow> 1)"

text \<open>\<open>pathlib\<close>: paths are strings; \<open>joinpath\<close> appends one relative component.\<close>

definition joinpath :: "string \<Rightarrow> string \<Rightarrow> string" where
  "joinpath p c = p @ ''/'' @ c"

definition absolute :: "world \<Rightarrow> string \<Rightarrow> string" where
  "absolute w p = (if take 1 p = ''/'' then p else joinpath (getcwd w) p)"

definition sq :: string where
  "sq = [CHR 0x27]"


section \<open>\<open>libpopcorn/git.py\<close>\<close>

definition repo_path :: "string \<Rightarrow> string \<Rightarrow> string" where
  "repo_path wspath repo = joinpath wspath (repo @ ''.git'')"

text \<open>The two assertions every function of \<open>git.py\<close> starts with.\<close>

definition assert_repo :: "world \<Rightarrow> string \<Rightarrow> unit io" where
  "assert_repo w repopath =
     io_seq (assert_exists w repopath) (assert_exists w (joinpath repopath ''.git''))"

definition pr_exists :: "world \<Rightarrow> string \<Rightarrow> int \<Rightarrow> bool option io" where
  "pr_exists w repo pr_id =
     io_bind (requests_get w
        (''https://api.github.com/repos/aquarist-labs/'' @ repo @ ''/pulls/'' @ str_int pr_id))
       (\<lambda>req.
          if status_code req = 404 then io_raise NotFoundError
          else if status_code req \<noteq> 200 then io_raise (PopcornError None)
          else io_return (merged req))"

definition fetch_cmd :: "string \<Rightarrow> string \<Rightarrow> string \<Rightarrow> string \<Rightarrow> string list" where
  "fetch_cmd cur_branch origin branch localname =
     (if cur_branch = localname
      then [''git'', ''pull'', ''--force'', origin, branch @ '':'' @ localname]
      else [''git'', ''fetch'', origin, branch @ '':'' @ localname])"

definition fetch :: "world \<Rightarrow> string \<Rightarrow> string \<Rightarrow> string \<Rightarrow> string \<Rightarrow> string io" where
  "fetch w wspath repo origin branch =
     (let repopath = repo_path wspath repo;
          localname = ''popcorn/'' @ origin @ ''/'' @ branch in
      io_seq (assert_repo w repopath)
     (io_bind (subprocess_run w (Some repopath) [''git'', ''branch'', ''--show-current'']) (\<lambda>p.
      if returncode p \<noteq> 0
      then io_raise (PopcornError (Some (''error obtaining branch: '' @ repr_bytes w (stderr p))))
      else
        (let cur_branch = strip (stdout p) in
         io_bind (subprocess_run w (Some repopath) (fetch_cmd cur_branch origin branch localname)) (\<lambda>p.
         if returncode p \<noteq> 0
         then io_raise (PopcornError (Some (''error fetching branch '' @ branch
                 @ '' for repository '' @ repo @ '': '' @ repr_bytes w (stderr p))))
         else io_return localname)))))"

definition pr_fetch :: "world \<Rightarrow> string \<Rightarrow> int \<Rightarrow> string \<Rightarrow> string io" where
  "pr_fetch w repo pr_id wspath = fetch w wspath repo ''origin'' (''pull/'' @ str_int pr_id @ ''/head'')"

definition clean_repo :: "world \<Rightarrow> string \<Rightarrow> string \<Rightarrow> unit io" where
  "clean_repo w path repo =
     (let repopath = repo_path path repo in
      io_seq (assert_repo w repopath)
     (io_bind (subprocess_run w (Some repopath) [''git'', ''submodule'', ''foreach'', ''git clean -fdx'']) (\<lambda>p.
      if returncode p \<noteq> 0
      then io_raise (PopcornError (Some (''error clearing repository '' @ repo @ sq
                @ ''s submodules: '' @ repr_bytes w (stderr p))))
      else
        io_bind (subprocess_run w (Some repopath) [''git'', ''clean'', ''-fdx'']) (\<lambda>p.
        if returncode p \<noteq> 0
        then io_raise (PopcornError (Some (''error clearing repository '' @ repo @ '': ''
                @ repr_bytes w (stderr p))))
        else io_return ()))))"

definition checkout_branch :: "world \<Rightarrow> string \<Rightarrow> string \<Rightarrow> string \<Rightarrow> unit io" where
  "checkout_branch w path repo branch =
     (let repopath = repo_path path repo in
      io_seq (assert_repo w repopath)
     (io_bind (subprocess_run w (Some repopath) [''git'', ''checkout'', branch]) (\<lambda>p.
      if returncode p \<noteq> 0
      then io_raise (PopcornError (Some (''error checking out branch '' @ branch @ '': ''
                @ repr_bytes w (stderr p))))
      else io_return ())))"

definition get_latest_commit :: "world \<Rightarrow> string \<Rightarrow> string \<Rightarrow> string io" where
  "get_latest_commit w path repo =
     (let repopath = repo_path path repo in
      io_seq (assert_repo w repopath)
     (io_bind (subprocess_run w (Some repopath) [''git'', ''rev-parse'', ''--short'', ''HEAD'']) (\<lambda>p.
      if returncode p \<noteq> 0
      then io_raise (PopcornError (Some (''error obtaining latest commit on repository '' @ repo
                @ '': '' @ repr_bytes w (stderr p))))
      else io_return (strip (stdout p)))))"

text \<open>The loop of \<open>get_remotes\<close> over the lines of \<open>git remote -v\<close>; unpacking a line that
  does not split into three words raises \<open>ValueError\<close>.\<close>

fun parse_remotes :: "string list \<Rightarrow> (string \<rightharpoonup> string) \<Rightarrow> exn + (string \<rightharpoonup> string)" where
  "parse_remotes [] remotes = Inr remotes"
| "parse_remotes (remote # outlst) remotes =
     (case split_ws remote of
        [rname, url, rtype] \<Rightarrow>
          if \<not> str_in ''fetch'' rtype then parse_remotes outlst remotes
          else parse_remotes outlst (remotes(rname \<mapsto> url))
      | _ \<Rightarrow> Inl ValueError)"

definition get_remotes :: "world \<Rightarrow> string \<Rightarrow> string \<Rightarrow> (string \<rightharpoonup> string) io" where
  "get_remotes w path repo =
     (let repopath = repo_path path repo in
      io_seq (assert_repo w repopath)
     (io_bind (subprocess_run w (Some repopath) [''git'', ''remote'', ''-v'']) (\<lambda>p.
      if returncode p \<noteq> 0
      then io_raise (PopcornError (Some (''error obtaining repository '' @ sq @ repo @ sq
                @ '' remotes: '' @ repr_bytes w (stderr p))))
      else (case parse_remotes (splitlines (stdout p)) Map.empty of
              Inl e \<Rightarrow> io_raise e
            | Inr remotes \<Rightarrow> io_return remotes))))"

definition add_remote :: "world \<Rightarrow> string \<Rightarrow> string \<Rightarrow> string \<Rightarrow> string \<Rightarrow> unit io" where
  "add_remote w path repo rname remote =
     (let repopath = repo_path path repo in
      io_seq (assert_repo w repopath)
     (io_bind (subprocess_run w (Some repopath)
                 [''git'', ''remote'', ''add'', rname, remote @ ''/'' @ repo]) (\<lambda>p.
      if returncode p \<noteq> 0
      then io_raise (PopcornError (Some (''error adding remote '' @ sq @ rname @ sq
                @ '' to repository '' @ sq @ repo @ sq @ '': '' @ repr_bytes w (stderr p))))
      else io_return ())))"

definition update :: "world \<Rightarrow> string \<Rightarrow> string \<Rightarrow> string option \<Rightarrow> unit io" where
  "update w path repo remote =
     (let repopath = repo_path path repo;
          cmd = [''git'', ''remote'', ''update''] @ (case remote of None \<Rightarrow> [] | Some r \<Rightarrow> [r]) in
      io_seq (assert_repo w repopath)
     (io_bind (subprocess_run w (Some repopath) cmd) (\<lambda>p.
      if returncode p \<noteq> 0
      then io_seq (echo (repr_bytes w (stdout p)))
             (io_raise (PopcornError (Some (''error updating remotes: '' @ repr_bytes w (stderr p)))))
      else io_return ())))"


section \<open>\<open>libpopcorn/podman.py\<close>\<close>

text \<open>The inner loop of \<open>list_images\<close> over the names of one entry; a name that does not
  split at \<open>:\<close> into exactly two parts raises \<open>ValueError\<close>.\<close>

fun images_of_names :: "string \<Rightarrow> string list \<Rightarrow> exn + PodmanImage list" where
  "images_of_names s [] = Inr []"
| "images_of_names s (n # names) =
     (case split_on CHR '':'' n of
        [img_name, img_tag] \<Rightarrow>
          (case images_of_names s names of
             Inl e \<Rightarrow> Inl e
           | Inr imgs \<Rightarrow> Inr (\<lparr>name = img_name, tag = img_tag, sha = s\<rparr> # imgs))
      | _ \<Rightarrow> Inl ValueError)"

text \<open>The outer loop: \<open>assert "Id" in entry\<close>; an entry without \<open>Names\<close> is skipped.\<close>

fun images_of_entries :: "podman_entry list \<Rightarrow> exn + PodmanImage list" where
  "images_of_entries [] = Inr []"
| "images_of_entries (entry # res) =
     (case entry_Id entry of
        None \<Rightarrow> Inl AssertionError
      | Some s \<Rightarrow>
          (case entry_Names entry of
             None \<Rightarrow> images_of_entries res
           | Some names \<Rightarrow>
               (case images_of_names s names of
                  Inl e \<Rightarrow> Inl e
                | Inr imgs \<Rightarrow>
                    (case images_of_entries res of
                       Inl e \<Rightarrow> Inl e
                     | Inr rest \<Rightarrow> Inr (imgs @ rest)))))"

definition list_images :: "world \<Rightarrow> PodmanImage list io" where
  "list_images w =
     io_bind (subprocess_run w None [''podman'', ''images'', ''--format'', ''json'']) (\<lambda>p.
     if returncode p \<noteq> 0
     then io_raise (PopcornError (Some (''error obtaining podman images: '' @ repr_bytes w (stderr p))))
     else (case json_loads w (stdout p) of
             None \<Rightarrow> io_raise JSONDecodeError
           | Some res \<Rightarrow>
               (case images_of_entries res of
                  Inl e \<Rightarrow> io_raise e
                | Inr images_lst \<Rightarrow> io_return images_lst)))"

definition build_image :: "world \<Rightarrow> string \<Rightarrow> string \<Rightarrow> string io" where
  "build_image w repopath tg =
     (let path = joinpath repopath ''build'';
          imgname = ''popcorn/builder:'' @ tg in
      io_seq (assert_exists w path)
     (io_bind (subprocess_run w None
                 [''podman'', ''build'', ''-t'', imgname, ''-f'', ''Dockerfile.build-radosgw'', path]) (\<lambda>p.
      if returncode p \<noteq> 0
      then io_raise (PopcornError (Some (''error creating builder container '' @ imgname @ '': ''
                @ repr_bytes w (stderr p))))
      else io_return imgname)))"

text \<open>The three loops of \<open>run\<close> over volumes, environment and ports: each item must split
  at the separator into two non-empty parts, and adds the flag and the item to the command.\<close>

fun run_opts :: "char \<Rightarrow> string \<Rightarrow> string list \<Rightarrow> exn + string list" where
  "run_opts sep flag [] = Inr []"
| "run_opts sep flag (v # vs) =
     (case split_on sep v of
        [orig, dest] \<Rightarrow>
          if orig \<noteq> [] \<and> dest \<noteq> []
          then (case run_opts sep flag vs of
                  Inl e \<Rightarrow> Inl e
                | Inr opts \<Rightarrow> Inr (flag # v # opts))
          else Inl AssertionError
      | _ \<Rightarrow> Inl ValueError)"

definition run :: "world \<Rightarrow> string \<Rightarrow> string \<Rightarrow> string list \<Rightarrow> string list \<Rightarrow> string list
    \<Rightarrow> bool \<Rightarrow> bool \<Rightarrow> bool \<Rightarrow> string option io" where
  "run w img cname volumes env ports replace detach capture_output =
     (let cmd = [''podman'', ''run'', ''--name'', cname]
                @ (if replace then [''--replace''] else [])
                @ (if detach then [''--detach''] else []) in
      case run_opts CHR '':'' ''-v'' volumes of
        Inl e \<Rightarrow> io_raise e
      | Inr vopts \<Rightarrow>
      (case run_opts CHR ''='' ''-e'' env of
        Inl e \<Rightarrow> io_raise e
      | Inr eopts \<Rightarrow>
      (case run_opts CHR '':'' ''-p'' ports of
        Inl e \<Rightarrow> io_raise e
      | Inr popts \<Rightarrow>
      io_bind (subprocess_run w None (cmd @ vopts @ eopts @ popts @ [img])) (\<lambda>p.
      if returncode p \<noteq> 0
      then io_raise (PopcornError (Some (''error running container: ''
                @ (if capture_output then repr_bytes w (stderr p) else ''None''))))
      else if detach
      then (if \<not> capture_output then io_raise AttributeError
            else (let res = split_ws (stdout p) in
                  io_seq (io_assert (res \<noteq> [])) (io_return (Some (last res)))))
      else io_return None))))"


section \<open>\<open>popcorn.py\<close>\<close>

text \<open>\<open>AdditionalRepositoryConfig\<close> has the fields \<open>name\<close> and \<open>url\<close>; they are written
  \<open>repo_name\<close> and \<open>repo_url\<close> here, \<open>name\<close> being a field of \<open>PodmanImage\<close> already.\<close>

record AdditionalRepositoryConfig =
  repo_name :: string
  repo_url :: string

record Config =
  workspace :: string
  ccache :: "string option"
  additional_repos :: "AdditionalRepositoryConfig list option"

definition run_tests :: "world \<Rightarrow> string \<Rightarrow> string \<Rightarrow> bool io" where
  "run_tests w path s3gw_img =
     (let tests_dir = absolute w (joinpath path ''tests'');
          tests_path = joinpath tests_dir ''run-tests.sh'' in
      io_seq (echo ''running tests...'')
     (io_seq (echo tests_path)
     (io_seq (assert_exists w tests_path)
     (io_seq (assert_is_file w tests_path)
     (io_seq (echo (''starting s3gw image '' @ s3gw_img @ ''...''))
     (io_bind (subprocess_run w None
                 [''podman'', ''run'', ''--detach'', ''--replace'', ''--name'', ''popcorn-s3gw'',
                  ''-p'', ''7480:7480'', s3gw_img]) (\<lambda>p.
      io_seq (io_when (returncode p \<noteq> 0)
                (io_seq (echo (''error starting s3gw container: '' @ repr_bytes w (stderr p)))
                        (sys_exit 1)))
     (let container_id = strip (stdout p) in
      io_seq (io_assert (length container_id > 0))
     (io_seq (echo ''run tests against s3gw running on port 7480...'')
     (io_bind (subprocess_run w (Some tests_dir) [''./run-tests.sh'']) (\<lambda>p.
      let success = (returncode p = 0) in
      io_seq (if returncode p \<noteq> 0 then echo ''error running tests!!''
              else echo ''tests run successfully :)'')
     (io_seq (echo ''stop s3gw container...'')
     (io_bind (subprocess_run w None [''podman'', ''stop'', ''popcorn-s3gw'']) (\<lambda>p.
      io_seq (io_when (returncode p \<noteq> 0)
                (io_seq (echo (''error stopping container '' @ container_id @ '': ''
                                 @ repr_bytes w (stderr p)))
                        (sys_exit 1)))
             (io_return success)))))))))))))))"

definition check_pr_exists :: "world \<Rightarrow> string \<Rightarrow> int \<Rightarrow> bool \<Rightarrow> unit io" where
  "check_pr_exists w repo pr_id not_merged =
     io_seq (echo (''check if PR  #'' @ str_int pr_id @ '' exists on repository '' @ sq @ repo @ sq @ ''...''))
       (io_catch
          (io_bind (pr_exists w repo pr_id) (\<lambda>res.
             io_when (not_merged \<and> res = Some True)
               (io_seq (echo (''PR #'' @ str_int pr_id @ '' has been merged.'')) (sys_exit 1))))
          (\<lambda>e. case e of
                  NotFoundError \<Rightarrow>
                    Some (io_seq (echo (''error: PR #'' @ str_int pr_id @ '' not found on repository ''
                                         @ sq @ repo @ sq @ ''.''))
                                 (sys_exit 1))
                | PopcornError msg \<Rightarrow>
                    Some (io_seq (echo (''error obtaining PR #'' @ str_int pr_id @ '' on repository ''
                                         @ sq @ repo @ sq @ ''.''))
                                 (sys_exit 1))
                | _ \<Rightarrow> None))"

text \<open>\<open>run_for_local\<close>, lines 354--366: the tooling ref.\<close>

definition run_for_local_tools :: "world \<Rightarrow> string \<Rightarrow> int option \<Rightarrow> string io" where
  "run_for_local_tools w wspath tools_pr_id =
     (case tools_pr_id of
        None \<Rightarrow> io_return ''main''
      | Some pr_id \<Rightarrow>
          io_seq (check_pr_exists w ''s3gw-tools'' pr_id False)
         (io_seq (echo (''fetch PR #'' @ str_int pr_id @ '' for s3gw-tools...''))
                 (exit_on_error (pr_fetch w ''s3gw-tools'' pr_id wspath))))"

text \<open>Lines 368--376: start with a clean repo.\<close>

definition run_for_local_clean :: "world \<Rightarrow> string \<Rightarrow> unit io" where
  "run_for_local_clean w wspath =
     exit_on_error
       (io_seq (echo (''cleanup repository '' @ sq @ ''ceph'' @ sq @ ''...''))
       (io_seq (clean_repo w wspath ''ceph'')
       (io_seq (echo ''cleanup repository s3gw-tools...'')
               (clean_repo w wspath ''s3gw-tools''))))"

text \<open>Lines 378--388: change to the branches.\<close>

definition run_for_local_checkout :: "world \<Rightarrow> string \<Rightarrow> string \<Rightarrow> string \<Rightarrow> unit io" where
  "run_for_local_checkout w wspath ceph_branch tools_branch =
     exit_on_error
       (io_seq (echo (''checkout branch '' @ ceph_branch @ '' on repository '' @ sq @ ''ceph'' @ sq @ ''...''))
       (io_seq (checkout_branch w wspath ''ceph'' ceph_branch)
       (io_seq (echo (''checkout branch '' @ tools_branch @ '' on repository '' @ sq @ ''s3gw-tools'' @ sq @ ''...''))
               (checkout_branch w wspath ''s3gw-tools'' tools_branch))))"

text \<open>Lines 390--402: the registry listing and the target revision.\<close>

definition run_for_local_images :: "world \<Rightarrow> string \<Rightarrow> (PodmanImage list \<times> string) io" where
  "run_for_local_images w wspath =
     io_bind (exit_on_error (list_images w)) (\<lambda>images.
     io_bind (exit_on_error (get_latest_commit w wspath ''ceph'')) (\<lambda>ceph_commit.
     io_seq (io_assert (length ceph_commit > 0))
            (io_return (images, ceph_commit))))"

text \<open>Lines 416--492: the build pipeline and the tests on what it built.\<close>

definition run_for_local_build ::
    "world \<Rightarrow> string \<Rightarrow> Config \<Rightarrow> string \<Rightarrow> PodmanImage list \<Rightarrow> string \<Rightarrow> unit io" where
  "run_for_local_build w wspath config ceph_branch images ceph_commit =
     (let s3gw_image = s3gw_image_name @ '':'' @ ceph_commit in
      io_seq (echo (''must build an s3gw image for branch '' @ ceph_branch @ ''...''))
     (io_bind (exit_on_error (get_latest_commit w wspath ''s3gw-tools'')) (\<lambda>tools_commit.
      io_seq (io_assert (length tools_commit > 0))
     (io_bind
        (case find_build_image images tools_commit of
           Some build_image_found \<Rightarrow>
             io_seq (echo (''found builder image '' @ build_image_found)) (io_return build_image_found)
         | None \<Rightarrow>
             io_seq (echo ''creating new builder image...'')
                    (exit_on_error (build_image w (joinpath wspath ''s3gw-tools.git'') tools_commit)))
        (\<lambda>builder.
      io_seq (echo (''building branch '' @ ceph_branch @ ''...''))
     (let cephpath = absolute w (joinpath wspath ''ceph.git'');
          vols = (case ccache config of
                    None \<Rightarrow> []
                  | Some c \<Rightarrow> [absolute w c @ '':/srv/ccache'']) @ [cephpath @ '':/srv/ceph''];
          env = (case ccache config of
                   None \<Rightarrow> []
                 | Some c \<Rightarrow> [''S3GW_CCACHE_DIR=/srv/ccache'']) in
      io_seq (exit_on_error (run w builder ''popcorn-builder'' vols env [] True False True))
     (io_seq (echo (''building s3gw image for branch at '' @ s3gw_image))
     (let dockerfile = absolute w
            (joinpath (joinpath (joinpath wspath ''s3gw-tools.git'') ''build'') ''Dockerfile.build-container'') in
      io_seq (assert_exists w dockerfile)
     (io_bind (subprocess_run w None
                 [''podman'', ''build'', ''-t'', s3gw_image, ''-f'', dockerfile,
                  joinpath (joinpath wspath ''ceph.git'') ''build'']) (\<lambda>p.
      io_seq (io_when (returncode p \<noteq> 0)
                (io_seq (echo (''error building image '' @ s3gw_image @ '': '' @ repr_bytes w (stderr p)))
                        (sys_exit 1)))
     (io_seq (run_tests w (joinpath wspath ''s3gw-tools.git'') s3gw_image)
             (io_return ()))))))))))))"

text \<open>Lines 404--415, then the build: the runtime-image lookup and what follows from it.\<close>

definition run_for_local_s3gw ::
    "world \<Rightarrow> string \<Rightarrow> Config \<Rightarrow> string \<Rightarrow> PodmanImage list \<Rightarrow> string \<Rightarrow> unit io" where
  "run_for_local_s3gw w wspath config ceph_branch images ceph_commit =
     io_seq (echo (''check for existing s3gw image for commit '' @ ceph_commit @ ''...''))
       (case find_s3gw_image images ceph_commit of
          Some s3gw_image \<Rightarrow>
            io_seq (echo (''found image '' @ s3gw_image @ '', skip building.''))
           (io_seq (run_tests w (joinpath wspath ''s3gw-tools.git'') s3gw_image)
                   (io_return ()))
        | None \<Rightarrow> run_for_local_build w wspath config ceph_branch images ceph_commit)"

definition run_for_local :: "world \<Rightarrow> string \<Rightarrow> Config \<Rightarrow> string \<Rightarrow> int option \<Rightarrow> unit io" where
  "run_for_local w wspath config ceph_branch tools_pr_id =
     io_bind (run_for_local_tools w wspath tools_pr_id) (\<lambda>tools_branch.
     io_seq (run_for_local_clean w wspath)
    (io_seq (run_for_local_checkout w wspath ceph_branch tools_branch)
    (io_bind (run_for_local_images w wspath) (\<lambda>(images, ceph_commit).
       run_for_local_s3gw w wspath config ceph_branch images ceph_commit))))"

text \<open>The command \<open>run pr\<close>; \<open>config\<close> is \<open>ctx.config\<close>.\<close>

definition workflow_run_pr :: "world \<Rightarrow> Config option \<Rightarrow> int \<Rightarrow> int option \<Rightarrow> unit io" where
  "workflow_run_pr w config pr_id tools_pr_id =
     io_seq (check_pr_exists w ''ceph'' pr_id True)
       (case config of
          None \<Rightarrow> io_raise AssertionError
        | Some cfg \<Rightarrow>
            (let base_path = workspace cfg in
             io_bind (exit_on_error
                        (io_seq (echo (''fetch PR #'' @ str_int pr_id @ '' for ceph...''))
                                (pr_fetch w ''ceph'' pr_id base_path))) (\<lambda>ceph_branch.
             run_for_local w base_path cfg ceph_branch tools_pr_id)))"

text \<open>The loop of \<open>workflow_run_branch\<close> over \<open>additional_repos\<close> (lines 234--239); its
  result is \<open>found\<close>.\<close>

fun add_remote_from_config :: "world \<Rightarrow> string \<Rightarrow> string \<Rightarrow> AdditionalRepositoryConfig list \<Rightarrow> bool io" where
  "add_remote_from_config w wspath origin [] = io_return False"
| "add_remote_from_config w wspath origin (r # rs) =
     (if repo_name r = origin
      then io_seq (add_remote w wspath ''ceph'' (repo_name r) (repo_url r)) (io_return True)
      else add_remote_from_config w wspath origin rs)"

text \<open>Lines 226--246: make the remote known; the result is the remote's name.\<close>

definition resolve_remote :: "world \<Rightarrow> Config \<Rightarrow> string option \<Rightarrow> string io" where
  "resolve_remote w cfg remote =
     (let wspath = workspace cfg;
          origin = (case remote of None \<Rightarrow> ''origin'' | Some r \<Rightarrow> r) in
      io_bind (get_remotes w wspath ''ceph'') (\<lambda>remotes.
      io_bind
        (if remotes origin = None
         then (case additional_repos cfg of
                 None \<Rightarrow>
                   io_seq (echo (''unable to find remote '' @ sq @ str_opt remote @ ''.'' @ sq))
                          (sys_exit 1)
               | Some repos \<Rightarrow>
                   io_bind (add_remote_from_config w wspath origin repos) (\<lambda>found.
                   io_seq (io_when (\<not> found)
                             (echo (''unable to find remote '' @ sq @ str_opt remote @ sq @ '' in config.'')))
                          (get_remotes w wspath ''ceph'')))
         else io_return remotes) (\<lambda>remotes.
      io_seq (io_assert (remotes origin \<noteq> None)) (io_return origin))))"

text \<open>The command \<open>run branch\<close>.\<close>

definition workflow_run_branch ::
    "world \<Rightarrow> Config option \<Rightarrow> string \<Rightarrow> string option \<Rightarrow> int option \<Rightarrow> unit io" where
  "workflow_run_branch w config bname remote tools_pr_id =
     (case config of
        None \<Rightarrow> io_raise AssertionError
      | Some cfg \<Rightarrow>
          (let wspath = workspace cfg in
           io_bind (resolve_remote w cfg remote) (\<lambda>origin.
           io_seq (update w wspath ''ceph'' (Some origin))
          (io_bind (exit_on_error (fetch w wspath ''ceph'' origin bname)) (\<lambda>ceph_branch.
           run_for_local w wspath cfg ceph_branch tools_pr_id)))))"


lemma find_s3gw_image_find:
  "find_s3gw_image images revision = map_option image_ref (find (s3gw_match revision) images)"
  by (induction images) (simp_all add: s3gw_match_def)

lemma find_build_image_find:
  "find_build_image images revision = map_option image_ref (find (build_match revision) images)"
  by (induction images) (simp_all add: build_match_def)

lemma find_first_split:
  "find P xs = Some x \<longleftrightarrow> (\<exists>pre post. xs = pre @ x # post \<and> P x \<and> list_all (\<lambda>y. \<not> P y) pre)"
proof (induction xs)
  case Nil
  then show ?case by simp
next
  case (Cons a xs)
  show ?case
  proof (cases "P a")
    case True
    have "(\<exists>pre post. a # xs = pre @ x # post \<and> P x \<and> list_all (\<lambda>y. \<not> P y) pre) \<longleftrightarrow> a = x"
    proof
      assume "\<exists>pre post. a # xs = pre @ x # post \<and> P x \<and> list_all (\<lambda>y. \<not> P y) pre"
      then obtain pre post where h: "a # xs = pre @ x # post" "list_all (\<lambda>y. \<not> P y) pre"
        by blast
      show "a = x"
      proof (cases pre)
        case Nil
        with h show ?thesis by simp
      next
        case (Cons b pre')
        with h True show ?thesis by simp
      qed
    next
      assume "a = x"
      then have "a # xs = [] @ x # xs \<and> P x \<and> list_all (\<lambda>y. \<not> P y) []"
        using True by simp
      then show "\<exists>pre post. a # xs = pre @ x # post \<and> P x \<and> list_all (\<lambda>y. \<not> P y) pre"
        by blast
    qed
    with True show ?thesis by simp
  next
    case False
    have "(\<exists>pre post. a # xs = pre @ x # post \<and> P x \<and> list_all (\<lambda>y. \<not> P y) pre)
          \<longleftrightarrow> (\<exists>pre post. xs = pre @ x # post \<and> P x \<and> list_all (\<lambda>y. \<not> P y) pre)"
    proof
      assume "\<exists>pre post. a # xs = pre @ x # post \<and> P x \<and> list_all (\<lambda>y. \<not> P y) pre"
      then obtain pre post where h: "a # xs = pre @ x # post" "P x" "list_all (\<lambda>y. \<not> P y) pre"
        by blast
      show "\<exists>pre post. xs = pre @ x # post \<and> P x \<and> list_all (\<lambda>y. \<not> P y) pre"
      proof (cases pre)
        case Nil
        with h False show ?thesis by simp
      next
        case (Cons b pre')
        with h have "xs = pre' @ x # post \<and> P x \<and> list_all (\<lambda>y. \<not> P y) pre'" by simp
        then show ?thesis by blast
      qed
    next
      assume "\<exists>pre post. xs = pre @ x # post \<and> P x \<and> list_all (\<lambda>y. \<not> P y) pre"
      then obtain pre post where h: "xs = pre @ x # post" "P x" "list_all (\<lambda>y. \<not> P y) pre"
        by blast
      then have "a # xs = (a # pre) @ x # post \<and> P x \<and> list_all (\<lambda>y. \<not> P y) (a # pre)"
        using False by simp
      then show "\<exists>pre post. a # xs = pre @ x # post \<and> P x \<and> list_all (\<lambda>y. \<not> P y) pre"
        by blast
    qed
    with False Cons.IH show ?thesis by simp
  qed
qed

lemma find_none_all: "find P xs = None \<longleftrightarrow> list_all (\<lambda>y. \<not> P y) xs"
  by (induction xs) simp_all

section \<open>Claims about the artifact cache\<close>

text \<open>
  Claim C2 holds of the runtime lookup and does not hold of the builder lookup, whose test
  on the name (line 431) is containment where the runtime lookup (line 408) tests the end of
  the name. What the code does, for every registry listing and revision string: the runtime
  lookup returns a match exactly when some listed image's name ends with \<open>popcorn/s3gw\<close> and
  its tag equals the revision; the builder lookup returns a match exactly when some listed
  image's name \<^emph>\<open>contains\<close> \<open>popcorn/builder\<close> and its tag equals the revision. In both, the
  image returned (as \<open>name:tag\<close>) is the first one in listing order that satisfies the
  lookup's two conditions, and no image failing either of them is returned.
\<close>

theorem artifact_lookup_first_match:
  "(find_s3gw_image images revision = Some r \<longleftrightarrow>
      (\<exists>pre img post. images = pre @ img # post
         \<and> endswith (name img) ''popcorn/s3gw'' \<and> tag img = revision
         \<and> list_all (\<lambda>y. \<not> (endswith (name y) ''popcorn/s3gw'' \<and> tag y = revision)) pre
         \<and> r = name img @ '':'' @ tag img))
   \<and> (find_s3gw_image images revision = None \<longleftrightarrow>
      list_all (\<lambda>y. \<not> (endswith (name y) ''popcorn/s3gw'' \<and> tag y = revision)) images)
   \<and> (find_build_image images revision = Some b \<longleftrightarrow>
      (\<exists>pre img post. images = pre @ img # post
         \<and> str_in ''popcorn/builder'' (name img) \<and> tag img = revision
         \<and> list_all (\<lambda>y. \<not> (str_in ''popcorn/builder'' (name y) \<and> tag y = revision)) pre
         \<and> b = name img @ '':'' @ tag img))
   \<and> (find_build_image images revision = None \<longleftrightarrow>
      list_all (\<lambda>y. \<not> (str_in ''popcorn/builder'' (name y) \<and> tag y = revision)) images)"
proof -
  have m1: "s3gw_match revision = (\<lambda>y. endswith (name y) ''popcorn/s3gw'' \<and> tag y = revision)"
    by (auto simp: s3gw_match_def s3gw_image_name_def fun_eq_iff)
  have m2: "build_match revision = (\<lambda>y. str_in ''popcorn/builder'' (name y) \<and> tag y = revision)"
    by (auto simp: build_match_def build_img_name_def fun_eq_iff)
  have a: "find_s3gw_image images revision = Some r \<longleftrightarrow>
      (\<exists>img. find (s3gw_match revision) images = Some img \<and> r = image_ref img)"
    by (auto simp: find_s3gw_image_find)
  have b: "find_build_image images revision = Some b \<longleftrightarrow>
      (\<exists>img. find (build_match revision) images = Some img \<and> b = image_ref img)"
    by (auto simp: find_build_image_find)
  have c: "find_s3gw_image images revision = None \<longleftrightarrow> find (s3gw_match revision) images = None"
    by (simp add: find_s3gw_image_find)
  have d: "find_build_image images revision = None \<longleftrightarrow> find (build_match revision) images = None"
    by (simp add: find_build_image_find)
  show ?thesis
    unfolding a b c d find_first_split find_none_all m1 m2 image_ref_def
    by blast
qed


text \<open>The theorem at a listing of four images.\<close>

theorem artifact_lookup_first_match_witness:
  "find_s3gw_image
     [\<lparr>name = ''localhost/popcorn/builder'', tag = ''abc1234'', sha = ''01''\<rparr>,
      \<lparr>name = ''localhost/popcorn/s3gw'', tag = ''0000000'', sha = ''02''\<rparr>,
      \<lparr>name = ''localhost/popcorn/s3gw'', tag = ''abc1234'', sha = ''03''\<rparr>,
      \<lparr>name = ''quay.io/popcorn/s3gw'', tag = ''abc1234'', sha = ''04''\<rparr>] ''abc1234''
     = Some ''localhost/popcorn/s3gw:abc1234''
   \<and> find_build_image
     [\<lparr>name = ''localhost/popcorn/builder'', tag = ''abc1234'', sha = ''01''\<rparr>,
      \<lparr>name = ''localhost/popcorn/s3gw'', tag = ''0000000'', sha = ''02''\<rparr>,
      \<lparr>name = ''localhost/popcorn/s3gw'', tag = ''abc1234'', sha = ''03''\<rparr>,
      \<lparr>name = ''quay.io/popcorn/s3gw'', tag = ''abc1234'', sha = ''04''\<rparr>] ''fffffff''
     = None"
proof -
  let ?imgs = "[\<lparr>name = ''localhost/popcorn/builder'', tag = ''abc1234'', sha = ''01''\<rparr>,
      \<lparr>name = ''localhost/popcorn/s3gw'', tag = ''0000000'', sha = ''02''\<rparr>,
      \<lparr>name = ''localhost/popcorn/s3gw'', tag = ''abc1234'', sha = ''03''\<rparr>,
      \<lparr>name = ''quay.io/popcorn/s3gw'', tag = ''abc1234'', sha = ''04''\<rparr>]"
  have split: "?imgs = [\<lparr>name = ''localhost/popcorn/builder'', tag = ''abc1234'', sha = ''01''\<rparr>,
      \<lparr>name = ''localhost/popcorn/s3gw'', tag = ''0000000'', sha = ''02''\<rparr>]
      @ \<lparr>name = ''localhost/popcorn/s3gw'', tag = ''abc1234'', sha = ''03''\<rparr>
      # [\<lparr>name = ''quay.io/popcorn/s3gw'', tag = ''abc1234'', sha = ''04''\<rparr>]"
    by simp
  have "find_s3gw_image ?imgs ''abc1234'' = Some ''localhost/popcorn/s3gw:abc1234''"
    unfolding conjunct1 [OF artifact_lookup_first_match [of ?imgs "''abc1234''" "''localhost/popcorn/s3gw:abc1234''" undefined]]
    apply (rule exI, rule exI, rule exI, rule conjI, rule split)
    by (simp add: endswith_def suffix_to_prefix)
  moreover have "find_build_image ?imgs ''fffffff'' = None"
    unfolding conjunct2 [OF conjunct2 [OF conjunct2 [OF artifact_lookup_first_match [of ?imgs "''fffffff''" undefined undefined]]]]
    by simp
  ultimately show ?thesis by simp
qed


text \<open>
  The input on which the builder lookup departs from claim C2: an image named
  \<open>localhost/popcorn/builder-old\<close> is returned although its name does not end with the
  logical name \<open>popcorn/builder\<close>.
\<close>

theorem builder_lookup_substring_counterexample:
  "find_build_image [\<lparr>name = ''localhost/popcorn/builder-old'', tag = ''abc1234'', sha = ''01''\<rparr>] ''abc1234''
     = Some ''localhost/popcorn/builder-old:abc1234''
   \<and> \<not> endswith ''localhost/popcorn/builder-old'' ''popcorn/builder''"
  by (simp add: str_in_def build_img_name_def image_ref_def sublist_code endswith_def suffix_to_prefix)


section \<open>Running a computation: the equations of the combinators\<close>

lemma io_return_apply: "io_return x h = ([], Inr x)" by (simp add: io_return_def)
lemma io_raise_apply: "io_raise e h = ([], Inl e)" by (simp add: io_raise_def)
lemma sys_exit_apply: "sys_exit n h = ([], Inl (SystemExit n))" by (simp add: sys_exit_def io_raise_def)
lemma echo_apply: "echo s h = ([Echo s], Inr ())" by (simp add: echo_def)
lemma io_assert_apply: "io_assert b h = ([], if b then Inr () else Inl AssertionError)"
  by (simp add: io_assert_def io_return_def io_raise_def)
lemma assert_exists_apply: "assert_exists w p h = ([], if path_exists w h p then Inr () else Inl AssertionError)"
  by (simp add: assert_exists_def)
lemma assert_is_file_apply: "assert_is_file w p h = ([], if path_is_file w h p then Inr () else Inl AssertionError)"
  by (simp add: assert_is_file_def)
lemma io_when_apply: "io_when b m h = (if b then m h else ([], Inr ()))"
  by (simp add: io_when_def io_return_def)
lemma io_bind_apply: "io_bind m f h = (case m h of
       (evs, Inl e) \<Rightarrow> (evs, Inl e)
     | (evs, Inr x) \<Rightarrow> (case f x (h @ evs) of (evs', r) \<Rightarrow> (evs @ evs', r)))"
  by (simp add: io_bind_def)
lemma io_seq_apply: "io_seq m n h = (case m h of
       (evs, Inl e) \<Rightarrow> (evs, Inl e)
     | (evs, Inr x) \<Rightarrow> (case n (h @ evs) of (evs', r) \<Rightarrow> (evs @ evs', r)))"
  by (simp add: io_seq_def io_bind_def)
lemma io_catch_apply: "io_catch m handler h = (case m h of
       (evs, Inr x) \<Rightarrow> (evs, Inr x)
     | (evs, Inl e) \<Rightarrow> (case handler e of
           None \<Rightarrow> (evs, Inl e)
         | Some k \<Rightarrow> (case k (h @ evs) of (evs', r) \<Rightarrow> (evs @ evs', r))))"
  by (simp add: io_catch_def)
lemma subprocess_run_apply: "subprocess_run w cwd cmd h =
   ([Exec cwd cmd (run_result w h cwd cmd)],
    case run_result w h cwd cmd of None \<Rightarrow> Inl OSError | Some p \<Rightarrow> Inr p)"
  by (simp add: subprocess_run_def split: option.splits)
lemma requests_get_apply: "requests_get w url h =
   ([Get url (get_result w h url)],
    case get_result w h url of None \<Rightarrow> Inl RequestException | Some r \<Rightarrow> Inr r)"
  by (simp add: requests_get_def split: option.splits)

lemmas io_simps = io_return_apply io_raise_apply sys_exit_apply echo_apply io_assert_apply
  assert_exists_apply assert_is_file_apply io_when_apply io_bind_apply io_seq_apply io_catch_apply
  subprocess_run_apply requests_get_apply

lemma io_bind_cases:
  assumes "io_bind m f h = (evs, r)"
  obtains (abort) e where "m h = (evs, Inl e)" "r = Inl e"
        | (cont) e1 x e2 where "m h = (e1, Inr x)" "f x (h @ e1) = (e2, r)" "evs = e1 @ e2"
  using assms by (auto simp: io_bind_apply split: prod.splits sum.splits)

lemma io_seq_cases:
  assumes "io_seq m n h = (evs, r)"
  obtains (abort) e where "m h = (evs, Inl e)" "r = Inl e"
        | (cont) e1 x e2 where "m h = (e1, Inr x)" "n (h @ e1) = (e2, r)" "evs = e1 @ e2"
  using assms by (auto simp: io_seq_apply split: prod.splits sum.splits)


section \<open>Claims about \<open>git.fetch\<close>\<close>

lemma assert_repo_apply:
  "assert_repo w rp h = ([], if path_exists w h rp \<and> path_exists w h (joinpath rp ''.git'') then Inr () else Inl AssertionError)"
  by (simp add: assert_repo_def io_simps)

lemma fetch_apply:
  "fetch w wspath repo origin branch h =
    (if \<not> (path_exists w h (repo_path wspath repo) \<and> path_exists w h (joinpath (repo_path wspath repo) ''.git''))
     then ([], Inl AssertionError)
     else (case run_result w h (Some (repo_path wspath repo)) [''git'', ''branch'', ''--show-current''] of
        None \<Rightarrow> ([Exec (Some (repo_path wspath repo)) [''git'', ''branch'', ''--show-current''] None], Inl OSError)
      | Some p0 \<Rightarrow>
         if returncode p0 \<noteq> 0
         then ([Exec (Some (repo_path wspath repo)) [''git'', ''branch'', ''--show-current''] (Some p0)],
               Inl (PopcornError (Some (''error obtaining branch: '' @ repr_bytes w (stderr p0)))))
         else (let c = fetch_cmd (strip (stdout p0)) origin branch (''popcorn/'' @ origin @ ''/'' @ branch);
                   res = run_result w (h @ [Exec (Some (repo_path wspath repo)) [''git'', ''branch'', ''--show-current''] (Some p0)])
                           (Some (repo_path wspath repo)) c in
               ([Exec (Some (repo_path wspath repo)) [''git'', ''branch'', ''--show-current''] (Some p0),
                 Exec (Some (repo_path wspath repo)) c res],
                case res of
                  None \<Rightarrow> Inl OSError
                | Some p1 \<Rightarrow>
                    if returncode p1 \<noteq> 0
                    then Inl (PopcornError (Some (''error fetching branch '' @ branch
                              @ '' for repository '' @ repo @ '': '' @ repr_bytes w (stderr p1))))
                    else Inr (''popcorn/'' @ origin @ ''/'' @ branch)))))"
  by (simp add: fetch_def Let_def assert_repo_apply io_simps split: option.splits)

text \<open>A world in which \<open>popcorn/origin/fix-123\<close> is checked out, \<open>git pull\<close> succeeds and
  every other command fails.\<close>

definition w_pull :: world where
  "w_pull = \<lparr>
     run_result = (\<lambda>h cwd cmd. Some
        (if cmd = [''git'', ''branch'', ''--show-current'']
         then \<lparr>returncode = 0, stdout = ''popcorn/origin/fix-123'' @ [CHR 0x0A], stderr = []\<rparr>
         else if take 2 cmd = [''git'', ''pull'']
         then \<lparr>returncode = 0, stdout = [], stderr = []\<rparr>
         else \<lparr>returncode = 1, stdout = [], stderr = ''fatal: refusing to fetch into current branch''\<rparr>)),
     get_result = (\<lambda>h url. None),
     path_exists = (\<lambda>h p. True),
     path_is_file = (\<lambda>h p. True),
     json_loads = (\<lambda>s. None),
     repr_bytes = (\<lambda>s. ''b'' @ sq @ s @ sq),
     getcwd = ''/''\<rparr>"

text \<open>
  Claim C8. For every fetch of a branch from a remote, \<open>fetch\<close> computes the local ref
  \<open>popcorn/<remote>/<branch>\<close> and that is what it returns when it returns; once the
  repository's path assertions hold it asks git for the current branch; when that call
  exits 0 the next and last command is the forced pull \<open>git pull --force\<close> into that ref
  exactly when the current branch (the stripped output) equals the namespaced name, and
  the plain \<open>git fetch\<close> into that ref otherwise, and \<open>fetch\<close> returns the ref when that
  command exits 0; a non-zero exit of either command raises \<open>PopcornError\<close> whose message
  carries the command's standard error.
\<close>

theorem fetch_behaviour:
  assumes run: "fetch w wspath repo origin branch h = (evs, r)"
  shows "(\<forall>x. r = Inr x \<longrightarrow> x = ''popcorn/'' @ origin @ ''/'' @ branch)
    \<and> (path_exists w h (repo_path wspath repo) \<and> path_exists w h (joinpath (repo_path wspath repo) ''.git'')
        \<longrightarrow> (\<exists>res rest. evs = Exec (Some (repo_path wspath repo)) [''git'', ''branch'', ''--show-current''] res # rest))
    \<and> (\<forall>p0. Exec (Some (repo_path wspath repo)) [''git'', ''branch'', ''--show-current''] (Some p0) \<in> set evs
           \<and> returncode p0 \<noteq> 0
        \<longrightarrow> r = Inl (PopcornError (Some (''error obtaining branch: '' @ repr_bytes w (stderr p0)))))
    \<and> (\<forall>p0. Exec (Some (repo_path wspath repo)) [''git'', ''branch'', ''--show-current''] (Some p0) \<in> set evs
           \<and> returncode p0 = 0
        \<longrightarrow> (\<exists>res. evs = [Exec (Some (repo_path wspath repo)) [''git'', ''branch'', ''--show-current''] (Some p0),
                             Exec (Some (repo_path wspath repo))
                               (if strip (stdout p0) = ''popcorn/'' @ origin @ ''/'' @ branch
                                then [''git'', ''pull'', ''--force'', origin,
                                      branch @ '':'' @ ''popcorn/'' @ origin @ ''/'' @ branch]
                                else [''git'', ''fetch'', origin,
                                      branch @ '':'' @ ''popcorn/'' @ origin @ ''/'' @ branch]) res]
               \<and> (case res of
                     None \<Rightarrow> r = Inl OSError
                   | Some p1 \<Rightarrow>
                       if returncode p1 = 0 then r = Inr (''popcorn/'' @ origin @ ''/'' @ branch)
                       else r = Inl (PopcornError (Some (''error fetching branch '' @ branch
                              @ '' for repository '' @ repo @ '': '' @ repr_bytes w (stderr p1)))))))"
proof (cases "path_exists w h (repo_path wspath repo) \<and> path_exists w h (joinpath (repo_path wspath repo) ''.git'')")
  case False
  with run have "evs = []" "r = Inl AssertionError"
    by (simp_all add: fetch_apply)
  with False show ?thesis by simp
next
  case True
  show ?thesis
  proof (cases "run_result w h (Some (repo_path wspath repo)) [''git'', ''branch'', ''--show-current'']")
    case None
    with run True have "evs = [Exec (Some (repo_path wspath repo)) [''git'', ''branch'', ''--show-current''] None]"
        "r = Inl OSError"
      by (simp_all add: fetch_apply)
    then show ?thesis by simp
  next
    case (Some p0)
    show ?thesis
    proof (cases "returncode p0 = 0")
      case False
      with run True Some
      have "evs = [Exec (Some (repo_path wspath repo)) [''git'', ''branch'', ''--show-current''] (Some p0)]"
        "r = Inl (PopcornError (Some (''error obtaining branch: '' @ repr_bytes w (stderr p0))))"
        by (simp_all add: fetch_apply)
      with False show ?thesis by simp
    next
      case rc: True
      define c where "c = fetch_cmd (strip (stdout p0)) origin branch (''popcorn/'' @ origin @ ''/'' @ branch)"
      define res where "res = run_result w (h @ [Exec (Some (repo_path wspath repo)) [''git'', ''branch'', ''--show-current''] (Some p0)])
                           (Some (repo_path wspath repo)) c"
      have cne: "c \<noteq> [''git'', ''branch'', ''--show-current'']"
        by (simp add: c_def fetch_cmd_def)
      from run True Some rc
      have evs: "evs = [Exec (Some (repo_path wspath repo)) [''git'', ''branch'', ''--show-current''] (Some p0),
                 Exec (Some (repo_path wspath repo)) c res]"
        and r: "r = (case res of
                  None \<Rightarrow> Inl OSError
                | Some p1 \<Rightarrow>
                    if returncode p1 \<noteq> 0
                    then Inl (PopcornError (Some (''error fetching branch '' @ branch
                              @ '' for repository '' @ repo @ '': '' @ repr_bytes w (stderr p1))))
                    else Inr (''popcorn/'' @ origin @ ''/'' @ branch))"
        by (simp_all add: fetch_apply Let_def c_def res_def)
      have c_eq: "c = (if strip (stdout p0) = ''popcorn/'' @ origin @ ''/'' @ branch
                                then [''git'', ''pull'', ''--force'', origin,
                                      branch @ '':'' @ ''popcorn/'' @ origin @ ''/'' @ branch]
                                else [''git'', ''fetch'', origin,
                                      branch @ '':'' @ ''popcorn/'' @ origin @ ''/'' @ branch])"
        by (simp add: c_def fetch_cmd_def)
      have 1: "\<forall>x. r = Inr x \<longrightarrow> x = ''popcorn/'' @ origin @ ''/'' @ branch"
        by (simp add: r split: option.splits if_splits)
      have 2: "\<exists>res rest. evs = Exec (Some (repo_path wspath repo)) [''git'', ''branch'', ''--show-current''] res # rest"
        by (simp add: evs)
      have mem: "\<And>q. Exec (Some (repo_path wspath repo)) [''git'', ''branch'', ''--show-current''] (Some q) \<in> set evs
           \<longleftrightarrow> q = p0"
        using cne by (auto simp: evs)
      have 3: "\<forall>q. Exec (Some (repo_path wspath repo)) [''git'', ''branch'', ''--show-current''] (Some q) \<in> set evs
           \<and> returncode q \<noteq> 0
        \<longrightarrow> r = Inl (PopcornError (Some (''error obtaining branch: '' @ repr_bytes w (stderr q))))"
        using rc by (simp add: mem)
      have 4: "(case res of
                     None \<Rightarrow> r = Inl OSError
                   | Some p1 \<Rightarrow>
                       if returncode p1 = 0 then r = Inr (''popcorn/'' @ origin @ ''/'' @ branch)
                       else r = Inl (PopcornError (Some (''error fetching branch '' @ branch
                              @ '' for repository '' @ repo @ '': '' @ repr_bytes w (stderr p1)))))"
        by (simp add: r split: option.splits)
      have 5: "\<forall>q. Exec (Some (repo_path wspath repo)) [''git'', ''branch'', ''--show-current''] (Some q) \<in> set evs
           \<and> returncode q = 0
        \<longrightarrow> (\<exists>res. evs = [Exec (Some (repo_path wspath repo)) [''git'', ''branch'', ''--show-current''] (Some q),
                             Exec (Some (repo_path wspath repo))
                               (if strip (stdout q) = ''popcorn/'' @ origin @ ''/'' @ branch
                                then [''git'', ''pull'', ''--force'', origin,
                                      branch @ '':'' @ ''popcorn/'' @ origin @ ''/'' @ branch]
                                else [''git'', ''fetch'', origin,
                                      branch @ '':'' @ ''popcorn/'' @ origin @ ''/'' @ branch]) res]
               \<and> (case res of
                     None \<Rightarrow> r = Inl OSError
                   | Some p1 \<Rightarrow>
                       if returncode p1 = 0 then r = Inr (''popcorn/'' @ origin @ ''/'' @ branch)
                       else r = Inl (PopcornError (Some (''error fetching branch '' @ branch
                              @ '' for repository '' @ repo @ '': '' @ repr_bytes w (stderr p1))))))"
      proof (intro allI impI)
        fix q
        assume "Exec (Some (repo_path wspath repo)) [''git'', ''branch'', ''--show-current''] (Some q) \<in> set evs
           \<and> returncode q = 0"
        then have q: "q = p0" by (simp add: mem)
        show "\<exists>res. evs = [Exec (Some (repo_path wspath repo)) [''git'', ''branch'', ''--show-current''] (Some q),
                             Exec (Some (repo_path wspath repo))
                               (if strip (stdout q) = ''popcorn/'' @ origin @ ''/'' @ branch
                                then [''git'', ''pull'', ''--force'', origin,
                                      branch @ '':'' @ ''popcorn/'' @ origin @ ''/'' @ branch]
                                else [''git'', ''fetch'', origin,
                                      branch @ '':'' @ ''popcorn/'' @ origin @ ''/'' @ branch]) res]
               \<and> (case res of
                     None \<Rightarrow> r = Inl OSError
                   | Some p1 \<Rightarrow>
                       if returncode p1 = 0 then r = Inr (''popcorn/'' @ origin @ ''/'' @ branch)
                       else r = Inl (PopcornError (Some (''error fetching branch '' @ branch
                              @ '' for repository '' @ repo @ '': '' @ repr_bytes w (stderr p1)))))"
          unfolding q using 4 evs[unfolded c_eq] by (intro exI[of _ res] conjI)
      qed
      from 1 2 3 5 show ?thesis by (intro conjI impI)
    qed
  qed
qed

text \<open>The theorem of claim C8 in a world where the namespaced ref is checked out (a forced
  pull, which succeeds) and for another branch (a plain fetch, which fails).\<close>

theorem fetch_behaviour_witness:
  "fetch w_pull ''/ws'' ''ceph'' ''origin'' ''fix-123'' [] =
     ([Exec (Some ''/ws/ceph.git'') [''git'', ''branch'', ''--show-current'']
         (Some \<lparr>returncode = 0, stdout = ''popcorn/origin/fix-123'' @ [CHR 0x0A], stderr = []\<rparr>),
       Exec (Some ''/ws/ceph.git'') [''git'', ''pull'', ''--force'', ''origin'', ''fix-123:popcorn/origin/fix-123'']
         (Some \<lparr>returncode = 0, stdout = [], stderr = []\<rparr>)],
      Inr ''popcorn/origin/fix-123'')
   \<and> fetch w_pull ''/ws'' ''ceph'' ''origin'' ''main'' [] =
     ([Exec (Some ''/ws/ceph.git'') [''git'', ''branch'', ''--show-current'']
         (Some \<lparr>returncode = 0, stdout = ''popcorn/origin/fix-123'' @ [CHR 0x0A], stderr = []\<rparr>),
       Exec (Some ''/ws/ceph.git'') [''git'', ''fetch'', ''origin'', ''main:popcorn/origin/main'']
         (Some \<lparr>returncode = 1, stdout = [], stderr = ''fatal: refusing to fetch into current branch''\<rparr>)],
      Inl (PopcornError (Some (''error fetching branch main for repository ceph: b''
             @ sq @ ''fatal: refusing to fetch into current branch'' @ sq))))"
proof -
  obtain evs r where eq: "fetch w_pull ''/ws'' ''ceph'' ''origin'' ''fix-123'' [] = (evs, r)"
    by (cases "fetch w_pull ''/ws'' ''ceph'' ''origin'' ''fix-123'' []")
  obtain evs' r' where eq': "fetch w_pull ''/ws'' ''ceph'' ''origin'' ''main'' [] = (evs', r')"
    by (cases "fetch w_pull ''/ws'' ''ceph'' ''origin'' ''main'' []")
  note a = fetch_behaviour [OF eq] and b = fetch_behaviour [OF eq']
  have c: "fetch w_pull ''/ws'' ''ceph'' ''origin'' ''fix-123'' [] =
     ([Exec (Some ''/ws/ceph.git'') [''git'', ''branch'', ''--show-current'']
         (Some \<lparr>returncode = 0, stdout = ''popcorn/origin/fix-123'' @ [CHR 0x0A], stderr = []\<rparr>),
       Exec (Some ''/ws/ceph.git'') [''git'', ''pull'', ''--force'', ''origin'', ''fix-123:popcorn/origin/fix-123'']
         (Some \<lparr>returncode = 0, stdout = [], stderr = []\<rparr>)],
      Inr ''popcorn/origin/fix-123'')"
    by code_simp
  have d: "fetch w_pull ''/ws'' ''ceph'' ''origin'' ''main'' [] =
     ([Exec (Some ''/ws/ceph.git'') [''git'', ''branch'', ''--show-current'']
         (Some \<lparr>returncode = 0, stdout = ''popcorn/origin/fix-123'' @ [CHR 0x0A], stderr = []\<rparr>),
       Exec (Some ''/ws/ceph.git'') [''git'', ''fetch'', ''origin'', ''main:popcorn/origin/main'']
         (Some \<lparr>returncode = 1, stdout = [], stderr = ''fatal: refusing to fetch into current branch''\<rparr>)],
      Inl (PopcornError (Some (''error fetching branch main for repository ceph: b''
             @ sq @ ''fatal: refusing to fetch into current branch'' @ sq))))"
    by code_simp
  from a b c d show ?thesis by simp
qed


section \<open>Running a computation step by step\<close>

text \<open>
  Rewrite rules that run a sequence from its first step on: \<open>emit es x\<close> puts the events
  \<open>es\<close> in front of what the rest of the computation adds.
\<close>

definition emit :: "event list \<Rightarrow> event list \<times> 'r \<Rightarrow> event list \<times> 'r" where
  "emit es x = (es @ fst x, snd x)"

lemma emit_pair: "emit es (evs, r) = (es @ evs, r)" by (simp add: emit_def)
lemma emit_if: "emit es (if c then a else b) = (if c then emit es a else emit es b)" by simp
lemma emit_option: "emit es (case x of None \<Rightarrow> a | Some p \<Rightarrow> b p) = (case x of None \<Rightarrow> emit es a | Some p \<Rightarrow> emit es (b p))"
  by (simp split: option.splits)
lemma emit_sum: "emit es (case x of Inl p \<Rightarrow> a p | Inr q \<Rightarrow> b q) = (case x of Inl p \<Rightarrow> emit es (a p) | Inr q \<Rightarrow> emit es (b q))"
  by (simp split: sum.splits)
lemma emit_emit: "emit es (emit es' x) = emit (es @ es') x" by (simp add: emit_def)

lemma io_bind_emit: "io_bind m f h = (case m h of (evs, Inl e) \<Rightarrow> (evs, Inl e) | (evs, Inr x) \<Rightarrow> emit evs (f x (h @ evs)))"
  by (simp add: io_bind_def emit_def split: prod.splits sum.splits)

lemma bind_return: "io_bind (io_return x) f h = f x h"
  by (simp add: io_bind_apply io_return_apply)
lemma seq_return: "io_seq (io_return x) n h = n h"
  by (simp add: io_seq_apply io_return_apply)
lemma bind_raise: "io_bind (io_raise e) f h = ([], Inl e)"
  by (simp add: io_bind_apply io_raise_apply)
lemma seq_raise: "io_seq (io_raise e) n h = ([], Inl e)"
  by (simp add: io_seq_apply io_raise_apply)
lemma bind_sys_exit: "io_bind (sys_exit k) f h = ([], Inl (SystemExit k))"
  by (simp add: io_bind_apply sys_exit_apply)
lemma seq_sys_exit: "io_seq (sys_exit k) n h = ([], Inl (SystemExit k))"
  by (simp add: io_seq_apply sys_exit_apply)
lemma seq_echo: "io_seq (echo s) n h = emit [Echo s] (n (h @ [Echo s]))"
  by (simp add: io_seq_apply echo_apply emit_def split: prod.splits)
lemma bind_exec: "io_bind (subprocess_run w cwd cmd) f h =
    (case run_result w h cwd cmd of
       None \<Rightarrow> ([Exec cwd cmd None], Inl OSError)
     | Some p \<Rightarrow> emit [Exec cwd cmd (Some p)] (f p (h @ [Exec cwd cmd (Some p)])))"
  by (simp add: io_bind_apply subprocess_run_apply emit_def split: option.splits prod.splits)
lemma bind_get: "io_bind (requests_get w url) f h =
    (case get_result w h url of
       None \<Rightarrow> ([Get url None], Inl RequestException)
     | Some p \<Rightarrow> emit [Get url (Some p)] (f p (h @ [Get url (Some p)])))"
  by (simp add: io_bind_apply requests_get_apply emit_def split: option.splits prod.splits)
lemma seq_assert: "io_seq (io_assert b) n h = (if b then n h else ([], Inl AssertionError))"
  by (simp add: io_seq_apply io_assert_apply split: prod.splits)
lemma seq_assert_exists: "io_seq (assert_exists w p) n h = (if path_exists w h p then n h else ([], Inl AssertionError))"
  by (simp add: io_seq_apply assert_exists_apply split: prod.splits)
lemma seq_assert_is_file: "io_seq (assert_is_file w p) n h = (if path_is_file w h p then n h else ([], Inl AssertionError))"
  by (simp add: io_seq_apply assert_is_file_apply split: prod.splits)
lemma seq_when: "io_seq (io_when b m) n h = (if b then io_seq m n h else n h)"
  by (simp add: io_seq_apply io_when_apply split: prod.splits)
lemma bind_if: "io_bind (if c then m1 else m2) f h = (if c then io_bind m1 f h else io_bind m2 f h)" by simp
lemma seq_if: "io_seq (if c then m1 else m2) n h = (if c then io_seq m1 n h else io_seq m2 n h)" by simp
lemma bind_option: "io_bind (case x of None \<Rightarrow> a | Some y \<Rightarrow> b y) f h =
   (case x of None \<Rightarrow> io_bind a f h | Some y \<Rightarrow> io_bind (b y) f h)" by (simp split: option.splits)
lemma seq_option: "io_seq (case x of None \<Rightarrow> a | Some y \<Rightarrow> b y) n h =
   (case x of None \<Rightarrow> io_seq a n h | Some y \<Rightarrow> io_seq (b y) n h)" by (simp split: option.splits)
lemma bind_sum: "io_bind (case x of Inl y \<Rightarrow> a y | Inr z \<Rightarrow> b z) f h =
   (case x of Inl y \<Rightarrow> io_bind (a y) f h | Inr z \<Rightarrow> io_bind (b z) f h)" by (simp split: sum.splits)
lemma if_echo: "(if c then echo a else echo b) = echo (if c then a else b)" by simp
lemma if_apply: "(if c then m else n) h = (if c then m h else n h)" by simp
lemma option_apply: "(case x of None \<Rightarrow> a | Some y \<Rightarrow> b y) h = (case x of None \<Rightarrow> a h | Some y \<Rightarrow> b y h)"
  by (simp split: option.splits)

lemma bind_assoc: "io_bind (io_bind m f) g = io_bind m (\<lambda>x. io_bind (f x) g)"
  by (rule ext) (simp add: io_bind_def split: prod.splits sum.splits)
lemma seq_assoc: "io_seq (io_seq m n) k = io_seq m (io_seq n k)"
  by (simp add: io_seq_def bind_assoc)
lemma bind_seq_assoc: "io_bind (io_seq m n) f = io_seq m (io_bind n f)"
  by (simp add: io_seq_def bind_assoc)
lemma seq_bind_assoc: "io_seq (io_bind m f) n = io_bind m (\<lambda>x. io_seq (f x) n)"
  by (simp add: io_seq_def bind_assoc)

lemmas run_simps = if_echo emit_pair emit_if emit_option emit_sum emit_emit
  bind_return seq_return bind_raise seq_raise bind_sys_exit seq_sys_exit seq_echo bind_exec bind_get
  seq_assert seq_assert_exists seq_assert_is_file seq_when bind_if seq_if bind_option seq_option bind_sum
  bind_assoc seq_assoc bind_seq_assoc seq_bind_assoc
  io_return_apply io_raise_apply sys_exit_apply echo_apply io_assert_apply assert_exists_apply
  assert_is_file_apply io_when_apply subprocess_run_apply requests_get_apply


section \<open>Claims about the test runner\<close>

text \<open>
  Claim C5. In every execution of \<open>run_tests\<close> whose transcript shows the runtime container
  started (\<open>podman run --detach ... popcorn-s3gw\<close> exited 0 and printed a container id, which
  the assertion of line 287 asks for), the harness \<open>./run-tests.sh\<close> is the next command;
  whenever the harness call comes back with an exit status \<open>p2\<close>, zero or not, the next
  command is \<open>podman stop popcorn-s3gw\<close>; and when that stop command cannot be run or exits
  non-zero, the run ends with an exception (\<open>sys.exit(1)\<close> after the message for a non-zero
  exit) and the process's exit status is 1. When the stop succeeds the result is the
  verdict \<open>returncode p2 = 0\<close>.
\<close>

theorem run_tests_teardown:
  assumes run: "run_tests w path s3gw_img h = (evs, r)"
      and started: "Exec None [''podman'', ''run'', ''--detach'', ''--replace'', ''--name'', ''popcorn-s3gw'',
                  ''-p'', ''7480:7480'', s3gw_img] (Some p1) \<in> set evs"
         "returncode p1 = 0" "strip (stdout p1) \<noteq> []"
  shows "\<exists>res2 tail.
           evs = [Echo ''running tests...'',
                  Echo (joinpath (absolute w (joinpath path ''tests'')) ''run-tests.sh''),
                  Echo (''starting s3gw image '' @ s3gw_img @ ''...''),
                  Exec None [''podman'', ''run'', ''--detach'', ''--replace'', ''--name'', ''popcorn-s3gw'',
                             ''-p'', ''7480:7480'', s3gw_img] (Some p1),
                  Echo ''run tests against s3gw running on port 7480...'',
                  Exec (Some (absolute w (joinpath path ''tests''))) [''./run-tests.sh''] res2] @ tail
         \<and> (case res2 of
               None \<Rightarrow> tail = [] \<and> r = Inl OSError
             | Some p2 \<Rightarrow>
                (\<exists>res3 post.
                   tail = [Echo (if returncode p2 \<noteq> 0 then ''error running tests!!'' else ''tests run successfully :)''),
                           Echo ''stop s3gw container...'',
                           Exec None [''podman'', ''stop'', ''popcorn-s3gw''] res3] @ post
                 \<and> (case res3 of
                       None \<Rightarrow> post = [] \<and> r = Inl OSError \<and> exit_code (evs, r) = 1
                     | Some p3 \<Rightarrow>
                         if returncode p3 \<noteq> 0
                         then post = [Echo (''error stopping container '' @ strip (stdout p1) @ '': ''
                                 @ repr_bytes w (stderr p3))]
                              \<and> r = Inl (SystemExit 1) \<and> exit_code (evs, r) = 1
                         else post = [] \<and> r = Inr (returncode p2 = 0))))"
proof -
  let ?td = "absolute w (joinpath path ''tests'')"
  let ?tp = "joinpath ?td ''run-tests.sh''"
  let ?c1 = "[''podman'', ''run'', ''--detach'', ''--replace'', ''--name'', ''popcorn-s3gw'',
                  ''-p'', ''7480:7480'', s3gw_img]"
  let ?e0 = "[Echo ''running tests...'', Echo ?tp]"
  let ?e1 = "[Echo ''running tests...'', Echo ?tp, Echo (''starting s3gw image '' @ s3gw_img @ ''...'')]"
  let ?e2 = "\<lambda>q. [Echo ''running tests...'', Echo ?tp, Echo (''starting s3gw image '' @ s3gw_img @ ''...''),
             Exec None ?c1 (Some q), Echo ''run tests against s3gw running on port 7480...'']"
  let ?verdict = "\<lambda>p2. Echo (if returncode p2 \<noteq> 0 then ''error running tests!!'' else ''tests run successfully :)'')"
  let ?e3 = "\<lambda>q p2. [Echo ''running tests...'', Echo ?tp, Echo (''starting s3gw image '' @ s3gw_img @ ''...''),
             Exec None ?c1 (Some q), Echo ''run tests against s3gw running on port 7480...'',
             Exec (Some ?td) [''./run-tests.sh''] (Some p2), ?verdict p2, Echo ''stop s3gw container...'']"
  have ok: "path_exists w (h @ ?e0) ?tp \<and> path_is_file w (h @ ?e0) ?tp"
  proof (rule ccontr)
    assume "\<not> ?thesis"
    with run have "evs = ?e0"
      by (auto simp: run_tests_def Let_def run_simps split: if_splits)
    with started(1) show False by simp
  qed
  obtain q where q: "run_result w (h @ ?e1) None ?c1 = Some q"
  proof (cases "run_result w (h @ ?e1) None ?c1")
    case None
    with run ok have "evs = ?e1 @ [Exec None ?c1 None]"
      by (simp add: run_tests_def Let_def run_simps)
    with started(1) show ?thesis by simp
  next
    case (Some q)
    then show ?thesis by (rule that)
  qed
  have qp: "q = p1"
  proof (cases "returncode q \<noteq> 0 \<or> strip (stdout q) = []")
    case True
    with run ok q have "set evs \<subseteq> set (?e1 @ [Exec None ?c1 (Some q),
           Echo (''error starting s3gw container: '' @ repr_bytes w (stderr q))])"
      by (auto simp: run_tests_def Let_def run_simps split: if_splits)
    with started(1) show ?thesis by auto
  next
    case False
    show ?thesis
    proof (cases "run_result w (h @ ?e2 q) (Some ?td) [''./run-tests.sh'']")
      case None
      with run ok q False have "evs = ?e2 q @ [Exec (Some ?td) [''./run-tests.sh''] None]"
        by (simp add: run_tests_def Let_def run_simps)
      with started(1) show ?thesis by simp
    next
      case (Some p2)
      with run ok q False have "\<exists>res post. evs = ?e3 q p2 @ Exec None [''podman'', ''stop'', ''popcorn-s3gw''] res # post
             \<and> list_all (\<lambda>e. \<exists>s. e = Echo s) post"
        by (auto simp: run_tests_def Let_def run_simps split: option.splits if_splits)
      with started(1) show ?thesis by (auto simp: list_all_iff)
    qed
  qed
  note q1 = q[unfolded qp]
  show ?thesis
  proof (cases "run_result w (h @ ?e2 p1) (Some ?td) [''./run-tests.sh'']")
    case None
    with run ok q1 started(2,3) have "evs = ?e2 p1 @ [Exec (Some ?td) [''./run-tests.sh''] None]" "r = Inl OSError"
      by (simp_all add: run_tests_def Let_def run_simps)
    then show ?thesis
      by (intro exI[of _ None] exI[of _ "[]"]) simp
  next
    case (Some p2)
    show ?thesis
    proof (cases "run_result w (h @ ?e3 p1 p2) None [''podman'', ''stop'', ''popcorn-s3gw'']")
      case None
      with run ok q1 started(2,3) Some
      have "evs = ?e3 p1 p2 @ [Exec None [''podman'', ''stop'', ''popcorn-s3gw''] None]" "r = Inl OSError"
        by (simp_all add: run_tests_def Let_def run_simps)
      then show ?thesis
        by (intro exI[of _ "Some p2"] exI[of _ "[?verdict p2, Echo ''stop s3gw container...'',
                 Exec None [''podman'', ''stop'', ''popcorn-s3gw''] None]"])
           (auto simp: exit_code_def)
    next
      case p3: (Some p3)
      show ?thesis
      proof (cases "returncode p3 = 0")
        case True
        with run ok q1 started(2,3) Some p3
        have "evs = ?e3 p1 p2 @ [Exec None [''podman'', ''stop'', ''popcorn-s3gw''] (Some p3)]"
             "r = Inr (returncode p2 = 0)"
          by (simp_all add: run_tests_def Let_def run_simps)
        with True show ?thesis
          by (intro exI[of _ "Some p2"] exI[of _ "[?verdict p2, Echo ''stop s3gw container...'',
                 Exec None [''podman'', ''stop'', ''popcorn-s3gw''] (Some p3)]"])
             (auto simp: exit_code_def)
      next
        case False
        with run ok q1 started(2,3) Some p3
        have "evs = ?e3 p1 p2 @ [Exec None [''podman'', ''stop'', ''popcorn-s3gw''] (Some p3),
                 Echo (''error stopping container '' @ strip (stdout p1) @ '': '' @ repr_bytes w (stderr p3))]"
             "r = Inl (SystemExit 1)"
          by (simp_all add: run_tests_def Let_def run_simps)
        with False show ?thesis
          by (intro exI[of _ "Some p2"] exI[of _ "[?verdict p2, Echo ''stop s3gw container...'',
                 Exec None [''podman'', ''stop'', ''popcorn-s3gw''] (Some p3),
                 Echo (''error stopping container '' @ strip (stdout p1) @ '': '' @ repr_bytes w (stderr p3))]"])
             (auto simp: exit_code_def)
      qed
    qed
  qed
qed

text \<open>A world in which every command succeeds but the test harness, which exits 1; the
  registry holds one runtime image tagged \<open>abc1234\<close>, the revision of every repository.\<close>

definition w_fail :: world where
  "w_fail = \<lparr>
     run_result = (\<lambda>h cwd cmd. Some
        (if cmd = [''./run-tests.sh''] then \<lparr>returncode = 1, stdout = [], stderr = []\<rparr>
         else if cmd = [''git'', ''remote'', ''-v'']
           then \<lparr>returncode = 0,
                 stdout = ''origin https://github.com/aquarist-labs/ceph (fetch)'' @ [CHR 0x0A]
                        @ ''origin https://github.com/aquarist-labs/ceph (push)'' @ [CHR 0x0A],
                 stderr = []\<rparr>
         else if cmd = [''git'', ''rev-parse'', ''--short'', ''HEAD'']
           then \<lparr>returncode = 0, stdout = ''abc1234'' @ [CHR 0x0A], stderr = []\<rparr>
         else \<lparr>returncode = 0, stdout = ''c0ffee'' @ [CHR 0x0A], stderr = []\<rparr>)),
     get_result = (\<lambda>h url. None),
     path_exists = (\<lambda>h p. True),
     path_is_file = (\<lambda>h p. True),
     json_loads = (\<lambda>s. Some [\<lparr>entry_Id = Some ''01'',
                                  entry_Names = Some [''localhost/popcorn/s3gw:abc1234'']\<rparr>]),
     repr_bytes = (\<lambda>s. ''b'' @ sq @ s @ sq),
     getcwd = ''/''\<rparr>"

text \<open>The theorem of claim C5 in that world: the harness fails and the container is stopped.\<close>

theorem run_tests_teardown_witness:
  "run_tests w_fail ''/ws/s3gw-tools.git'' ''localhost/popcorn/s3gw:abc1234'' [] =
     ([Echo ''running tests...'',
       Echo ''/ws/s3gw-tools.git/tests/run-tests.sh'',
       Echo ''starting s3gw image localhost/popcorn/s3gw:abc1234...'',
       Exec None [''podman'', ''run'', ''--detach'', ''--replace'', ''--name'', ''popcorn-s3gw'',
                  ''-p'', ''7480:7480'', ''localhost/popcorn/s3gw:abc1234'']
         (Some \<lparr>returncode = 0, stdout = ''c0ffee'' @ [CHR 0x0A], stderr = []\<rparr>),
       Echo ''run tests against s3gw running on port 7480...'',
       Exec (Some ''/ws/s3gw-tools.git/tests'') [''./run-tests.sh'']
         (Some \<lparr>returncode = 1, stdout = [], stderr = []\<rparr>),
       Echo ''error running tests!!'',
       Echo ''stop s3gw container...'',
       Exec None [''podman'', ''stop'', ''popcorn-s3gw'']
         (Some \<lparr>returncode = 0, stdout = ''c0ffee'' @ [CHR 0x0A], stderr = []\<rparr>)],
      Inr False)"
proof -
  let ?p1 = "\<lparr>returncode = 0, stdout = ''c0ffee'' @ [CHR 0x0A], stderr = []\<rparr>"
  obtain evs r where eq: "run_tests w_fail ''/ws/s3gw-tools.git'' ''localhost/popcorn/s3gw:abc1234'' [] = (evs, r)"
    by (cases "run_tests w_fail ''/ws/s3gw-tools.git'' ''localhost/popcorn/s3gw:abc1234'' []")
  have val: "run_tests w_fail ''/ws/s3gw-tools.git'' ''localhost/popcorn/s3gw:abc1234'' [] =
     ([Echo ''running tests...'',
       Echo ''/ws/s3gw-tools.git/tests/run-tests.sh'',
       Echo ''starting s3gw image localhost/popcorn/s3gw:abc1234...'',
       Exec None [''podman'', ''run'', ''--detach'', ''--replace'', ''--name'', ''popcorn-s3gw'',
                  ''-p'', ''7480:7480'', ''localhost/popcorn/s3gw:abc1234'']
         (Some \<lparr>returncode = 0, stdout = ''c0ffee'' @ [CHR 0x0A], stderr = []\<rparr>),
       Echo ''run tests against s3gw running on port 7480...'',
       Exec (Some ''/ws/s3gw-tools.git/tests'') [''./run-tests.sh'']
         (Some \<lparr>returncode = 1, stdout = [], stderr = []\<rparr>),
       Echo ''error running tests!!'',
       Echo ''stop s3gw container...'',
       Exec None [''podman'', ''stop'', ''popcorn-s3gw'']
         (Some \<lparr>returncode = 0, stdout = ''c0ffee'' @ [CHR 0x0A], stderr = []\<rparr>)],
      Inr False)"
    by code_simp
  have started: "Exec None [''podman'', ''run'', ''--detach'', ''--replace'', ''--name'', ''popcorn-s3gw'',
                  ''-p'', ''7480:7480'', ''localhost/popcorn/s3gw:abc1234''] (Some ?p1) \<in> set evs"
    using eq val by auto
  have "returncode ?p1 = 0" "strip (stdout ?p1) \<noteq> []"
    by (simp_all add: strip_def isspace_def)
  from run_tests_teardown [OF eq started this] val show ?thesis by simp
qed


section \<open>Continuing after a library call\<close>

text \<open>\<open>cont f h x\<close> runs the continuation \<open>f\<close> after a first computation that, started at
  history \<open>h\<close>, gave \<open>x\<close>.\<close>

definition cont :: "('a \<Rightarrow> 'b io) \<Rightarrow> event list \<Rightarrow> event list \<times> (exn + 'a) \<Rightarrow> event list \<times> (exn + 'b)" where
  "cont f h x = (case x of (evs, Inl e) \<Rightarrow> (evs, Inl e) | (evs, Inr y) \<Rightarrow> emit evs (f y (h @ evs)))"

lemma bind_cont: "io_bind m f h = cont f h (m h)"
  by (simp add: cont_def io_bind_emit)
lemma seq_cont: "io_seq m n h = cont (\<lambda>_. n) h (m h)"
  by (simp add: io_seq_def bind_cont)
lemma cont_Inl: "cont f h (evs, Inl e) = (evs, Inl e)" by (simp add: cont_def)
lemma cont_Inr: "cont f h (evs, Inr y) = emit evs (f y (h @ evs))" by (simp add: cont_def)
lemma cont_if: "cont f h (if c then a else b) = (if c then cont f h a else cont f h b)" by simp
lemma cont_option: "cont f h (case x of None \<Rightarrow> a | Some p \<Rightarrow> b p) = (case x of None \<Rightarrow> cont f h a | Some p \<Rightarrow> cont f h (b p))"
  by (simp split: option.splits)
lemma cont_sum: "cont f h (case x of Inl p \<Rightarrow> a p | Inr q \<Rightarrow> b q) = (case x of Inl p \<Rightarrow> cont f h (a p) | Inr q \<Rightarrow> cont f h (b q))"
  by (simp split: sum.splits)
lemma cont_snd_if: "cont f h (evs, if c then a else b) = (if c then cont f h (evs, a) else cont f h (evs, b))" by simp
lemma cont_snd_sum: "cont f h (evs, case x of Inl p \<Rightarrow> a p | Inr q \<Rightarrow> b q) =
   (case x of Inl p \<Rightarrow> cont f h (evs, a p) | Inr q \<Rightarrow> cont f h (evs, b q))"
  by (simp split: sum.splits)
lemma cont_emit: "cont f h (emit es x) = emit es (cont f (h @ es) x)"
  by (cases x) (simp add: cont_def emit_def split: sum.splits)

lemmas cont_simps = cont_Inl cont_Inr cont_if cont_option cont_sum cont_snd_if cont_snd_sum cont_emit


section \<open>Claims about pull requests\<close>

lemma check_pr_exists_apply:
  "check_pr_exists w repo pr_id not_merged h =
    (let e0 = Echo (''check if PR  #'' @ str_int pr_id @ '' exists on repository '' @ sq @ repo @ sq @ ''...'');
         url = ''https://api.github.com/repos/aquarist-labs/'' @ repo @ ''/pulls/'' @ str_int pr_id in
     case get_result w (h @ [e0]) url of
       None \<Rightarrow> ([e0, Get url None], Inl RequestException)
     | Some resp \<Rightarrow>
         if status_code resp = 404
         then ([e0, Get url (Some resp),
                Echo (''error: PR #'' @ str_int pr_id @ '' not found on repository '' @ sq @ repo @ sq @ ''.'')],
               Inl (SystemExit 1))
         else if status_code resp \<noteq> 200
         then ([e0, Get url (Some resp),
                Echo (''error obtaining PR #'' @ str_int pr_id @ '' on repository '' @ sq @ repo @ sq @ ''.'')],
               Inl (SystemExit 1))
         else if not_merged \<and> merged resp = Some True
         then ([e0, Get url (Some resp), Echo (''PR #'' @ str_int pr_id @ '' has been merged.'')],
               Inl (SystemExit 1))
         else ([e0, Get url (Some resp)], Inr ()))"
  by (simp add: check_pr_exists_def pr_exists_def Let_def io_simps split: option.splits)

text \<open>
  Claim C6. When the pull-request provider answers the request for the target (ceph) pull
  request with status 200 and \<open>merged\<close> true, \<open>workflow_run_pr\<close> ends with \<open>sys.exit(1)\<close>
  (exit status 1) after the message \<open>PR #<id> has been merged.\<close>, and its whole transcript
  is the check message, the request and that message: no command (no fetch, no checkout) is
  run. For a tooling-repository pull request given as an override, an answer with status 200
  lets \<open>check_pr_exists\<close> return whatever \<open>merged\<close> says, and the run goes on to fetch the
  pull request; status 404 (not found) ends the run with \<open>sys.exit(1)\<close>.
\<close>

theorem merged_pr_policy:
  "(get_result w (h @ [Echo (''check if PR  #'' @ str_int pr_id @ '' exists on repository '' @ sq @ ''ceph'' @ sq @ ''...'')])
       (''https://api.github.com/repos/aquarist-labs/ceph/pulls/'' @ str_int pr_id) = Some resp
     \<and> status_code resp = 200 \<and> merged resp = Some True
    \<longrightarrow> workflow_run_pr w config pr_id tools_pr_id h =
          ([Echo (''check if PR  #'' @ str_int pr_id @ '' exists on repository '' @ sq @ ''ceph'' @ sq @ ''...''),
            Get (''https://api.github.com/repos/aquarist-labs/ceph/pulls/'' @ str_int pr_id) (Some resp),
            Echo (''PR #'' @ str_int pr_id @ '' has been merged.'')],
           Inl (SystemExit 1))
      \<and> exit_code (workflow_run_pr w config pr_id tools_pr_id h) = 1)
   \<and> (get_result w (h @ [Echo (''check if PR  #'' @ str_int tid @ '' exists on repository '' @ sq @ ''s3gw-tools'' @ sq @ ''...'')])
       (''https://api.github.com/repos/aquarist-labs/s3gw-tools/pulls/'' @ str_int tid) = Some resp
     \<and> status_code resp = 200
    \<longrightarrow> check_pr_exists w ''s3gw-tools'' tid False h =
          ([Echo (''check if PR  #'' @ str_int tid @ '' exists on repository '' @ sq @ ''s3gw-tools'' @ sq @ ''...''),
            Get (''https://api.github.com/repos/aquarist-labs/s3gw-tools/pulls/'' @ str_int tid) (Some resp)],
           Inr ())
      \<and> (\<exists>rest. fst (run_for_local_tools w wspath (Some tid) h) =
             [Echo (''check if PR  #'' @ str_int tid @ '' exists on repository '' @ sq @ ''s3gw-tools'' @ sq @ ''...''),
              Get (''https://api.github.com/repos/aquarist-labs/s3gw-tools/pulls/'' @ str_int tid) (Some resp),
              Echo (''fetch PR #'' @ str_int tid @ '' for s3gw-tools...'')] @ rest
           \<and> exit_on_error (pr_fetch w ''s3gw-tools'' tid wspath)
                (h @ [Echo (''check if PR  #'' @ str_int tid @ '' exists on repository '' @ sq @ ''s3gw-tools'' @ sq @ ''...''),
                      Get (''https://api.github.com/repos/aquarist-labs/s3gw-tools/pulls/'' @ str_int tid) (Some resp),
                      Echo (''fetch PR #'' @ str_int tid @ '' for s3gw-tools...'')])
              = (rest, snd (run_for_local_tools w wspath (Some tid) h))))
   \<and> (get_result w (h @ [Echo (''check if PR  #'' @ str_int tid @ '' exists on repository '' @ sq @ ''s3gw-tools'' @ sq @ ''...'')])
       (''https://api.github.com/repos/aquarist-labs/s3gw-tools/pulls/'' @ str_int tid) = Some resp
     \<and> status_code resp = 404
    \<longrightarrow> run_for_local_tools w wspath (Some tid) h =
          ([Echo (''check if PR  #'' @ str_int tid @ '' exists on repository '' @ sq @ ''s3gw-tools'' @ sq @ ''...''),
            Get (''https://api.github.com/repos/aquarist-labs/s3gw-tools/pulls/'' @ str_int tid) (Some resp),
            Echo (''error: PR #'' @ str_int tid @ '' not found on repository '' @ sq @ ''s3gw-tools'' @ sq @ ''.'')],
           Inl (SystemExit 1)))"
proof (intro conjI impI)
  assume a: "get_result w (h @ [Echo (''check if PR  #'' @ str_int pr_id @ '' exists on repository '' @ sq @ ''ceph'' @ sq @ ''...'')])
       (''https://api.github.com/repos/aquarist-labs/ceph/pulls/'' @ str_int pr_id) = Some resp
     \<and> status_code resp = 200 \<and> merged resp = Some True"
  then have c: "check_pr_exists w ''ceph'' pr_id True h =
          ([Echo (''check if PR  #'' @ str_int pr_id @ '' exists on repository '' @ sq @ ''ceph'' @ sq @ ''...''),
            Get (''https://api.github.com/repos/aquarist-labs/ceph/pulls/'' @ str_int pr_id) (Some resp),
            Echo (''PR #'' @ str_int pr_id @ '' has been merged.'')],
           Inl (SystemExit 1))"
    by (simp add: check_pr_exists_apply)
  show w: "workflow_run_pr w config pr_id tools_pr_id h =
          ([Echo (''check if PR  #'' @ str_int pr_id @ '' exists on repository '' @ sq @ ''ceph'' @ sq @ ''...''),
            Get (''https://api.github.com/repos/aquarist-labs/ceph/pulls/'' @ str_int pr_id) (Some resp),
            Echo (''PR #'' @ str_int pr_id @ '' has been merged.'')],
           Inl (SystemExit 1))"
    unfolding workflow_run_pr_def io_seq_apply c by simp
  show "exit_code (workflow_run_pr w config pr_id tools_pr_id h) = 1"
    unfolding w by (simp add: exit_code_def)
next
  assume a: "get_result w (h @ [Echo (''check if PR  #'' @ str_int tid @ '' exists on repository '' @ sq @ ''s3gw-tools'' @ sq @ ''...'')])
       (''https://api.github.com/repos/aquarist-labs/s3gw-tools/pulls/'' @ str_int tid) = Some resp
     \<and> status_code resp = 200"
  then show c: "check_pr_exists w ''s3gw-tools'' tid False h =
          ([Echo (''check if PR  #'' @ str_int tid @ '' exists on repository '' @ sq @ ''s3gw-tools'' @ sq @ ''...''),
            Get (''https://api.github.com/repos/aquarist-labs/s3gw-tools/pulls/'' @ str_int tid) (Some resp)],
           Inr ())"
    by (simp add: check_pr_exists_apply)
  show "\<exists>rest. fst (run_for_local_tools w wspath (Some tid) h) =
             [Echo (''check if PR  #'' @ str_int tid @ '' exists on repository '' @ sq @ ''s3gw-tools'' @ sq @ ''...''),
              Get (''https://api.github.com/repos/aquarist-labs/s3gw-tools/pulls/'' @ str_int tid) (Some resp),
              Echo (''fetch PR #'' @ str_int tid @ '' for s3gw-tools...'')] @ rest
           \<and> exit_on_error (pr_fetch w ''s3gw-tools'' tid wspath)
                (h @ [Echo (''check if PR  #'' @ str_int tid @ '' exists on repository '' @ sq @ ''s3gw-tools'' @ sq @ ''...''),
                      Get (''https://api.github.com/repos/aquarist-labs/s3gw-tools/pulls/'' @ str_int tid) (Some resp),
                      Echo (''fetch PR #'' @ str_int tid @ '' for s3gw-tools...'')])
              = (rest, snd (run_for_local_tools w wspath (Some tid) h))"
    unfolding run_for_local_tools_def option.case io_seq_apply [of "check_pr_exists w ''s3gw-tools'' tid False"] c
    by (simp add: seq_echo emit_def)
next
  assume a: "get_result w (h @ [Echo (''check if PR  #'' @ str_int tid @ '' exists on repository '' @ sq @ ''s3gw-tools'' @ sq @ ''...'')])
       (''https://api.github.com/repos/aquarist-labs/s3gw-tools/pulls/'' @ str_int tid) = Some resp
     \<and> status_code resp = 404"
  then have c: "check_pr_exists w ''s3gw-tools'' tid False h =
          ([Echo (''check if PR  #'' @ str_int tid @ '' exists on repository '' @ sq @ ''s3gw-tools'' @ sq @ ''...''),
            Get (''https://api.github.com/repos/aquarist-labs/s3gw-tools/pulls/'' @ str_int tid) (Some resp),
            Echo (''error: PR #'' @ str_int tid @ '' not found on repository '' @ sq @ ''s3gw-tools'' @ sq @ ''.'')],
           Inl (SystemExit 1))"
    by (simp add: check_pr_exists_apply)
  show "run_for_local_tools w wspath (Some tid) h =
          ([Echo (''check if PR  #'' @ str_int tid @ '' exists on repository '' @ sq @ ''s3gw-tools'' @ sq @ ''...''),
            Get (''https://api.github.com/repos/aquarist-labs/s3gw-tools/pulls/'' @ str_int tid) (Some resp),
            Echo (''error: PR #'' @ str_int tid @ '' not found on repository '' @ sq @ ''s3gw-tools'' @ sq @ ''.'')],
           Inl (SystemExit 1))"
    unfolding run_for_local_tools_def option.case io_seq_apply [of "check_pr_exists w ''s3gw-tools'' tid False"] c
    by simp
qed

text \<open>A world whose provider reports every pull request as merged.\<close>

definition w_merged :: world where
  "w_merged = \<lparr>
     run_result = (\<lambda>h cwd cmd. None),
     get_result = (\<lambda>h url. Some \<lparr>status_code = 200, merged = Some True\<rparr>),
     path_exists = (\<lambda>h p. True),
     path_is_file = (\<lambda>h p. True),
     json_loads = (\<lambda>s. None),
     repr_bytes = (\<lambda>s. ''b'' @ sq @ s @ sq),
     getcwd = ''/''\<rparr>"

lemma str_int_42: "str_int 42 = ''42''" by code_simp
lemma str_int_7: "str_int 7 = ''7''" by code_simp

text \<open>The theorem of claim C6 for target pull request 42 and tooling pull request 7.\<close>

theorem merged_pr_policy_witness:
  "workflow_run_pr w_merged None 42 None [] =
     ([Echo (''check if PR  #42 exists on repository '' @ sq @ ''ceph'' @ sq @ ''...''),
       Get ''https://api.github.com/repos/aquarist-labs/ceph/pulls/42''
         (Some \<lparr>status_code = 200, merged = Some True\<rparr>),
       Echo ''PR #42 has been merged.''],
      Inl (SystemExit 1))
   \<and> check_pr_exists w_merged ''s3gw-tools'' 7 False [] =
     ([Echo (''check if PR  #7 exists on repository '' @ sq @ ''s3gw-tools'' @ sq @ ''...''),
       Get ''https://api.github.com/repos/aquarist-labs/s3gw-tools/pulls/7''
         (Some \<lparr>status_code = 200, merged = Some True\<rparr>)],
      Inr ())"
proof -
  let ?r = "\<lparr>status_code = 200, merged = Some True\<rparr>"
  have h1: "get_result w_merged ([] @ [Echo (''check if PR  #'' @ str_int 42 @ '' exists on repository '' @ sq @ ''ceph'' @ sq @ ''...'')])
       (''https://api.github.com/repos/aquarist-labs/ceph/pulls/'' @ str_int 42) = Some ?r
     \<and> status_code ?r = 200 \<and> merged ?r = Some True"
    by (simp add: w_merged_def)
  have h2: "get_result w_merged ([] @ [Echo (''check if PR  #'' @ str_int 7 @ '' exists on repository '' @ sq @ ''s3gw-tools'' @ sq @ ''...'')])
       (''https://api.github.com/repos/aquarist-labs/s3gw-tools/pulls/'' @ str_int 7) = Some ?r
     \<and> status_code ?r = 200"
    by (simp add: w_merged_def)
  note t = merged_pr_policy [of w_merged "[]" 42 ?r None None 7 undefined]
  from t h1 h2 show ?thesis
    by (simp add: str_int_42 str_int_7)
qed


section \<open>Claims about the remote of a branch\<close>

lemma get_remotes_apply:
  "get_remotes w path repo h =
    (if \<not> (path_exists w h (repo_path path repo) \<and> path_exists w h (joinpath (repo_path path repo) ''.git''))
     then ([], Inl AssertionError)
     else (case run_result w h (Some (repo_path path repo)) [''git'', ''remote'', ''-v''] of
        None \<Rightarrow> ([Exec (Some (repo_path path repo)) [''git'', ''remote'', ''-v''] None], Inl OSError)
      | Some p \<Rightarrow>
          ([Exec (Some (repo_path path repo)) [''git'', ''remote'', ''-v''] (Some p)],
           if returncode p \<noteq> 0
           then Inl (PopcornError (Some (''error obtaining repository '' @ sq @ repo @ sq
                  @ '' remotes: '' @ repr_bytes w (stderr p))))
           else (case parse_remotes (splitlines (stdout p)) Map.empty of
                   Inl e \<Rightarrow> Inl e
                 | Inr remotes \<Rightarrow> Inr remotes))))"
  by (simp add: get_remotes_def Let_def assert_repo_apply io_simps split: option.splits sum.splits)

lemma get_remotes_events:
  "fst (get_remotes w path repo h) = [] \<or>
   (\<exists>res. fst (get_remotes w path repo h) = [Exec (Some (repo_path path repo)) [''git'', ''remote'', ''-v''] res])"
  by (simp add: get_remotes_apply split: option.splits)

lemma add_remote_from_config_no_entry:
  "list_all (\<lambda>r. repo_name r \<noteq> origin) repos \<Longrightarrow>
   add_remote_from_config w wspath origin repos h = ([], Inr False)"
  by (induction repos) (simp_all add: io_return_apply)

lemma add_remote_from_config_entry:
  "find (\<lambda>r. repo_name r = origin) repos = Some r0 \<Longrightarrow>
   add_remote_from_config w wspath origin repos h =
     io_seq (add_remote w wspath ''ceph'' (repo_name r0) (repo_url r0)) (io_return True) h"
  by (induction repos) (auto split: if_splits)

lemma add_remote_first_event:
  "path_exists w h (repo_path path repo) \<Longrightarrow> path_exists w h (joinpath (repo_path path repo) ''.git'') \<Longrightarrow>
   \<exists>res rest r. io_bind (io_seq (add_remote w path repo rname remote) (io_return True)) f h =
     (Exec (Some (repo_path path repo)) [''git'', ''remote'', ''add'', rname, remote @ ''/'' @ repo] res # rest, r)"
  by (simp add: add_remote_def Let_def assert_repo_def run_simps emit_def split: option.splits prod.splits)

text \<open>
  Claim C7. In \<open>workflow_run_branch\<close>, with the ceph repository in place and the first
  \<open>git remote -v\<close> not listing the requested remote: when the configuration has no
  additional-repository list the run prints \<open>unable to find remote\<close> and ends with
  \<open>sys.exit(1)\<close>; when the list has no entry of that name the run prints
  \<open>unable to find remote ... in config.\<close>, lists the remotes again and, the remote being
  still not listed, ends with an exception (the assertion of line 246, or the failure of the
  second listing) and exit status 1, having run no command but the two listings; when the
  list has an entry of that name, the next command after the first listing is
  \<open>git remote add <name> <url>/ceph\<close> for the first such entry.
\<close>

theorem remote_resolution:
  assumes repo: "\<forall>h'. path_exists w h' (repo_path (workspace cfg) ''ceph'')
                    \<and> path_exists w h' (joinpath (repo_path (workspace cfg) ''ceph'') ''.git'')"
      and first: "run_result w h (Some (repo_path (workspace cfg) ''ceph'')) [''git'', ''remote'', ''-v''] = Some p"
                 "returncode p = 0"
                 "parse_remotes (splitlines (stdout p)) Map.empty = Inr remotes"
      and unknown: "remotes (case remote of None \<Rightarrow> ''origin'' | Some r \<Rightarrow> r) = None"
  shows "(additional_repos cfg = None \<longrightarrow>
            workflow_run_branch w (Some cfg) bname remote tools_pr_id h =
              ([Exec (Some (repo_path (workspace cfg) ''ceph'')) [''git'', ''remote'', ''-v''] (Some p),
                Echo (''unable to find remote '' @ sq @ str_opt remote @ ''.'' @ sq)],
               Inl (SystemExit 1)))
       \<and> (\<forall>repos res2.
            additional_repos cfg = Some repos
          \<and> list_all (\<lambda>r. repo_name r \<noteq> (case remote of None \<Rightarrow> ''origin'' | Some r \<Rightarrow> r)) repos
          \<and> res2 = run_result w
                 (h @ [Exec (Some (repo_path (workspace cfg) ''ceph'')) [''git'', ''remote'', ''-v''] (Some p),
                       Echo (''unable to find remote '' @ sq @ str_opt remote @ sq @ '' in config.'')])
                 (Some (repo_path (workspace cfg) ''ceph'')) [''git'', ''remote'', ''-v'']
          \<and> \<not> (\<exists>p2 rs. res2 = Some p2 \<and> returncode p2 = 0
                  \<and> parse_remotes (splitlines (stdout p2)) Map.empty = Inr rs
                  \<and> rs (case remote of None \<Rightarrow> ''origin'' | Some r \<Rightarrow> r) \<noteq> None)
          \<longrightarrow> (\<exists>e. workflow_run_branch w (Some cfg) bname remote tools_pr_id h =
                  ([Exec (Some (repo_path (workspace cfg) ''ceph'')) [''git'', ''remote'', ''-v''] (Some p),
                    Echo (''unable to find remote '' @ sq @ str_opt remote @ sq @ '' in config.''),
                    Exec (Some (repo_path (workspace cfg) ''ceph'')) [''git'', ''remote'', ''-v''] res2],
                   Inl e))
             \<and> exit_code (workflow_run_branch w (Some cfg) bname remote tools_pr_id h) = 1)
       \<and> (\<forall>repos r0.
            additional_repos cfg = Some repos
          \<and> find (\<lambda>r. repo_name r = (case remote of None \<Rightarrow> ''origin'' | Some r \<Rightarrow> r)) repos = Some r0
          \<longrightarrow> (\<exists>res rest r. workflow_run_branch w (Some cfg) bname remote tools_pr_id h =
                  (Exec (Some (repo_path (workspace cfg) ''ceph'')) [''git'', ''remote'', ''-v''] (Some p)
                   # Exec (Some (repo_path (workspace cfg) ''ceph''))
                       [''git'', ''remote'', ''add'', repo_name r0, repo_url r0 @ ''/ceph''] res
                   # rest, r)))"
proof (intro conjI allI impI)
  let ?rp = "repo_path (workspace cfg) ''ceph''"
  let ?origin = "case remote of None \<Rightarrow> ''origin'' | Some r \<Rightarrow> r"
  let ?E = "Exec (Some ?rp) [''git'', ''remote'', ''-v''] (Some p)"
  have g1: "get_remotes w (workspace cfg) ''ceph'' h = ([?E], Inr remotes)"
    using repo first by (simp add: get_remotes_apply)
  {
    assume none: "additional_repos cfg = None"
    show "workflow_run_branch w (Some cfg) bname remote tools_pr_id h =
              ([?E, Echo (''unable to find remote '' @ sq @ str_opt remote @ ''.'' @ sq)], Inl (SystemExit 1))"
      using unknown
      by (simp add: workflow_run_branch_def resolve_remote_def Let_def bind_assoc
            bind_cont[of "get_remotes w (workspace cfg) ''ceph''"] g1 cont_simps none
            bind_seq_assoc seq_echo seq_sys_exit bind_sys_exit emit_pair)
  }
  {
    fix repos res2
    define M where "M = Echo (''unable to find remote '' @ sq @ str_opt remote @ sq @ '' in config.'')"
    define E where "E = ?E"
    define h2 where "h2 = h @ [E, M]"
    assume a0: "additional_repos cfg = Some repos
          \<and> list_all (\<lambda>r. repo_name r \<noteq> ?origin) repos
          \<and> res2 = run_result w (h @ [?E, Echo (''unable to find remote '' @ sq @ str_opt remote @ sq @ '' in config.'')])
                (Some ?rp) [''git'', ''remote'', ''-v'']
          \<and> \<not> (\<exists>p2 rs. res2 = Some p2 \<and> returncode p2 = 0
                  \<and> parse_remotes (splitlines (stdout p2)) Map.empty = Inr rs
                  \<and> rs ?origin \<noteq> None)"
    then have a: "additional_repos cfg = Some repos" "list_all (\<lambda>r. repo_name r \<noteq> ?origin) repos"
      and rdef: "run_result w h2 (Some ?rp) [''git'', ''remote'', ''-v''] = res2"
      and still: "\<And>p2 rs. res2 = Some p2 \<Longrightarrow> returncode p2 = 0 \<Longrightarrow>
                  parse_remotes (splitlines (stdout p2)) Map.empty = Inr rs \<Longrightarrow> rs ?origin = None"
      by (auto simp: h2_def E_def M_def)
    from a have nf: "\<And>h'. add_remote_from_config w (workspace cfg) ?origin repos h' = ([], Inr False)"
      by (simp add: add_remote_from_config_no_entry)
    have gr: "get_remotes w (workspace cfg) ''ceph'' h2 =
        ([Exec (Some ?rp) [''git'', ''remote'', ''-v''] res2],
         case res2 of
           None \<Rightarrow> Inl OSError
         | Some p2 \<Rightarrow>
             if returncode p2 \<noteq> 0
             then Inl (PopcornError (Some (''error obtaining repository '' @ sq @ ''ceph'' @ sq
                    @ '' remotes: '' @ repr_bytes w (stderr p2))))
             else (case parse_remotes (splitlines (stdout p2)) Map.empty of
                     Inl e \<Rightarrow> Inl e
                   | Inr rs \<Rightarrow> Inr rs))"
      using repo rdef by (simp add: get_remotes_apply split: option.splits)
    have g2: "\<exists>e. cont (\<lambda>remotes. io_seq (io_assert (remotes ?origin \<noteq> None)) (io_return ?origin))
                 h2 (get_remotes w (workspace cfg) ''ceph'' h2)
               = ([Exec (Some ?rp) [''git'', ''remote'', ''-v''] res2], Inl e)
               \<and> (\<forall>n. e \<noteq> SystemExit n)"
    proof (cases res2)
      case None
      then show ?thesis by (simp add: gr cont_simps)
    next
      case (Some p2)
      show ?thesis
      proof (cases "returncode p2 = 0")
        case False
        with Some show ?thesis by (simp add: gr cont_simps)
      next
        case True
        show ?thesis
        proof (cases "parse_remotes (splitlines (stdout p2)) Map.empty")
          case (Inl e)
          have "\<forall>n. e \<noteq> SystemExit n"
          proof -
            have "\<And>ls m x. parse_remotes ls m = Inl x \<Longrightarrow> x = ValueError"
            proof -
              fix ls :: "string list" and m :: "string \<rightharpoonup> string" and x
              show "parse_remotes ls m = Inl x \<Longrightarrow> x = ValueError"
                by (induction ls arbitrary: m) (auto split: list.splits if_splits)
            qed
            with Inl show ?thesis by fastforce
          qed
          with Some True Inl show ?thesis by (simp add: gr cont_simps)
        next
          case (Inr rs)
          with still Some True have "rs ?origin = None" by blast
          with Some True Inr show ?thesis
            by (simp add: gr cont_simps seq_assert emit_pair)
        qed
      qed
    qed
    then obtain e where e: "cont (\<lambda>remotes. io_seq (io_assert (remotes ?origin \<noteq> None)) (io_return ?origin))
                 h2 (get_remotes w (workspace cfg) ''ceph'' h2)
               = ([Exec (Some ?rp) [''git'', ''remote'', ''-v''] res2], Inl e)" "\<forall>n. e \<noteq> SystemExit n"
      by blast
    have g1': "get_remotes w (workspace cfg) ''ceph'' h = ([E], Inr remotes)"
      using g1 by (simp add: E_def)
    have body: "io_bind (io_bind (add_remote_from_config w (workspace cfg) ?origin repos) (\<lambda>found.
                   io_seq (io_when (\<not> found)
                             (echo (''unable to find remote '' @ sq @ str_opt remote @ sq @ '' in config.'')))
                          (get_remotes w (workspace cfg) ''ceph'')))
                (\<lambda>remotes. io_seq (io_assert (remotes ?origin \<noteq> None)) (io_return ?origin)) (h @ [E])
          = ([M, Exec (Some ?rp) [''git'', ''remote'', ''-v''] res2], Inl e)"
      unfolding bind_assoc bind_cont[of "add_remote_from_config w (workspace cfg) ?origin repos"] nf cont_Inr
      unfolding emit_def append_Nil fst_conv snd_conv prod.collapse append_Nil2
      unfolding bind_seq_assoc seq_when if_True not_False_eq_True seq_echo M_def[symmetric]
      unfolding bind_cont[of "get_remotes w (workspace cfg) ''ceph''"]
      using e by (simp add: h2_def emit_def)
    have rr: "resolve_remote w cfg remote h =
        ([E, M, Exec (Some ?rp) [''git'', ''remote'', ''-v''] res2], Inl e)"
      unfolding resolve_remote_def Let_def bind_cont[of "get_remotes w (workspace cfg) ''ceph''" _ h] g1' cont_Inr
      using unknown a(1) body by (simp add: emit_def)
    show "\<exists>e. workflow_run_branch w (Some cfg) bname remote tools_pr_id h =
                  ([?E, Echo (''unable to find remote '' @ sq @ str_opt remote @ sq @ '' in config.''),
                    Exec (Some ?rp) [''git'', ''remote'', ''-v''] res2], Inl e)"
      unfolding workflow_run_branch_def Let_def option.case bind_cont[of "resolve_remote w cfg remote"] rr cont_Inl
      by (simp add: E_def M_def)
    show "exit_code (workflow_run_branch w (Some cfg) bname remote tools_pr_id h) = 1"
      unfolding workflow_run_branch_def Let_def option.case bind_cont[of "resolve_remote w cfg remote"] rr cont_Inl
      using e(2) by (cases e) (simp_all add: exit_code_def)
  }
  {
    fix repos r0
    assume a: "additional_repos cfg = Some repos \<and> find (\<lambda>r. repo_name r = ?origin) repos = Some r0"
    then have f: "\<And>h'. add_remote_from_config w (workspace cfg) ?origin repos h' =
       io_seq (add_remote w (workspace cfg) ''ceph'' (repo_name r0) (repo_url r0)) (io_return True) h'"
      by (simp add: add_remote_from_config_entry)
    then have f': "add_remote_from_config w (workspace cfg) ?origin repos =
       io_seq (add_remote w (workspace cfg) ''ceph'' (repo_name r0) (repo_url r0)) (io_return True)"
      by (rule ext)
    have "\<exists>F. workflow_run_branch w (Some cfg) bname remote tools_pr_id h =
       emit [?E] (io_bind (io_seq (add_remote w (workspace cfg) ''ceph'' (repo_name r0) (repo_url r0)) (io_return True)) F (h @ [?E]))"
      using unknown a
      by (simp add: workflow_run_branch_def resolve_remote_def Let_def bind_assoc
            bind_cont[of "get_remotes w (workspace cfg) ''ceph''"] g1 cont_simps f')
         (rule exI, rule refl)
    then obtain F where F: "workflow_run_branch w (Some cfg) bname remote tools_pr_id h =
       emit [?E] (io_bind (io_seq (add_remote w (workspace cfg) ''ceph'' (repo_name r0) (repo_url r0)) (io_return True)) F (h @ [?E]))"
      by blast
    from add_remote_first_event[of w "h @ [?E]" "workspace cfg" "''ceph''" "repo_name r0" "repo_url r0" F] repo
    obtain res rest r where "io_bind (io_seq (add_remote w (workspace cfg) ''ceph'' (repo_name r0) (repo_url r0)) (io_return True)) F (h @ [?E])
        = (Exec (Some ?rp) [''git'', ''remote'', ''add'', repo_name r0, repo_url r0 @ ''/'' @ ''ceph''] res # rest, r)"
      by blast
    then show "\<exists>res rest r. workflow_run_branch w (Some cfg) bname remote tools_pr_id h =
                  (?E # Exec (Some ?rp) [''git'', ''remote'', ''add'', repo_name r0, repo_url r0 @ ''/ceph''] res # rest, r)"
      unfolding F by (auto simp: emit_pair)
  }
qed

text \<open>A configuration whose additional-repository list does not name the remote asked for.\<close>

definition cfg_other :: Config where
  "cfg_other = \<lparr>workspace = ''/ws'', ccache = None,
     additional_repos = Some [\<lparr>repo_name = ''other'', repo_url = ''https://github.com/other''\<rparr>]\<rparr>"

lemma w_fail_remotes:
  "\<exists>remotes. parse_remotes (splitlines (''origin https://github.com/aquarist-labs/ceph (fetch)'' @ [CHR 0x0A]
                        @ ''origin https://github.com/aquarist-labs/ceph (push)'' @ [CHR 0x0A])) Map.empty = Inr remotes
      \<and> remotes ''upstream'' = None"
  by (simp add: splitlines_def split_ws_def isspace_def is_linebreak_def str_in_def sublist_code)

text \<open>The theorem of claim C7 for the remote \<open>upstream\<close>, which neither git nor the
  configuration knows.\<close>

theorem remote_resolution_witness:
  "fst (workflow_run_branch w_fail (Some cfg_other) ''fix-123'' (Some ''upstream'') None []) =
     [Exec (Some ''/ws/ceph.git'') [''git'', ''remote'', ''-v'']
        (Some \<lparr>returncode = 0,
                stdout = ''origin https://github.com/aquarist-labs/ceph (fetch)'' @ [CHR 0x0A]
                       @ ''origin https://github.com/aquarist-labs/ceph (push)'' @ [CHR 0x0A],
                stderr = []\<rparr>),
      Echo (''unable to find remote '' @ sq @ ''upstream'' @ sq @ '' in config.''),
      Exec (Some ''/ws/ceph.git'') [''git'', ''remote'', ''-v'']
        (Some \<lparr>returncode = 0,
                stdout = ''origin https://github.com/aquarist-labs/ceph (fetch)'' @ [CHR 0x0A]
                       @ ''origin https://github.com/aquarist-labs/ceph (push)'' @ [CHR 0x0A],
                stderr = []\<rparr>)]
   \<and> exit_code (workflow_run_branch w_fail (Some cfg_other) ''fix-123'' (Some ''upstream'') None []) = 1"
proof -
  let ?p = "\<lparr>returncode = 0,
                stdout = ''origin https://github.com/aquarist-labs/ceph (fetch)'' @ [CHR 0x0A]
                       @ ''origin https://github.com/aquarist-labs/ceph (push)'' @ [CHR 0x0A],
                stderr = []\<rparr>"
  from w_fail_remotes obtain remotes where
    r: "parse_remotes (splitlines (stdout ?p)) Map.empty = Inr remotes" "remotes ''upstream'' = None"
    by auto
  have repo: "\<forall>h'. path_exists w_fail h' (repo_path (workspace cfg_other) ''ceph'')
                    \<and> path_exists w_fail h' (joinpath (repo_path (workspace cfg_other) ''ceph'') ''.git'')"
    by (simp add: w_fail_def)
  have first: "run_result w_fail [] (Some (repo_path (workspace cfg_other) ''ceph'')) [''git'', ''remote'', ''-v''] = Some ?p"
      "returncode ?p = 0"
    by (simp_all add: w_fail_def)
  have unknown: "remotes (case Some ''upstream'' of None \<Rightarrow> ''origin'' | Some r \<Rightarrow> r) = None"
    using r by simp
  note t = conjunct1 [OF conjunct2 [OF remote_resolution [OF repo first r(1) unknown, of "''fix-123''" None]]]
  have second: "run_result w_fail
                 ([] @ [Exec (Some (repo_path (workspace cfg_other) ''ceph'')) [''git'', ''remote'', ''-v''] (Some ?p),
                       Echo (''unable to find remote '' @ sq @ str_opt (Some ''upstream'') @ sq @ '' in config.'')])
                 (Some (repo_path (workspace cfg_other) ''ceph'')) [''git'', ''remote'', ''-v''] = Some ?p"
    by (simp add: w_fail_def)
  have still: "\<not> (\<exists>p2 rs. Some ?p = Some p2 \<and> returncode p2 = 0
                  \<and> parse_remotes (splitlines (stdout p2)) Map.empty = Inr rs
                  \<and> rs (case Some ''upstream'' of None \<Rightarrow> ''origin'' | Some r \<Rightarrow> r) \<noteq> None)"
    using r by auto
  have cfgr: "additional_repos cfg_other = Some [\<lparr>repo_name = ''other'', repo_url = ''https://github.com/other''\<rparr>]"
      "list_all (\<lambda>r. repo_name r \<noteq> (case Some ''upstream'' of None \<Rightarrow> ''origin'' | Some r \<Rightarrow> r))
         [\<lparr>repo_name = ''other'', repo_url = ''https://github.com/other''\<rparr>]"
    by (simp_all add: cfg_other_def)
  from t[rule_format, of "[\<lparr>repo_name = ''other'', repo_url = ''https://github.com/other''\<rparr>]" "Some ?p"]
       cfgr second[symmetric] still
  have "(\<exists>e. workflow_run_branch w_fail (Some cfg_other) ''fix-123'' (Some ''upstream'') None [] =
                  ([Exec (Some (repo_path (workspace cfg_other) ''ceph'')) [''git'', ''remote'', ''-v''] (Some ?p),
                    Echo (''unable to find remote '' @ sq @ str_opt (Some ''upstream'') @ sq @ '' in config.''),
                    Exec (Some (repo_path (workspace cfg_other) ''ceph'')) [''git'', ''remote'', ''-v''] (Some ?p)],
                   Inl e))
             \<and> exit_code (workflow_run_branch w_fail (Some cfg_other) ''fix-123'' (Some ''upstream'') None []) = 1"
    by blast
  then show ?thesis
    by (auto simp: repo_path_def joinpath_def cfg_other_def str_opt_def)
qed


section \<open>The steps of a run and their order\<close>

text \<open>
  Every external call belongs to one step of the workflow, read off its command line:
  resolving a ref (requests to the pull-request provider, \<open>git branch/fetch/pull/remote\<close>),
  cleaning, checkout, the registry listing, reading a revision, building
  (\<open>podman build\<close>, the builder container \<open>podman run --name ...\<close>) and testing (the detached
  runtime container, the harness, \<open>podman stop\<close>). \<open>phased lo hi m\<close> says that the steps of
  whatever \<open>m\<close> emits are numbered within \<open>lo..hi\<close> and never go back.
\<close>

datatype step = Resolve | Clean | Checkout | Listing | Revision | Build | Test

fun step_num :: "step \<Rightarrow> nat" where
  "step_num Resolve = 0"
| "step_num Clean = 1"
| "step_num Checkout = 2"
| "step_num Listing = 3"
| "step_num Revision = 4"
| "step_num Build = 5"
| "step_num Test = 6"

definition step_of_cmd :: "string list \<Rightarrow> step option" where
  "step_of_cmd cmd =
     (if take 2 cmd = [''git'', ''submodule''] \<or> take 2 cmd = [''git'', ''clean''] then Some Clean
      else if take 2 cmd = [''git'', ''checkout''] then Some Checkout
      else if take 2 cmd = [''podman'', ''images''] then Some Listing
      else if take 2 cmd = [''git'', ''rev-parse''] then Some Revision
      else if take 2 cmd = [''podman'', ''build''] \<or> take 3 cmd = [''podman'', ''run'', ''--name''] then Some Build
      else if take 3 cmd = [''podman'', ''run'', ''--detach''] \<or> take 2 cmd = [''podman'', ''stop'']
              \<or> cmd = [''./run-tests.sh''] then Some Test
      else if take 2 cmd = [''git'', ''branch''] \<or> take 2 cmd = [''git'', ''fetch'']
              \<or> take 2 cmd = [''git'', ''pull''] \<or> take 2 cmd = [''git'', ''remote''] then Some Resolve
      else None)"

fun step_of :: "event \<Rightarrow> step option" where
  "step_of (Exec cwd cmd res) = step_of_cmd cmd"
| "step_of (Get url res) = Some Resolve"
| "step_of (Echo s) = None"

definition steps :: "event list \<Rightarrow> nat list" where
  "steps evs = map step_num (List.map_filter step_of evs)"

definition ordered_within :: "nat \<Rightarrow> nat \<Rightarrow> event list \<Rightarrow> bool" where
  "ordered_within lo hi evs = (sorted (steps evs) \<and> list_all (\<lambda>n. lo \<le> n \<and> n \<le> hi) (steps evs))"

definition phased :: "nat \<Rightarrow> nat \<Rightarrow> 'a io \<Rightarrow> bool" where
  "phased lo hi m = (\<forall>h. ordered_within lo hi (fst (m h)))"

lemma steps_Nil [simp]: "steps [] = []" by (simp add: steps_def map_filter_simps)
lemma steps_append [simp]: "steps (xs @ ys) = steps xs @ steps ys"
  by (simp add: steps_def map_filter_def)
lemma steps_Cons: "steps (e # es) = (case step_of e of None \<Rightarrow> steps es | Some s \<Rightarrow> step_num s # steps es)"
  by (simp add: steps_def map_filter_simps split: option.splits)

lemma ordered_within_Nil [simp]: "ordered_within lo hi []" by (simp add: ordered_within_def)

lemma ordered_within_append:
  "ordered_within lo mid xs \<Longrightarrow> ordered_within mid hi ys \<Longrightarrow> lo \<le> mid \<Longrightarrow> mid \<le> hi
   \<Longrightarrow> ordered_within lo hi (xs @ ys)"
  by (fastforce simp: ordered_within_def sorted_append list_all_iff)

lemma ordered_within_mono:
  "ordered_within a b xs \<Longrightarrow> a' \<le> a \<Longrightarrow> b \<le> b' \<Longrightarrow> ordered_within a' b' xs"
  by (fastforce simp: ordered_within_def list_all_iff)

lemma phased_mono: "phased a b m \<Longrightarrow> a' \<le> a \<Longrightarrow> b \<le> b' \<Longrightarrow> phased a' b' m"
  by (auto simp: phased_def intro: ordered_within_mono)

lemma phased_return: "phased lo hi (io_return x)" by (simp add: phased_def io_return_def)
lemma phased_raise: "phased lo hi (io_raise e)" by (simp add: phased_def io_raise_def)
lemma phased_sys_exit: "phased lo hi (sys_exit n)" by (simp add: phased_def sys_exit_def io_raise_def)
lemma phased_assert: "phased lo hi (io_assert b)" by (simp add: phased_def io_assert_apply)
lemma phased_assert_exists: "phased lo hi (assert_exists w p)" by (simp add: phased_def assert_exists_def)
lemma phased_assert_is_file: "phased lo hi (assert_is_file w p)" by (simp add: phased_def assert_is_file_def)
lemma phased_echo: "phased lo hi (echo s)"
  by (simp add: phased_def echo_def ordered_within_def steps_Cons)
lemma phased_exec:
  "step_of_cmd cmd = Some s \<Longrightarrow> lo \<le> step_num s \<Longrightarrow> step_num s \<le> hi \<Longrightarrow> phased lo hi (subprocess_run w cwd cmd)"
  by (simp add: phased_def subprocess_run_apply ordered_within_def steps_Cons)
lemma phased_get: "lo = 0 \<Longrightarrow> phased lo hi (requests_get w url)"
  by (simp add: phased_def requests_get_apply ordered_within_def steps_Cons)

lemma phased_bind:
  assumes "phased lo mid m" "\<And>x. phased mid hi (f x)" "lo \<le> mid" "mid \<le> hi"
  shows "phased lo hi (io_bind m f)"
  unfolding phased_def
proof
  fix h
  show "ordered_within lo hi (fst (io_bind m f h))"
  proof (cases "m h")
    case (Pair e1 r1)
    from assms(1) Pair have 1: "ordered_within lo mid e1" by (auto simp: phased_def dest: spec[of _ h])
    show ?thesis
    proof (cases r1)
      case (Inl e)
      with Pair 1 assms(4) show ?thesis
        by (auto simp: io_bind_apply intro: ordered_within_mono)
    next
      case (Inr x)
      from assms(2)[of x] have "ordered_within mid hi (fst (f x (h @ e1)))"
        by (simp add: phased_def)
      then have "ordered_within lo hi (e1 @ fst (f x (h @ e1)))"
        using ordered_within_append[OF 1 _ assms(3,4)] by blast
      with Pair Inr show ?thesis
        by (auto simp: io_bind_apply split: prod.splits)
    qed
  qed
qed

lemma phased_seq:
  "phased lo mid m \<Longrightarrow> phased mid hi n \<Longrightarrow> lo \<le> mid \<Longrightarrow> mid \<le> hi \<Longrightarrow> phased lo hi (io_seq m n)"
  unfolding io_seq_def by (rule phased_bind)

lemma phased_same_bind: "phased k k m \<Longrightarrow> (\<And>x. phased k k (f x)) \<Longrightarrow> phased k k (io_bind m f)"
  by (rule phased_bind[where mid=k]) simp_all
lemma phased_same_seq: "phased k k m \<Longrightarrow> phased k k n \<Longrightarrow> phased k k (io_seq m n)"
  by (rule phased_seq[where mid=k]) simp_all

lemma phased_when: "phased lo hi m \<Longrightarrow> phased lo hi (io_when b m)"
  by (simp add: io_when_def phased_return)

lemma phased_catch:
  assumes "phased lo mid m" "\<And>e k. handler e = Some k \<Longrightarrow> phased mid hi k" "lo \<le> mid" "mid \<le> hi"
  shows "phased lo hi (io_catch m handler)"
  unfolding phased_def
proof
  fix h
  show "ordered_within lo hi (fst (io_catch m handler h))"
  proof (cases "m h")
    case (Pair e1 r1)
    from assms(1) Pair have 1: "ordered_within lo mid e1" by (auto simp: phased_def dest: spec[of _ h])
    then have 2: "ordered_within lo hi e1" using assms(4) by (auto intro: ordered_within_mono)
    show ?thesis
    proof (cases r1)
      case (Inr x)
      with Pair 2 show ?thesis by (simp add: io_catch_apply)
    next
      case (Inl e)
      show ?thesis
      proof (cases "handler e")
        case None
        with Pair Inl 2 show ?thesis by (simp add: io_catch_apply)
      next
        case (Some k)
        from assms(2)[OF Some] have "ordered_within mid hi (fst (k (h @ e1)))"
          by (simp add: phased_def)
        then have "ordered_within lo hi (e1 @ fst (k (h @ e1)))"
          using ordered_within_append[OF 1 _ assms(3,4)] by blast
        with Pair Inl Some show ?thesis
          by (auto simp: io_catch_apply split: prod.splits)
      qed
    qed
  qed
qed

lemma phased_exit_on_error: "phased lo hi m \<Longrightarrow> lo \<le> hi \<Longrightarrow> phased lo hi (exit_on_error m)"
  unfolding exit_on_error_def
  by (rule phased_catch[where mid=hi])
     (auto split: exn.splits intro!: phased_seq[where mid=hi] phased_echo phased_sys_exit)

lemma phased_if: "(c \<Longrightarrow> phased lo hi m) \<Longrightarrow> (\<not> c \<Longrightarrow> phased lo hi n) \<Longrightarrow> phased lo hi (if c then m else n)"
  by simp
lemma phased_option: "(x = None \<Longrightarrow> phased lo hi a) \<Longrightarrow> (\<And>y. x = Some y \<Longrightarrow> phased lo hi (b y))
   \<Longrightarrow> phased lo hi (case x of None \<Rightarrow> a | Some y \<Rightarrow> b y)"
  by (cases x) simp_all
lemma phased_sum: "(\<And>y. x = Inl y \<Longrightarrow> phased lo hi (a y)) \<Longrightarrow> (\<And>y. x = Inr y \<Longrightarrow> phased lo hi (b y))
   \<Longrightarrow> phased lo hi (case x of Inl y \<Rightarrow> a y | Inr y \<Rightarrow> b y)"
  by (cases x) simp_all

named_theorems phased_intros

lemmas [phased_intros] = phased_return phased_raise phased_sys_exit phased_assert phased_assert_exists
  phased_assert_is_file phased_echo phased_when phased_same_bind phased_same_seq
  phased_if phased_option phased_sum

lemma phased_assert_repo [phased_intros]: "phased k k (assert_repo w rp)"
  unfolding assert_repo_def by (intro phased_intros)

lemma phased_clean_repo [phased_intros]: "phased 1 1 (clean_repo w path repo)"
  unfolding clean_repo_def Let_def
  by (intro phased_intros phased_exec[where s=Clean] allI) (simp_all add: step_of_cmd_def phased_intros)


lemma phased_same_catch:
  "phased k k m \<Longrightarrow> (\<And>e c. handler e = Some c \<Longrightarrow> phased k k c) \<Longrightarrow> phased k k (io_catch m handler)"
  by (rule phased_catch[where mid=k]) simp_all

lemma phased_same_exit_on_error [phased_intros]: "phased k k m \<Longrightarrow> phased k k (exit_on_error m)"
  by (rule phased_exit_on_error) simp_all

lemma step_of_fetch_cmd: "step_of_cmd (fetch_cmd cur origin branch localname) = Some Resolve"
  by (simp add: fetch_cmd_def step_of_cmd_def)

lemma phased_fetch [phased_intros]: "phased 0 0 (fetch w wspath repo origin branch)"
  unfolding fetch_def Let_def
  apply (intro phased_intros phased_exec[where s=Resolve] allI)
         apply (simp_all add: step_of_fetch_cmd)
  apply (simp_all add: step_of_cmd_def)
  done

lemma phased_pr_fetch [phased_intros]: "phased 0 0 (pr_fetch w repo pr_id wspath)"
  unfolding pr_fetch_def by (rule phased_fetch)

lemma phased_pr_exists [phased_intros]: "phased 0 0 (pr_exists w repo pr_id)"
  unfolding pr_exists_def
  by (intro phased_intros phased_get allI) simp_all

lemma phased_check_pr_exists [phased_intros]: "phased 0 0 (check_pr_exists w repo pr_id not_merged)"
  unfolding check_pr_exists_def
  by (intro phased_intros phased_same_catch allI)
     (auto split: exn.splits intro!: phased_intros)

lemma phased_checkout_branch [phased_intros]: "phased 2 2 (checkout_branch w path repo branch)"
  unfolding checkout_branch_def Let_def
  by (intro phased_intros phased_exec[where s=Checkout] allI) (simp_all add: step_of_cmd_def)

lemma phased_get_latest_commit [phased_intros]: "phased 4 4 (get_latest_commit w path repo)"
  unfolding get_latest_commit_def Let_def
  by (intro phased_intros phased_exec[where s=Revision] allI) (simp_all add: step_of_cmd_def)

lemma phased_list_images [phased_intros]: "phased 3 3 (list_images w)"
  unfolding list_images_def
  by (intro phased_intros phased_exec[where s=Listing] allI) (simp_all add: step_of_cmd_def)

lemma phased_build_image [phased_intros]: "phased 5 5 (build_image w repopath tg)"
  unfolding build_image_def Let_def
  by (intro phased_intros phased_exec[where s=Build] allI) (simp_all add: step_of_cmd_def)

lemma phased_run [phased_intros]:
  "phased 5 5 (run w img cname volumes env ports replace detach capture_output)"
  unfolding run_def Let_def
  by (intro phased_intros phased_exec[where s=Build] allI) (simp_all add: step_of_cmd_def)

lemma phased_run_tests [phased_intros]: "phased 6 6 (run_tests w path s3gw_img)"
  unfolding run_tests_def Let_def
  by (intro phased_intros phased_exec[where s=Test] allI) (simp_all add: step_of_cmd_def)

lemma phased_tools: "phased 0 0 (run_for_local_tools w wspath tools_pr_id)"
  unfolding run_for_local_tools_def
  by (intro phased_intros)

lemma phased_clean: "phased 1 1 (run_for_local_clean w wspath)"
  unfolding run_for_local_clean_def
  by (intro phased_intros)

lemma phased_checkout: "phased 2 2 (run_for_local_checkout w wspath ceph_branch tools_branch)"
  unfolding run_for_local_checkout_def
  by (intro phased_intros)

lemma phased_images: "phased 3 4 (run_for_local_images w wspath)"
  unfolding run_for_local_images_def
  apply (rule phased_bind[where mid=3])
     apply (intro phased_intros)
    apply (rule phased_mono[where a=4 and b=4])
      apply (intro phased_intros)
     apply simp_all
  done

lemma phased_build: "phased 4 6 (run_for_local_build w wspath config ceph_branch images ceph_commit)"
  unfolding run_for_local_build_def Let_def
  apply (rule phased_seq[where mid=4], rule phased_echo)
    apply (rule phased_bind[where mid=4], intro phased_intros)
      apply (rule phased_seq[where mid=4], rule phased_assert)
        apply (rule phased_bind[where mid=5])
           apply (rule phased_mono[where a=5 and b=5])
             apply (intro phased_intros)
            apply simp
           apply simp
          apply (rule phased_seq[where mid=5], rule phased_echo)
            apply (rule phased_seq[where mid=5], intro phased_intros)
              apply (rule phased_seq[where mid=5], rule phased_echo)
                apply (rule phased_seq[where mid=5], rule phased_assert_exists)
                  apply (rule phased_bind[where mid=5])
                     apply (rule phased_exec[where s=Build])
                       apply (simp_all add: step_of_cmd_def)
  apply (rule phased_seq[where mid=6])
     apply (rule phased_when)
     apply (intro phased_seq[where lo=5 and mid=5 and hi=6] phased_echo phased_sys_exit)
       apply simp_all
  apply (intro phased_seq[where lo=6 and mid=6 and hi=6] phased_intros)
   apply simp_all
  done


lemma phased_s3gw: "phased 4 6 (run_for_local_s3gw w wspath config ceph_branch images ceph_commit)"
  unfolding run_for_local_s3gw_def
  apply (rule phased_seq[where mid=4], rule phased_echo)
    apply (rule phased_option)
     apply (rule phased_build)
    apply (rule phased_mono[where a=6 and b=6])
      apply (intro phased_intros)
     apply simp_all
  done

lemma phased_run_for_local: "phased 0 6 (run_for_local w wspath config ceph_branch tools_pr_id)"
  unfolding run_for_local_def
  apply (rule phased_bind[where mid=0], rule phased_tools)
    apply (rule phased_seq[where mid=1])
       apply (rule phased_mono[OF phased_clean], simp, simp)
      apply (rule phased_seq[where mid=2])
         apply (rule phased_mono[OF phased_checkout], simp, simp)
        apply (rule phased_bind[where mid=4])
           apply (rule phased_mono[OF phased_images], simp, simp)
          apply (simp add: split_def phased_s3gw)
         apply simp_all
  done

lemma phased_events:
  assumes "phased lo hi m" "m h = (evs, r)" "e \<in> set evs" "step_of e = Some s"
  shows "lo \<le> step_num s \<and> step_num s \<le> hi"
proof -
  from assms(1,2) have "list_all (\<lambda>n. lo \<le> n \<and> n \<le> hi) (steps evs)"
    by (auto simp: phased_def ordered_within_def dest: spec[of _ h])
  moreover from assms(3,4) have "step_num s \<in> set (steps evs)"
    by (force simp: steps_def map_filter_def)
  ultimately show ?thesis by (simp add: list_all_iff)
qed


section \<open>Properties of every event a computation emits\<close>

definition emits :: "(event \<Rightarrow> bool) \<Rightarrow> 'a io \<Rightarrow> bool" where
  "emits Q m = (\<forall>h. list_all Q (fst (m h)))"

lemma emits_return: "emits Q (io_return x)" by (simp add: emits_def io_return_def)
lemma emits_raise: "emits Q (io_raise e)" by (simp add: emits_def io_raise_def)
lemma emits_sys_exit: "emits Q (sys_exit n)" by (simp add: emits_def sys_exit_def io_raise_def)
lemma emits_assert: "emits Q (io_assert b)" by (simp add: emits_def io_assert_apply)
lemma emits_assert_exists: "emits Q (assert_exists w p)" by (simp add: emits_def assert_exists_def)
lemma emits_assert_is_file: "emits Q (assert_is_file w p)" by (simp add: emits_def assert_is_file_def)
lemma emits_echo: "Q (Echo s) \<Longrightarrow> emits Q (echo s)" by (simp add: emits_def echo_def)
lemma emits_exec: "(\<And>res. Q (Exec cwd cmd res)) \<Longrightarrow> emits Q (subprocess_run w cwd cmd)"
  by (simp add: emits_def subprocess_run_apply)
lemma emits_get: "(\<And>res. Q (Get url res)) \<Longrightarrow> emits Q (requests_get w url)"
  by (simp add: emits_def requests_get_apply)
lemma emits_bind: "emits Q m \<Longrightarrow> (\<And>x. emits Q (f x)) \<Longrightarrow> emits Q (io_bind m f)"
  unfolding emits_def
proof
  fix h
  assume a: "\<forall>h. list_all Q (fst (m h))" and b: "\<And>x. \<forall>h. list_all Q (fst (f x h))"
  obtain e1 r1 where m: "m h = (e1, r1)" by (cases "m h")
  with a have 1: "list_all Q e1" by (auto dest: spec[of _ h])
  show "list_all Q (fst (io_bind m f h))"
  proof (cases r1)
    case (Inl e)
    with m 1 show ?thesis by (simp add: io_bind_apply)
  next
    case (Inr x)
    from b[of x] have "list_all Q (fst (f x (h @ e1)))" by simp
    with m Inr 1 show ?thesis by (auto simp: io_bind_apply split: prod.splits)
  qed
qed
lemma emits_seq: "emits Q m \<Longrightarrow> emits Q n \<Longrightarrow> emits Q (io_seq m n)"
  unfolding io_seq_def by (rule emits_bind)
lemma emits_when: "emits Q m \<Longrightarrow> emits Q (io_when b m)"
  by (simp add: io_when_def emits_return)
lemma emits_catch: "emits Q m \<Longrightarrow> (\<And>e c. handler e = Some c \<Longrightarrow> emits Q c) \<Longrightarrow> emits Q (io_catch m handler)"
  unfolding emits_def
proof
  fix h
  assume a: "\<forall>h. list_all Q (fst (m h))" and b: "\<And>e c. handler e = Some c \<Longrightarrow> \<forall>h. list_all Q (fst (c h))"
  obtain e1 r1 where m: "m h = (e1, r1)" by (cases "m h")
  with a have 1: "list_all Q e1" by (auto dest: spec[of _ h])
  show "list_all Q (fst (io_catch m handler h))"
  proof (cases r1)
    case (Inr x)
    with m 1 show ?thesis by (simp add: io_catch_apply)
  next
    case (Inl e)
    show ?thesis
    proof (cases "handler e")
      case None
      with m Inl 1 show ?thesis by (simp add: io_catch_apply)
    next
      case (Some c)
      from b[OF Some] have "list_all Q (fst (c (h @ e1)))" by simp
      with m Inl Some 1 show ?thesis by (auto simp: io_catch_apply split: prod.splits)
    qed
  qed
qed
lemma emits_exit_on_error: "emits Q m \<Longrightarrow> (\<And>s. Q (Echo s)) \<Longrightarrow> emits Q (exit_on_error m)"
  unfolding exit_on_error_def
  by (rule emits_catch) (auto split: exn.splits intro!: emits_seq emits_echo emits_sys_exit)
lemma emits_if: "(c \<Longrightarrow> emits Q m) \<Longrightarrow> (\<not> c \<Longrightarrow> emits Q n) \<Longrightarrow> emits Q (if c then m else n)"
  by simp
lemma emits_option: "(x = None \<Longrightarrow> emits Q a) \<Longrightarrow> (\<And>y. x = Some y \<Longrightarrow> emits Q (b y))
   \<Longrightarrow> emits Q (case x of None \<Rightarrow> a | Some y \<Rightarrow> b y)"
  by (cases x) simp_all
lemma emits_sum: "(\<And>y. x = Inl y \<Longrightarrow> emits Q (a y)) \<Longrightarrow> (\<And>y. x = Inr y \<Longrightarrow> emits Q (b y))
   \<Longrightarrow> emits Q (case x of Inl y \<Rightarrow> a y | Inr y \<Rightarrow> b y)"
  by (cases x) simp_all

lemmas emits_intros = emits_return emits_raise emits_sys_exit emits_assert emits_assert_exists
  emits_assert_is_file emits_echo emits_exec emits_get emits_bind emits_seq emits_when emits_exit_on_error
  emits_if emits_option emits_sum

lemma emits_events: "emits Q m \<Longrightarrow> m h = (evs, r) \<Longrightarrow> e \<in> set evs \<Longrightarrow> Q e"
  by (auto simp: emits_def list_all_iff dest: spec[of _ h])

text \<open>No revision of the ceph repository is read once the lookups have begun.\<close>

definition not_rev_parse_in :: "string \<Rightarrow> event \<Rightarrow> bool" where
  "not_rev_parse_in rp e = (\<forall>res. e \<noteq> Exec (Some rp) [''git'', ''rev-parse'', ''--short'', ''HEAD''] res)"

lemma repo_path_neq: "repo_path wspath ''s3gw-tools'' \<noteq> repo_path wspath ''ceph''"
  by (simp add: repo_path_def joinpath_def)

lemma emits_s3gw_no_ceph_revision:
  "emits (not_rev_parse_in (repo_path wspath ''ceph'')) (run_for_local_s3gw w wspath config ceph_branch images ceph_commit)"
  unfolding run_for_local_s3gw_def run_for_local_build_def run_tests_def build_image_def run_def
    get_latest_commit_def assert_repo_def Let_def
  by (intro emits_intros allI impI)
     (simp_all add: not_rev_parse_in_def repo_path_neq)


lemma exit_on_error_cases:
  assumes "exit_on_error m h = (evs, r)"
  obtains (pass) "m h = (evs, r)" "\<forall>msg. r \<noteq> Inl (PopcornError msg)"
        | (caught) e0 msg where "m h = (e0, Inl (PopcornError msg))" "evs = e0 @ [Echo (message msg)]"
                                "r = Inl (SystemExit 1)"
  using assms
  by (auto simp: exit_on_error_def io_catch_apply seq_echo seq_sys_exit sys_exit_apply emit_def
           split: prod.splits sum.splits exn.splits)

lemma exit_on_error_Inr: "exit_on_error m h = (evs, Inr x) \<longleftrightarrow> m h = (evs, Inr x)"
  by (auto simp: exit_on_error_def io_catch_apply seq_echo seq_sys_exit sys_exit_apply emit_def
           split: prod.splits sum.splits exn.splits)

lemma get_latest_commit_apply:
  "get_latest_commit w path repo h =
    (if \<not> (path_exists w h (repo_path path repo) \<and> path_exists w h (joinpath (repo_path path repo) ''.git''))
     then ([], Inl AssertionError)
     else (case run_result w h (Some (repo_path path repo)) [''git'', ''rev-parse'', ''--short'', ''HEAD''] of
        None \<Rightarrow> ([Exec (Some (repo_path path repo)) [''git'', ''rev-parse'', ''--short'', ''HEAD''] None], Inl OSError)
      | Some p \<Rightarrow>
          ([Exec (Some (repo_path path repo)) [''git'', ''rev-parse'', ''--short'', ''HEAD''] (Some p)],
           if returncode p \<noteq> 0
           then Inl (PopcornError (Some (''error obtaining latest commit on repository '' @ repo
                @ '': '' @ repr_bytes w (stderr p))))
           else Inr (strip (stdout p)))))"
  by (simp add: get_latest_commit_def Let_def assert_repo_apply io_simps split: option.splits)

lemma get_latest_commit_ok:
  assumes "get_latest_commit w path repo h = (evs, Inr c)"
  shows "\<exists>q. evs = [Exec (Some (repo_path path repo)) [''git'', ''rev-parse'', ''--short'', ''HEAD''] (Some q)]
             \<and> returncode q = 0 \<and> c = strip (stdout q)"
  using assms by (auto simp: get_latest_commit_apply split: if_splits option.splits)

lemma get_latest_commit_abort:
  assumes "get_latest_commit w path repo h = (evs, Inl e)" "Exec cwd cmd (Some q) \<in> set evs"
  shows "returncode q \<noteq> 0"
  using assms by (auto simp: get_latest_commit_apply split: if_splits option.splits)

lemma list_images_apply:
  "list_images w h =
    (case run_result w h None [''podman'', ''images'', ''--format'', ''json''] of
        None \<Rightarrow> ([Exec None [''podman'', ''images'', ''--format'', ''json''] None], Inl OSError)
      | Some p \<Rightarrow>
          ([Exec None [''podman'', ''images'', ''--format'', ''json''] (Some p)],
           if returncode p \<noteq> 0
           then Inl (PopcornError (Some (''error obtaining podman images: '' @ repr_bytes w (stderr p))))
           else (case json_loads w (stdout p) of
                   None \<Rightarrow> Inl JSONDecodeError
                 | Some res \<Rightarrow> (case images_of_entries res of Inl e \<Rightarrow> Inl e | Inr images_lst \<Rightarrow> Inr images_lst))))"
  by (simp add: list_images_def io_simps split: option.splits sum.splits)

lemma list_images_ok:
  assumes "list_images w h = (evs, Inr images)"
  shows "\<exists>p entries. evs = [Exec None [''podman'', ''images'', ''--format'', ''json''] (Some p)]
             \<and> returncode p = 0 \<and> json_loads w (stdout p) = Some entries
             \<and> images_of_entries entries = Inr images"
  using assms by (auto simp: list_images_apply split: if_splits option.splits sum.splits)

lemma images_stage_ok:
  assumes "run_for_local_images w wspath h = (evs, Inr (images, commit))"
  shows "\<exists>p entries q.
           evs = [Exec None [''podman'', ''images'', ''--format'', ''json''] (Some p),
                  Exec (Some (repo_path wspath ''ceph'')) [''git'', ''rev-parse'', ''--short'', ''HEAD''] (Some q)]
         \<and> returncode p = 0 \<and> json_loads w (stdout p) = Some entries
         \<and> images_of_entries entries = Inr images
         \<and> returncode q = 0 \<and> commit = strip (stdout q) \<and> commit \<noteq> []"
  using assms unfolding run_for_local_images_def
proof (cases rule: io_bind_cases)
  case (abort e)
  then show ?thesis by simp
next
  case (cont e1 imgs e2)
  from cont(2) show ?thesis
  proof (cases rule: io_bind_cases)
    case (abort e)
    then show ?thesis by simp
  next
    case c2: (cont e3 c e4)
    from c2(2) have 7: "e4 = []" "imgs = images" "c = commit" "commit \<noteq> []"
      by (auto simp: seq_assert io_return_apply split: if_splits)
    from list_images_ok[OF cont(1)[unfolded exit_on_error_Inr]]
         get_latest_commit_ok[OF c2(1)[unfolded exit_on_error_Inr]]
    show ?thesis using cont(3) c2(3) 7 by auto
  qed
qed

lemma images_stage_abort:
  assumes "run_for_local_images w wspath h = (evs, Inl e)"
      and "Exec (Some (repo_path wspath ''ceph'')) [''git'', ''rev-parse'', ''--short'', ''HEAD''] (Some q) \<in> set evs"
      and "returncode q = 0"
  shows "strip (stdout q) = []"
proof -
  let ?R = "Exec (Some (repo_path wspath ''ceph'')) [''git'', ''rev-parse'', ''--short'', ''HEAD''] (Some q)"
  have step: "step_of ?R = Some Revision" by (simp add: step_of_cmd_def)
  from assms(1) show ?thesis
    unfolding run_for_local_images_def
  proof (cases rule: io_bind_cases)
    case (abort e')
    from phased_events[OF phased_same_exit_on_error[OF phased_list_images] abort(1) assms(2) step]
    show ?thesis by simp
  next
    case (cont e1 imgs e2)
    have notin1: "?R \<notin> set e1"
      using phased_events[OF phased_same_exit_on_error[OF phased_list_images] cont(1) _ step] by auto
    with assms(2) cont(3) have in2: "?R \<in> set e2" by simp
    from cont(2) show ?thesis
    proof (cases rule: io_bind_cases)
      case (abort e')
      from abort(1) show ?thesis
      proof (cases rule: exit_on_error_cases)
        case pass
        from get_latest_commit_abort[OF pass(1) in2] assms(3) show ?thesis by simp
      next
        case (caught e0 msg)
        with in2 have "?R \<in> set e0" by simp
        from get_latest_commit_abort[OF caught(1) this] assms(3) show ?thesis by simp
      qed
    next
      case c2: (cont e3 c e4)
      from c2(2) have e4: "e4 = []" "c = []"
        by (auto simp: seq_assert io_return_apply split: if_splits)
      from get_latest_commit_ok[OF c2(1)[unfolded exit_on_error_Inr]] in2 c2(3) e4
      show ?thesis by auto
    qed
  qed
qed


definition run_for_local_prelude :: "world \<Rightarrow> string \<Rightarrow> string \<Rightarrow> int option \<Rightarrow> unit io" where
  "run_for_local_prelude w wspath ceph_branch tools_pr_id =
     io_bind (run_for_local_tools w wspath tools_pr_id) (\<lambda>tools_branch.
     io_seq (run_for_local_clean w wspath)
            (run_for_local_checkout w wspath ceph_branch tools_branch))"

lemma run_for_local_split:
  "run_for_local w wspath config ceph_branch tools_pr_id =
     io_seq (run_for_local_prelude w wspath ceph_branch tools_pr_id)
       (io_bind (run_for_local_images w wspath) (\<lambda>(images, ceph_commit).
          run_for_local_s3gw w wspath config ceph_branch images ceph_commit))"
  by (simp add: run_for_local_def run_for_local_prelude_def seq_bind_assoc seq_assoc)

lemma phased_prelude: "phased 0 2 (run_for_local_prelude w wspath ceph_branch tools_pr_id)"
  unfolding run_for_local_prelude_def
  apply (rule phased_bind[where mid=0], rule phased_tools)
    apply (rule phased_seq[where mid=1])
       apply (rule phased_mono[OF phased_clean], simp, simp)
      apply (rule phased_mono[OF phased_checkout], simp, simp)
     apply simp_all
  done

lemma run_for_local_cases:
  assumes "run_for_local w wspath config ceph_branch tools_pr_id h = (evs, r)"
  obtains
    (prelude) e where "run_for_local_prelude w wspath ceph_branch tools_pr_id h = (evs, Inl e)" "r = Inl e"
  | (images) e0 e1 e where "run_for_local_prelude w wspath ceph_branch tools_pr_id h = (e0, Inr ())"
       "run_for_local_images w wspath (h @ e0) = (e1, Inl e)" "evs = e0 @ e1" "r = Inl e"
  | (s3gw) e0 e1 images ceph_commit e2 where
       "run_for_local_prelude w wspath ceph_branch tools_pr_id h = (e0, Inr ())"
       "run_for_local_images w wspath (h @ e0) = (e1, Inr (images, ceph_commit))"
       "run_for_local_s3gw w wspath config ceph_branch images ceph_commit (h @ e0 @ e1) = (e2, r)"
       "evs = e0 @ e1 @ e2"
  using assms unfolding run_for_local_split
proof (cases rule: io_seq_cases)
  case (abort e)
  then show ?thesis by (rule prelude)
next
  case (cont e0 x e')
  from cont(2) show ?thesis
  proof (cases rule: io_bind_cases)
    case (abort e)
    with cont show ?thesis by (intro images[of e0 e' e]) simp_all
  next
    case c2: (cont e1 ic e2)
    obtain imgs c where ic: "ic = (imgs, c)" by (cases ic)
    with cont c2 show ?thesis by (intro s3gw[of e0 e1 imgs c e2]) simp_all
  qed
qed


section \<open>Claims about the cache hit\<close>

text \<open>
  Claim C3. For every run of \<open>run_for_local\<close> whose transcript shows a registry listing
  \<open>p\<close> that parses to \<open>images\<close> and a target revision \<open>strip (stdout q)\<close> read from the ceph
  repository (exit status 0, not empty, as line 402 asserts), if the runtime lookup finds
  an image \<open>img\<close> for that revision then the transcript has no build command at all
  (neither \<open>podman build\<close> nor the builder container), and after the two messages of the
  lookup the rest of the transcript is exactly a run of the test runner \<open>run_tests\<close> on the
  found image, whose outcome is the outcome of the run; nothing before it is a build or a
  test command.
\<close>

theorem cache_hit_skips_build:
  assumes run: "run_for_local w wspath config ceph_branch tools_pr_id h = (evs, r)"
      and listed: "Exec None [''podman'', ''images'', ''--format'', ''json''] (Some p) \<in> set evs"
                  "json_loads w (stdout p) = Some entries" "images_of_entries entries = Inr images"
      and revision: "Exec (Some (repo_path wspath ''ceph'')) [''git'', ''rev-parse'', ''--short'', ''HEAD''] (Some q) \<in> set evs"
                  "returncode q = 0" "strip (stdout q) \<noteq> []"
      and hit: "find_s3gw_image images (strip (stdout q)) = Some img"
  shows "list_all (\<lambda>e. step_of e \<noteq> Some Build) evs
       \<and> (\<exists>pre tests verdict.
            evs = pre @ [Echo (''check for existing s3gw image for commit '' @ strip (stdout q) @ ''...''),
                         Echo (''found image '' @ img @ '', skip building.'')] @ tests
          \<and> list_all (\<lambda>e. step_of e \<noteq> Some Build \<and> step_of e \<noteq> Some Test) pre
          \<and> run_tests w (joinpath wspath ''s3gw-tools.git'') img
               (h @ pre @ [Echo (''check for existing s3gw image for commit '' @ strip (stdout q) @ ''...''),
                           Echo (''found image '' @ img @ '', skip building.'')]) = (tests, verdict)
          \<and> r = (case verdict of Inl e \<Rightarrow> Inl e | Inr passed \<Rightarrow> Inr ()))"
proof -
  let ?L = "Exec None [''podman'', ''images'', ''--format'', ''json''] (Some p)"
  let ?R = "Exec (Some (repo_path wspath ''ceph'')) [''git'', ''rev-parse'', ''--short'', ''HEAD''] (Some q)"
  have sL: "step_of ?L = Some Listing" and sR: "step_of ?R = Some Revision"
    by (simp_all add: step_of_cmd_def)
  from run show ?thesis
  proof (cases rule: run_for_local_cases)
    case (prelude e)
    from phased_events[OF phased_prelude prelude(1) listed(1) sL] show ?thesis by simp
  next
    case (images e0 e1 e)
    have "?R \<notin> set e0"
      using phased_events[OF phased_prelude images(1) _ sR] by auto
    with revision(1) images(3) have "?R \<in> set e1" by simp
    from images_stage_abort[OF images(2) this revision(2)] revision(3) show ?thesis by simp
  next
    case (s3gw e0 e1 imgs c e2)
    from images_stage_ok[OF s3gw(2)] obtain p' entries' q' where
      e1: "e1 = [Exec None [''podman'', ''images'', ''--format'', ''json''] (Some p'),
                 Exec (Some (repo_path wspath ''ceph'')) [''git'', ''rev-parse'', ''--short'', ''HEAD''] (Some q')]"
      and p': "json_loads w (stdout p') = Some entries'" "images_of_entries entries' = Inr imgs"
      and q': "c = strip (stdout q')"
      by blast
    have L0: "?L \<notin> set e0" using phased_events[OF phased_prelude s3gw(1) _ sL] by auto
    have L2: "?L \<notin> set e2" using phased_events[OF phased_s3gw s3gw(3) _ sL] by auto
    have R0: "?R \<notin> set e0" using phased_events[OF phased_prelude s3gw(1) _ sR] by auto
    have R2: "?R \<notin> set e2"
      using emits_events[OF emits_s3gw_no_ceph_revision s3gw(3)] by (auto simp: not_rev_parse_in_def)
    from listed(1) s3gw(4) L0 L2 e1 have "p' = p" by auto
    with p' listed(2,3) have imgs: "imgs = images" by simp
    from revision(1) s3gw(4) R0 R2 e1 have "q' = q" by auto
    with q' have c: "c = strip (stdout q)" by simp
    let ?M = "[Echo (''check for existing s3gw image for commit '' @ strip (stdout q) @ ''...''),
               Echo (''found image '' @ img @ '', skip building.'')]"
    obtain tests verdict where t: "run_tests w (joinpath wspath ''s3gw-tools.git'') img (h @ (e0 @ e1) @ ?M) = (tests, verdict)"
      by (cases "run_tests w (joinpath wspath ''s3gw-tools.git'') img (h @ (e0 @ e1) @ ?M)")
    have "run_for_local_s3gw w wspath config ceph_branch images (strip (stdout q)) (h @ e0 @ e1)
            = (?M @ tests, case verdict of Inl e \<Rightarrow> Inl e | Inr passed \<Rightarrow> Inr ())"
      using hit t unfolding run_for_local_s3gw_def
      apply (simp add: seq_echo emit_def)
      apply (simp add: io_seq_apply io_return_apply split: sum.splits)
      done
    with s3gw(3) have e2: "e2 = ?M @ tests" and r: "r = (case verdict of Inl e \<Rightarrow> Inl e | Inr passed \<Rightarrow> Inr ())"
      unfolding imgs c by simp_all
    have pre: "list_all (\<lambda>e. step_of e \<noteq> Some Build \<and> step_of e \<noteq> Some Test) (e0 @ e1)"
    proof -
      have "\<And>x. x \<in> set e0 \<Longrightarrow> step_of x \<noteq> Some Build \<and> step_of x \<noteq> Some Test"
        using phased_events[OF phased_prelude s3gw(1)] by fastforce
      then show ?thesis by (auto simp: list_all_iff e1 step_of_cmd_def)
    qed
    have tst: "list_all (\<lambda>e. step_of e \<noteq> Some Build) tests"
    proof -
      have "\<And>x. x \<in> set tests \<Longrightarrow> step_of x \<noteq> Some Build"
        using phased_events[OF phased_run_tests t] by fastforce
      then show ?thesis by (simp add: list_all_iff)
    qed
    have 1: "list_all (\<lambda>e. step_of e \<noteq> Some Build) evs"
      using pre tst by (auto simp: s3gw(4) e2 list_all_iff)
    have 2: "evs = (e0 @ e1) @ ?M @ tests" by (simp add: s3gw(4) e2)
    from 1 2 pre t r show ?thesis by blast
  qed
qed

text \<open>A configuration without compiler cache and additional repositories, and the
  transcript of the run in the world \<open>w_fail\<close>, where the registry holds the runtime image of
  the revision and the harness fails.\<close>

definition cfg0 :: Config where
  "cfg0 = \<lparr>workspace = ''/ws'', ccache = None, additional_repos = None\<rparr>"

lemma run_w_fail:
  "run_for_local w_fail ''/ws'' cfg0 ''popcorn/origin/fix-123'' None [] =
     ([Echo (''cleanup repository '' @ sq @ ''ceph'' @ sq @ ''...''),
       Exec (Some ''/ws/ceph.git'') [''git'', ''submodule'', ''foreach'', ''git clean -fdx'']
         (Some \<lparr>returncode = 0, stdout = ''c0ffee'' @ [CHR 0x0A], stderr = []\<rparr>),
       Exec (Some ''/ws/ceph.git'') [''git'', ''clean'', ''-fdx'']
         (Some \<lparr>returncode = 0, stdout = ''c0ffee'' @ [CHR 0x0A], stderr = []\<rparr>),
       Echo ''cleanup repository s3gw-tools...'',
       Exec (Some ''/ws/s3gw-tools.git'') [''git'', ''submodule'', ''foreach'', ''git clean -fdx'']
         (Some \<lparr>returncode = 0, stdout = ''c0ffee'' @ [CHR 0x0A], stderr = []\<rparr>),
       Exec (Some ''/ws/s3gw-tools.git'') [''git'', ''clean'', ''-fdx'']
         (Some \<lparr>returncode = 0, stdout = ''c0ffee'' @ [CHR 0x0A], stderr = []\<rparr>),
       Echo (''checkout branch popcorn/origin/fix-123 on repository '' @ sq @ ''ceph'' @ sq @ ''...''),
       Exec (Some ''/ws/ceph.git'') [''git'', ''checkout'', ''popcorn/origin/fix-123'']
         (Some \<lparr>returncode = 0, stdout = ''c0ffee'' @ [CHR 0x0A], stderr = []\<rparr>),
       Echo (''checkout branch main on repository '' @ sq @ ''s3gw-tools'' @ sq @ ''...''),
       Exec (Some ''/ws/s3gw-tools.git'') [''git'', ''checkout'', ''main'']
         (Some \<lparr>returncode = 0, stdout = ''c0ffee'' @ [CHR 0x0A], stderr = []\<rparr>),
       Exec None [''podman'', ''images'', ''--format'', ''json'']
         (Some \<lparr>returncode = 0, stdout = ''c0ffee'' @ [CHR 0x0A], stderr = []\<rparr>),
       Exec (Some ''/ws/ceph.git'') [''git'', ''rev-parse'', ''--short'', ''HEAD'']
         (Some \<lparr>returncode = 0, stdout = ''abc1234'' @ [CHR 0x0A], stderr = []\<rparr>),
       Echo ''check for existing s3gw image for commit abc1234...'',
       Echo ''found image localhost/popcorn/s3gw:abc1234, skip building.'',
       Echo ''running tests...'',
       Echo ''/ws/s3gw-tools.git/tests/run-tests.sh'',
       Echo ''starting s3gw image localhost/popcorn/s3gw:abc1234...'',
       Exec None [''podman'', ''run'', ''--detach'', ''--replace'', ''--name'', ''popcorn-s3gw'',
                  ''-p'', ''7480:7480'', ''localhost/popcorn/s3gw:abc1234'']
         (Some \<lparr>returncode = 0, stdout = ''c0ffee'' @ [CHR 0x0A], stderr = []\<rparr>),
       Echo ''run tests against s3gw running on port 7480...'',
       Exec (Some ''/ws/s3gw-tools.git/tests'') [''./run-tests.sh'']
         (Some \<lparr>returncode = 1, stdout = [], stderr = []\<rparr>),
       Echo ''error running tests!!'',
       Echo ''stop s3gw container...'',
       Exec None [''podman'', ''stop'', ''popcorn-s3gw'']
         (Some \<lparr>returncode = 0, stdout = ''c0ffee'' @ [CHR 0x0A], stderr = []\<rparr>)],
      Inr ())"
  by code_simp

text \<open>The theorem of claim C3 on that run: no build command, and the found image is started.\<close>

theorem cache_hit_skips_build_witness:
  "list_all (\<lambda>e. step_of e \<noteq> Some Build)
     (fst (run_for_local w_fail ''/ws'' cfg0 ''popcorn/origin/fix-123'' None []))
   \<and> Exec None [''podman'', ''run'', ''--detach'', ''--replace'', ''--name'', ''popcorn-s3gw'',
                  ''-p'', ''7480:7480'', ''localhost/popcorn/s3gw:abc1234'']
         (Some \<lparr>returncode = 0, stdout = ''c0ffee'' @ [CHR 0x0A], stderr = []\<rparr>)
       \<in> set (fst (run_for_local w_fail ''/ws'' cfg0 ''popcorn/origin/fix-123'' None []))"
proof -
  let ?p = "\<lparr>returncode = 0, stdout = ''c0ffee'' @ [CHR 0x0A], stderr = []\<rparr>"
  let ?q = "\<lparr>returncode = 0, stdout = ''abc1234'' @ [CHR 0x0A], stderr = []\<rparr>"
  let ?entries = "[\<lparr>entry_Id = Some ''01'', entry_Names = Some [''localhost/popcorn/s3gw:abc1234'']\<rparr>]"
  let ?images = "[\<lparr>name = ''localhost/popcorn/s3gw'', tag = ''abc1234'', sha = ''01''\<rparr>]"
  obtain evs r where eq: "run_for_local w_fail ''/ws'' cfg0 ''popcorn/origin/fix-123'' None [] = (evs, r)"
    by (cases "run_for_local w_fail ''/ws'' cfg0 ''popcorn/origin/fix-123'' None []")
  from eq run_w_fail have evs: "evs = fst (run_for_local w_fail ''/ws'' cfg0 ''popcorn/origin/fix-123'' None [])"
    by simp
  have listed: "Exec None [''podman'', ''images'', ''--format'', ''json''] (Some ?p) \<in> set evs"
    unfolding evs run_w_fail by simp
  have j: "json_loads w_fail (stdout ?p) = Some ?entries" by (simp add: w_fail_def)
  have i: "images_of_entries ?entries = Inr ?images" by simp
  have rev: "Exec (Some (repo_path ''/ws'' ''ceph'')) [''git'', ''rev-parse'', ''--short'', ''HEAD''] (Some ?q) \<in> set evs"
    unfolding evs run_w_fail by (simp add: repo_path_def joinpath_def)
  have q: "returncode ?q = 0" "strip (stdout ?q) \<noteq> []" by (simp_all add: strip_def isspace_def)
  have hit: "find_s3gw_image ?images (strip (stdout ?q)) = Some ''localhost/popcorn/s3gw:abc1234''"
    by (simp add: strip_def isspace_def endswith_def s3gw_image_name_def suffix_to_prefix image_ref_def)
  from cache_hit_skips_build [OF eq listed j i rev q hit]
  have "list_all (\<lambda>e. step_of e \<noteq> Some Build) evs" by blast
  then show ?thesis
    unfolding evs by (simp add: run_w_fail)
qed


section \<open>Aborting at the first failure\<close>

text \<open>
  An external call has failed when the command could not be started or exited non-zero, or
  when the request got no answer or a status other than 200. A failure is fatal unless it
  belongs to the test step, whose failures the test runner handles itself.
  \<open>stops_at_failure\<close> says that nothing but messages follows the first fatal failure of a
  transcript: no command is run and no request is sent after it.
\<close>

fun failed :: "event \<Rightarrow> bool" where
  "failed (Exec cwd cmd res) = (case res of None \<Rightarrow> True | Some p \<Rightarrow> returncode p \<noteq> 0)"
| "failed (Get url res) = (case res of None \<Rightarrow> True | Some r \<Rightarrow> status_code r \<noteq> 200)"
| "failed (Echo s) = False"

fun is_echo :: "event \<Rightarrow> bool" where
  "is_echo (Echo s) = True"
| "is_echo (Exec cwd cmd res) = False"
| "is_echo (Get url res) = False"

definition fatal :: "event \<Rightarrow> bool" where
  "fatal e = (failed e \<and> step_of e \<noteq> Some Test)"

fun stops_at_failure :: "event list \<Rightarrow> bool" where
  "stops_at_failure [] = True"
| "stops_at_failure (e # es) = (if fatal e then list_all is_echo es else stops_at_failure es)"

definition fail_fast :: "event list \<Rightarrow> exn + 'a \<Rightarrow> bool" where
  "fail_fast evs r = (stops_at_failure evs \<and> (list_ex fatal evs \<longrightarrow> isl r))"

definition failfast :: "'a io \<Rightarrow> bool" where
  "failfast m = (\<forall>h. fail_fast (fst (m h)) (snd (m h)))"

definition quiet_abort :: "'a io \<Rightarrow> bool" where
  "quiet_abort m = (\<forall>h. list_all is_echo (fst (m h)) \<and> isl (snd (m h)))"

lemma echo_not_fatal: "is_echo e \<Longrightarrow> \<not> fatal e"
  by (cases e) (simp_all add: fatal_def)

lemma stops_no_fatal: "\<not> list_ex fatal xs \<Longrightarrow> stops_at_failure (xs @ ys) = stops_at_failure ys"
  by (induction xs) simp_all

lemma stops_no_fatal': "\<not> list_ex fatal xs \<Longrightarrow> stops_at_failure xs"
  by (induction xs) simp_all

lemma stops_append_echo: "stops_at_failure xs \<Longrightarrow> list_all is_echo ys \<Longrightarrow> stops_at_failure (xs @ ys)"
proof (induction xs)
  case Nil
  then show ?case by (simp add: stops_no_fatal' list_ex_iff list_all_iff echo_not_fatal)
next
  case (Cons a xs)
  then show ?case by (auto split: if_splits)
qed

lemma fail_fast_append:
  assumes "fail_fast e1 (Inr x :: exn + 'a)" "fail_fast e2 (r :: exn + 'b)"
  shows "fail_fast (e1 @ e2) r"
proof -
  from assms(1) have nf: "\<not> list_ex fatal e1" by (simp add: fail_fast_def)
  with assms(2) show ?thesis
    by (auto simp: fail_fast_def stops_no_fatal list_ex_iff)
qed

lemma fail_fast_Inl: "fail_fast e1 (Inl e :: exn + 'a) \<Longrightarrow> fail_fast e1 (Inl e :: exn + 'b)"
  by (simp add: fail_fast_def)

lemma fail_fast_quiet:
  assumes "fail_fast e1 (r1 :: exn + 'a)" "list_all is_echo e2" "isl (r :: exn + 'b)"
  shows "fail_fast (e1 @ e2) r"
  using assms by (auto simp: fail_fast_def stops_append_echo)

lemma failfast_bind:
  assumes "failfast m" "\<And>x. failfast (f x)"
  shows "failfast (io_bind m f)"
  unfolding failfast_def
proof
  fix h
  obtain e1 r1 where m: "m h = (e1, r1)" by (cases "m h")
  with assms(1) have 1: "fail_fast e1 r1" by (auto simp: failfast_def dest: spec[of _ h])
  show "fail_fast (fst (io_bind m f h)) (snd (io_bind m f h))"
  proof (cases r1)
    case (Inl e)
    with m 1 show ?thesis by (simp add: io_bind_apply fail_fast_def)
  next
    case (Inr x)
    obtain e2 r2 where f: "f x (h @ e1) = (e2, r2)" by (cases "f x (h @ e1)")
    with assms(2)[of x] have "fail_fast e2 r2" by (auto simp: failfast_def dest: spec[of _ "h @ e1"])
    with 1 Inr have "fail_fast (e1 @ e2) r2" by (auto intro: fail_fast_append)
    with m Inr f show ?thesis by (simp add: io_bind_apply)
  qed
qed

lemma failfast_seq: "failfast m \<Longrightarrow> failfast n \<Longrightarrow> failfast (io_seq m n)"
  unfolding io_seq_def by (rule failfast_bind)

lemma failfast_quiet: "list_all is_echo (fst (m h)) \<Longrightarrow> fail_fast (fst (m h)) (snd (m h))"
  by (auto simp: fail_fast_def stops_no_fatal' list_ex_iff list_all_iff echo_not_fatal)

lemma failfast_return: "failfast (io_return x)" by (simp add: failfast_def io_return_def fail_fast_def)
lemma failfast_raise: "failfast (io_raise e)" by (simp add: failfast_def io_raise_def fail_fast_def)
lemma failfast_sys_exit: "failfast (sys_exit n)" by (simp add: failfast_def sys_exit_def io_raise_def fail_fast_def)
lemma failfast_assert: "failfast (io_assert b)" by (simp add: failfast_def io_assert_apply fail_fast_def)
lemma failfast_assert_exists: "failfast (assert_exists w p)" by (simp add: failfast_def assert_exists_def fail_fast_def)
lemma failfast_assert_is_file: "failfast (assert_is_file w p)" by (simp add: failfast_def assert_is_file_def fail_fast_def)
lemma failfast_echo: "failfast (echo s)" by (simp add: failfast_def echo_def fail_fast_def fatal_def)
lemma failfast_when: "failfast m \<Longrightarrow> failfast (io_when b m)" by (simp add: io_when_def failfast_return)
lemma failfast_if: "(c \<Longrightarrow> failfast m) \<Longrightarrow> (\<not> c \<Longrightarrow> failfast n) \<Longrightarrow> failfast (if c then m else n)" by simp
lemma failfast_option: "(x = None \<Longrightarrow> failfast a) \<Longrightarrow> (\<And>y. x = Some y \<Longrightarrow> failfast (b y))
   \<Longrightarrow> failfast (case x of None \<Rightarrow> a | Some y \<Rightarrow> b y)"
  by (cases x) simp_all
lemma failfast_sum: "(\<And>y. x = Inl y \<Longrightarrow> failfast (a y)) \<Longrightarrow> (\<And>y. x = Inr y \<Longrightarrow> failfast (b y))
   \<Longrightarrow> failfast (case x of Inl y \<Rightarrow> a y | Inr y \<Rightarrow> b y)"
  by (cases x) simp_all

lemma quiet_raise: "quiet_abort (io_raise e)" by (simp add: quiet_abort_def io_raise_def)
lemma quiet_sys_exit: "quiet_abort (sys_exit n)" by (simp add: quiet_abort_def sys_exit_def io_raise_def)
lemma quiet_echo_seq: "quiet_abort k \<Longrightarrow> quiet_abort (io_seq (echo s) k)"
  by (auto simp: quiet_abort_def seq_echo emit_def)
lemma quiet_seq: "quiet_abort m \<Longrightarrow> quiet_abort (io_seq m n)"
  unfolding quiet_abort_def
proof
  fix h
  assume a: "\<forall>h. list_all is_echo (fst (m h)) \<and> isl (snd (m h))"
  obtain e1 r1 where m: "m h = (e1, r1)" by (cases "m h")
  with a have "list_all is_echo e1" "isl r1" by (auto dest: spec[of _ h])
  with m show "list_all is_echo (fst (io_seq m n h)) \<and> isl (snd (io_seq m n h))"
    by (cases r1) (simp_all add: io_seq_apply)
qed
lemma quiet_when: "b \<Longrightarrow> quiet_abort m \<Longrightarrow> quiet_abort (io_when b m)"
  by (simp add: io_when_def)
lemma quiet_if_True: "c \<Longrightarrow> quiet_abort m \<Longrightarrow> quiet_abort (if c then m else n)" by simp
lemma quiet_if_False: "\<not> c \<Longrightarrow> quiet_abort n \<Longrightarrow> quiet_abort (if c then m else n)" by simp

lemma failfast_exec_checked:
  assumes "\<And>p. returncode p = 0 \<Longrightarrow> failfast (f p)" "\<And>p. returncode p \<noteq> 0 \<Longrightarrow> quiet_abort (f p)"
  shows "failfast (io_bind (subprocess_run w cwd cmd) f)"
  unfolding failfast_def
proof
  fix h
  show "fail_fast (fst (io_bind (subprocess_run w cwd cmd) f h)) (snd (io_bind (subprocess_run w cwd cmd) f h))"
  proof (cases "run_result w h cwd cmd")
    case None
    then show ?thesis by (simp add: bind_exec fail_fast_def)
  next
    case (Some p)
    let ?E = "Exec cwd cmd (Some p)"
    obtain e2 r2 where f: "f p (h @ [?E]) = (e2, r2)" by (cases "f p (h @ [?E])")
    show ?thesis
    proof (cases "returncode p = 0")
      case True
      from assms(1)[OF True] f have "fail_fast e2 r2" by (auto simp: failfast_def dest: spec[of _ "h @ [?E]"])
      moreover have "fail_fast [?E] (Inr () :: exn + unit)" using True by (simp add: fail_fast_def fatal_def)
      ultimately have "fail_fast ([?E] @ e2) r2" by (rule fail_fast_append[rotated])
      with Some f show ?thesis by (simp add: bind_exec emit_def)
    next
      case False
      from assms(2)[OF False] f have "list_all is_echo e2" "isl r2"
        by (auto simp: quiet_abort_def dest: spec[of _ "h @ [?E]"])
      then have "fail_fast (?E # e2) r2"
        by (simp add: fail_fast_def stops_no_fatal' list_ex_iff list_all_iff echo_not_fatal)
      with Some f show ?thesis by (simp add: bind_exec emit_def)
    qed
  qed
qed

lemma failfast_get_checked:
  assumes "\<And>p. status_code p = 200 \<Longrightarrow> failfast (f p)" "\<And>p. status_code p \<noteq> 200 \<Longrightarrow> quiet_abort (f p)"
  shows "failfast (io_bind (requests_get w url) f)"
  unfolding failfast_def
proof
  fix h
  show "fail_fast (fst (io_bind (requests_get w url) f h)) (snd (io_bind (requests_get w url) f h))"
  proof (cases "get_result w h url")
    case None
    then show ?thesis by (simp add: bind_get fail_fast_def)
  next
    case (Some p)
    let ?E = "Get url (Some p)"
    obtain e2 r2 where f: "f p (h @ [?E]) = (e2, r2)" by (cases "f p (h @ [?E])")
    show ?thesis
    proof (cases "status_code p = 200")
      case True
      from assms(1)[OF True] f have "fail_fast e2 r2" by (auto simp: failfast_def dest: spec[of _ "h @ [?E]"])
      moreover have "fail_fast [?E] (Inr () :: exn + unit)" using True by (simp add: fail_fast_def fatal_def)
      ultimately have "fail_fast ([?E] @ e2) r2" by (rule fail_fast_append[rotated])
      with Some f show ?thesis by (simp add: bind_get emit_def)
    next
      case False
      from assms(2)[OF False] f have "list_all is_echo e2" "isl r2"
        by (auto simp: quiet_abort_def dest: spec[of _ "h @ [?E]"])
      then have "fail_fast (?E # e2) r2"
        by (simp add: fail_fast_def stops_no_fatal' list_ex_iff list_all_iff echo_not_fatal)
      with Some f show ?thesis by (simp add: bind_get emit_def)
    qed
  qed
qed

lemma failfast_catch:
  assumes "failfast m" "\<And>e c. handler e = Some c \<Longrightarrow> quiet_abort c"
  shows "failfast (io_catch m handler)"
  unfolding failfast_def
proof
  fix h
  obtain e1 r1 where m: "m h = (e1, r1)" by (cases "m h")
  with assms(1) have 1: "fail_fast e1 r1" by (auto simp: failfast_def dest: spec[of _ h])
  show "fail_fast (fst (io_catch m handler h)) (snd (io_catch m handler h))"
  proof (cases r1)
    case (Inr x)
    with m 1 show ?thesis by (simp add: io_catch_apply)
  next
    case (Inl e)
    show ?thesis
    proof (cases "handler e")
      case None
      with m Inl 1 show ?thesis by (simp add: io_catch_apply)
    next
      case (Some c)
      obtain e2 r2 where c: "c (h @ e1) = (e2, r2)" by (cases "c (h @ e1)")
      with assms(2)[OF Some] have "list_all is_echo e2" "isl r2"
        by (auto simp: quiet_abort_def dest: spec[of _ "h @ e1"])
      with 1 have "fail_fast (e1 @ e2) r2" by (rule fail_fast_quiet)
      with m Inl Some c show ?thesis by (simp add: io_catch_apply)
    qed
  qed
qed

lemma failfast_exit_on_error: "failfast m \<Longrightarrow> failfast (exit_on_error m)"
  unfolding exit_on_error_def
  by (rule failfast_catch) (auto split: exn.splits intro!: quiet_echo_seq quiet_sys_exit)

lemma failfast_emits: "emits (\<lambda>e. \<not> fatal e) m \<Longrightarrow> failfast m"
  by (auto simp: failfast_def emits_def fail_fast_def stops_no_fatal' list_ex_iff list_all_iff dest: spec)

lemmas failfast_intros = failfast_return failfast_raise failfast_sys_exit failfast_assert
  failfast_assert_exists failfast_assert_is_file failfast_echo failfast_when failfast_if failfast_option
  failfast_sum failfast_seq failfast_exec_checked failfast_get_checked failfast_exit_on_error

lemmas quiet_intros = quiet_raise quiet_sys_exit quiet_echo_seq

lemma failfast_assert_repo: "failfast (assert_repo w rp)"
  unfolding assert_repo_def by (intro failfast_intros)

lemma failfast_clean_repo: "failfast (clean_repo w path repo)"
  unfolding clean_repo_def Let_def
  by (intro failfast_intros failfast_assert_repo) (simp_all add: quiet_intros failfast_intros)


lemma failfast_checkout_branch: "failfast (checkout_branch w path repo branch)"
  unfolding checkout_branch_def Let_def
  by (intro failfast_intros failfast_assert_repo) (simp_all add: quiet_intros failfast_intros)

lemma failfast_get_latest_commit: "failfast (get_latest_commit w path repo)"
  unfolding get_latest_commit_def Let_def
  by (intro failfast_intros failfast_assert_repo) (simp_all add: quiet_intros failfast_intros)

lemma failfast_fetch: "failfast (fetch w wspath repo origin branch)"
  unfolding fetch_def Let_def
  by (intro failfast_intros failfast_assert_repo) (simp_all add: quiet_intros failfast_intros)

lemma failfast_pr_exists: "failfast (pr_exists w repo pr_id)"
  unfolding pr_exists_def
  by (intro failfast_intros) (auto simp: quiet_intros failfast_intros)

lemma failfast_check_pr_exists: "failfast (check_pr_exists w repo pr_id not_merged)"
  unfolding check_pr_exists_def
  apply (intro failfast_seq failfast_echo failfast_catch failfast_bind failfast_pr_exists failfast_when
      failfast_sys_exit)
  apply (auto split: exn.splits intro!: quiet_intros)
  done

lemma failfast_list_images: "failfast (list_images w)"
  unfolding list_images_def
  by (intro failfast_intros) (auto simp: quiet_intros failfast_intros split: option.splits sum.splits)

lemma failfast_build_image: "failfast (build_image w repopath tg)"
  unfolding build_image_def Let_def
  by (intro failfast_intros) (simp_all add: quiet_intros failfast_intros)

lemma failfast_run: "failfast (run w img cname volumes env ports replace detach capture_output)"
  unfolding run_def Let_def
  by (intro failfast_intros) (auto simp: quiet_intros failfast_intros intro!: failfast_intros)

lemma failfast_run_tests: "failfast (run_tests w path s3gw_img)"
  unfolding run_tests_def Let_def
  by (intro failfast_emits emits_intros allI) (simp_all add: fatal_def step_of_cmd_def)

lemma failfast_tools: "failfast (run_for_local_tools w wspath tools_pr_id)"
  unfolding run_for_local_tools_def pr_fetch_def
  by (intro failfast_intros failfast_check_pr_exists failfast_fetch)

lemma failfast_clean: "failfast (run_for_local_clean w wspath)"
  unfolding run_for_local_clean_def
  by (intro failfast_intros failfast_clean_repo)

lemma failfast_checkout: "failfast (run_for_local_checkout w wspath ceph_branch tools_branch)"
  unfolding run_for_local_checkout_def
  by (intro failfast_intros failfast_checkout_branch)

lemma failfast_images: "failfast (run_for_local_images w wspath)"
  unfolding run_for_local_images_def
  by (intro failfast_bind failfast_intros failfast_list_images failfast_get_latest_commit)

lemma failfast_build_tail:
  "failfast (io_bind (subprocess_run w None cmd) (\<lambda>p.
      io_seq (io_when (returncode p \<noteq> 0) (io_seq (echo (msg p)) (sys_exit 1)))
             (io_seq (run_tests w path img) (io_return ()))))"
proof (rule failfast_exec_checked)
  fix p :: completed_process
  assume "returncode p = 0"
  then show "failfast (io_seq (io_when (returncode p \<noteq> 0) (io_seq (echo (msg p)) (sys_exit 1)))
             (io_seq (run_tests w path img) (io_return ())))"
    by (simp add: io_when_def seq_return) (intro failfast_seq failfast_run_tests failfast_return)
next
  fix p :: completed_process
  assume "returncode p \<noteq> 0"
  then show "quiet_abort (io_seq (io_when (returncode p \<noteq> 0) (io_seq (echo (msg p)) (sys_exit 1)))
             (io_seq (run_tests w path img) (io_return ())))"
    by (simp add: io_when_def) (intro quiet_seq quiet_intros)
qed

lemma failfast_build: "failfast (run_for_local_build w wspath config ceph_branch images ceph_commit)"
  unfolding run_for_local_build_def Let_def
  apply (rule failfast_seq, rule failfast_echo)
  apply (rule failfast_bind, intro failfast_exit_on_error failfast_get_latest_commit)
  apply (rule failfast_seq, rule failfast_assert)
  apply (rule failfast_bind)
   apply (intro failfast_option failfast_seq failfast_echo failfast_return failfast_exit_on_error
      failfast_build_image)
  apply (intro failfast_seq failfast_echo failfast_exit_on_error failfast_run failfast_assert_exists
      failfast_build_tail)
  done

lemma failfast_s3gw: "failfast (run_for_local_s3gw w wspath config ceph_branch images ceph_commit)"
  unfolding run_for_local_s3gw_def
  by (intro failfast_seq failfast_echo failfast_option failfast_build failfast_run_tests failfast_return)

lemma failfast_run_for_local: "failfast (run_for_local w wspath config ceph_branch tools_pr_id)"
  unfolding run_for_local_def
  by (intro failfast_bind failfast_seq failfast_tools failfast_clean failfast_checkout failfast_images)
     (simp add: split_def failfast_s3gw)


section \<open>The transcript of the steps before the lookups\<close>

lemma clean_repo_ok:
  assumes "clean_repo w path repo h = (evs, Inr u)"
  shows "\<exists>c1 c2. evs = [Exec (Some (repo_path path repo)) [''git'', ''submodule'', ''foreach'', ''git clean -fdx''] (Some c1),
                         Exec (Some (repo_path path repo)) [''git'', ''clean'', ''-fdx''] (Some c2)]
               \<and> returncode c1 = 0 \<and> returncode c2 = 0"
  using assms unfolding clean_repo_def Let_def
proof (cases rule: io_seq_cases)
  case (abort e)
  then show ?thesis by simp
next
  case (cont e1 x e2)
  from cont(1) have e1: "e1 = []" by (auto simp: assert_repo_apply split: if_splits)
  from cont(2) show ?thesis unfolding e1 cont(3)
    by (auto simp: bind_exec emit_def io_raise_apply io_return_apply split: option.splits if_splits)
qed

lemma checkout_branch_ok:
  assumes "checkout_branch w path repo branch h = (evs, Inr u)"
  shows "\<exists>k. evs = [Exec (Some (repo_path path repo)) [''git'', ''checkout'', branch] (Some k)]
               \<and> returncode k = 0"
  using assms unfolding checkout_branch_def Let_def
proof (cases rule: io_seq_cases)
  case (abort e)
  then show ?thesis by simp
next
  case (cont e1 x e2)
  from cont(1) have e1: "e1 = []" by (auto simp: assert_repo_apply split: if_splits)
  from cont(2) show ?thesis unfolding e1 cont(3)
    by (auto simp: bind_exec emit_def io_raise_apply io_return_apply split: option.splits if_splits)
qed

lemma clean_stage_ok:
  assumes "run_for_local_clean w wspath h = (evs, Inr u)"
  shows "\<exists>c1 c2 c3 c4. evs =
       [Echo (''cleanup repository '' @ sq @ ''ceph'' @ sq @ ''...''),
        Exec (Some (repo_path wspath ''ceph'')) [''git'', ''submodule'', ''foreach'', ''git clean -fdx''] (Some c1),
        Exec (Some (repo_path wspath ''ceph'')) [''git'', ''clean'', ''-fdx''] (Some c2),
        Echo ''cleanup repository s3gw-tools...'',
        Exec (Some (repo_path wspath ''s3gw-tools'')) [''git'', ''submodule'', ''foreach'', ''git clean -fdx''] (Some c3),
        Exec (Some (repo_path wspath ''s3gw-tools'')) [''git'', ''clean'', ''-fdx''] (Some c4)]
     \<and> returncode c1 = 0 \<and> returncode c2 = 0 \<and> returncode c3 = 0 \<and> returncode c4 = 0"
proof -
  from assms have "io_seq (echo (''cleanup repository '' @ sq @ ''ceph'' @ sq @ ''...''))
       (io_seq (clean_repo w wspath ''ceph'')
       (io_seq (echo ''cleanup repository s3gw-tools...'')
               (clean_repo w wspath ''s3gw-tools''))) h = (evs, Inr u)"
    by (simp add: run_for_local_clean_def exit_on_error_Inr)
  then show ?thesis
  proof (cases rule: io_seq_cases)
    case (abort e)
    then show ?thesis by simp
  next
    case (cont e1 x e2)
    from cont(1) have e1: "e1 = [Echo (''cleanup repository '' @ sq @ ''ceph'' @ sq @ ''...'')]"
      by (auto simp: echo_apply)
    from cont(2) show ?thesis
    proof (cases rule: io_seq_cases)
      case (abort e)
      then show ?thesis by simp
    next
      case c2: (cont e3 y e4)
      from c2(2) show ?thesis
      proof (cases rule: io_seq_cases)
        case (abort e)
        then show ?thesis by simp
      next
        case c3: (cont e5 z e6)
        from c3(1) have e5: "e5 = [Echo ''cleanup repository s3gw-tools...'']"
          by (auto simp: echo_apply)
        from clean_repo_ok[OF c2(1)] clean_repo_ok[OF c3(2)]
        show ?thesis unfolding cont(3) c2(3) c3(3) e1 e5 by auto
      qed
    qed
  qed
qed

lemma checkout_stage_ok:
  assumes "run_for_local_checkout w wspath ceph_branch tools_branch h = (evs, Inr u)"
  shows "\<exists>k1 k2. evs =
       [Echo (''checkout branch '' @ ceph_branch @ '' on repository '' @ sq @ ''ceph'' @ sq @ ''...''),
        Exec (Some (repo_path wspath ''ceph'')) [''git'', ''checkout'', ceph_branch] (Some k1),
        Echo (''checkout branch '' @ tools_branch @ '' on repository '' @ sq @ ''s3gw-tools'' @ sq @ ''...''),
        Exec (Some (repo_path wspath ''s3gw-tools'')) [''git'', ''checkout'', tools_branch] (Some k2)]
     \<and> returncode k1 = 0 \<and> returncode k2 = 0"
proof -
  from assms have "io_seq (echo (''checkout branch '' @ ceph_branch @ '' on repository '' @ sq @ ''ceph'' @ sq @ ''...''))
       (io_seq (checkout_branch w wspath ''ceph'' ceph_branch)
       (io_seq (echo (''checkout branch '' @ tools_branch @ '' on repository '' @ sq @ ''s3gw-tools'' @ sq @ ''...''))
               (checkout_branch w wspath ''s3gw-tools'' tools_branch))) h = (evs, Inr u)"
    by (simp add: run_for_local_checkout_def exit_on_error_Inr)
  then show ?thesis
  proof (cases rule: io_seq_cases)
    case (abort e)
    then show ?thesis by simp
  next
    case (cont e1 x e2)
    from cont(1) have e1: "e1 = [Echo (''checkout branch '' @ ceph_branch @ '' on repository '' @ sq @ ''ceph'' @ sq @ ''...'')]"
      by (auto simp: echo_apply)
    from cont(2) show ?thesis
    proof (cases rule: io_seq_cases)
      case (abort e)
      then show ?thesis by simp
    next
      case c2: (cont e3 y e4)
      from c2(2) show ?thesis
      proof (cases rule: io_seq_cases)
        case (abort e)
        then show ?thesis by simp
      next
        case c3: (cont e5 z e6)
        from c3(1) have e5: "e5 = [Echo (''checkout branch '' @ tools_branch @ '' on repository '' @ sq @ ''s3gw-tools'' @ sq @ ''...'')]"
          by (auto simp: echo_apply)
        from checkout_branch_ok[OF c2(1)] checkout_branch_ok[OF c3(2)]
        show ?thesis unfolding cont(3) c2(3) c3(3) e1 e5 by auto
      qed
    qed
  qed
qed

text \<open>The transcript of the cleaning and checkout steps when both succeed: submodules
  and working tree of the ceph repository, then of the tooling repository, are cleaned, then
  the two branches are checked out; every command exited 0.\<close>

definition clean_and_checkout :: "string \<Rightarrow> string \<Rightarrow> string \<Rightarrow> event list \<Rightarrow> bool" where
  "clean_and_checkout wspath ceph_branch tools_branch evs =
     (\<exists>c1 c2 c3 c4 k1 k2. evs =
       [Echo (''cleanup repository '' @ sq @ ''ceph'' @ sq @ ''...''),
        Exec (Some (repo_path wspath ''ceph'')) [''git'', ''submodule'', ''foreach'', ''git clean -fdx''] (Some c1),
        Exec (Some (repo_path wspath ''ceph'')) [''git'', ''clean'', ''-fdx''] (Some c2),
        Echo ''cleanup repository s3gw-tools...'',
        Exec (Some (repo_path wspath ''s3gw-tools'')) [''git'', ''submodule'', ''foreach'', ''git clean -fdx''] (Some c3),
        Exec (Some (repo_path wspath ''s3gw-tools'')) [''git'', ''clean'', ''-fdx''] (Some c4),
        Echo (''checkout branch '' @ ceph_branch @ '' on repository '' @ sq @ ''ceph'' @ sq @ ''...''),
        Exec (Some (repo_path wspath ''ceph'')) [''git'', ''checkout'', ceph_branch] (Some k1),
        Echo (''checkout branch '' @ tools_branch @ '' on repository '' @ sq @ ''s3gw-tools'' @ sq @ ''...''),
        Exec (Some (repo_path wspath ''s3gw-tools'')) [''git'', ''checkout'', tools_branch] (Some k2)]
     \<and> returncode c1 = 0 \<and> returncode c2 = 0 \<and> returncode c3 = 0 \<and> returncode c4 = 0
     \<and> returncode k1 = 0 \<and> returncode k2 = 0)"

lemma prelude_ok:
  assumes "run_for_local_prelude w wspath ceph_branch tools_pr_id h = (evs, Inr u)"
  shows "\<exists>et tools_branch cc.
           run_for_local_tools w wspath tools_pr_id h = (et, Inr tools_branch)
         \<and> evs = et @ cc \<and> clean_and_checkout wspath ceph_branch tools_branch cc"
  using assms unfolding run_for_local_prelude_def
proof (cases rule: io_bind_cases)
  case (abort e)
  then show ?thesis by simp
next
  case (cont et tb e2)
  from cont(2) show ?thesis
  proof (cases rule: io_seq_cases)
    case (abort e)
    then show ?thesis by simp
  next
    case c2: (cont e3 y e4)
    from clean_stage_ok[OF c2(1)] checkout_stage_ok[OF c2(2)]
    have "clean_and_checkout wspath ceph_branch tb (e3 @ e4)"
      unfolding clean_and_checkout_def by auto
    with cont(1,3) c2(3) show ?thesis by auto
  qed
qed

lemma no_listing:
  assumes "phased lo hi m" "m h = (evs, r)" "hi < 3 \<or> 3 < lo"
  shows "filter (\<lambda>e. step_of e = Some Listing) evs = []"
proof -
  have "\<And>x. x \<in> set evs \<Longrightarrow> step_of x \<noteq> Some Listing"
    using phased_events[OF assms(1,2)] assms(3) by fastforce
  then show ?thesis by (simp add: filter_empty_conv)
qed

lemma list_images_listing:
  "length (filter (\<lambda>e. step_of e = Some Listing) (fst (list_images w h))) \<le> 1"
  by (simp add: list_images_apply split: option.splits)

lemma images_stage_listing:
  assumes "run_for_local_images w wspath h = (evs, r)"
  shows "length (filter (\<lambda>e. step_of e = Some Listing) evs) \<le> 1"
  using assms unfolding run_for_local_images_def
proof (cases rule: io_bind_cases)
  case (abort e)
  from abort(1) show ?thesis
  proof (cases rule: exit_on_error_cases)
    case pass
    with list_images_listing[of w h] show ?thesis by simp
  next
    case (caught e0 msg)
    with list_images_listing[of w h] show ?thesis by simp
  qed
next
  case (cont e1 imgs e2)
  from cont(1) have "list_images w h = (e1, Inr imgs)" by (simp add: exit_on_error_Inr)
  with list_images_listing[of w h] have 1: "length (filter (\<lambda>e. step_of e = Some Listing) e1) \<le> 1"
    by simp
  have "phased 4 4 (io_bind (exit_on_error (get_latest_commit w wspath ''ceph'')) (\<lambda>ceph_commit.
     io_seq (io_assert (length ceph_commit > 0)) (io_return (imgs, ceph_commit))))"
    by (intro phased_intros)
  from no_listing[OF this cont(2)] 1 cont(3) show ?thesis by simp
qed


section \<open>Claims about the order of the steps\<close>

text \<open>
  Claim C9. For every run of \<open>run_for_local\<close>, whatever its outcome: the steps of the
  commands of its transcript never go back (resolve, clean, checkout, registry listing,
  revision, build, test, in this order); the registry is listed at most once; and nothing
  but messages follows a failed command or request that is not of the test step, the run
  then ending with an exception (no retry). For every successful run the transcript is
  moreover: the events of resolving the tooling ref; then the four cleaning commands (both
  repositories, submodules first) and the two checkouts, all exited 0; then the one registry
  listing and the revision of the ceph repository; then a run of \<open>run_for_local_s3gw\<close> on the
  images parsed from that listing, in which both lookups are made, and which has only
  revision, build and test commands; the registry is listed exactly once.
\<close>

theorem workflow_step_order:
  assumes run: "run_for_local w wspath config ceph_branch tools_pr_id h = (evs, r)"
  shows "sorted (steps evs)
       \<and> length (filter (\<lambda>e. step_of e = Some Listing) evs) \<le> 1
       \<and> stops_at_failure evs
       \<and> (list_ex fatal evs \<longrightarrow> isl r)
       \<and> (r = Inr () \<longrightarrow>
            (\<exists>resolve tools_branch cc p entries images q rest.
               evs = resolve @ cc
                       @ [Exec None [''podman'', ''images'', ''--format'', ''json''] (Some p),
                          Exec (Some (repo_path wspath ''ceph'')) [''git'', ''rev-parse'', ''--short'', ''HEAD''] (Some q)]
                       @ rest
             \<and> run_for_local_tools w wspath tools_pr_id h = (resolve, Inr tools_branch)
             \<and> list_all (\<lambda>e. step_of e = None \<or> step_of e = Some Resolve) resolve
             \<and> clean_and_checkout wspath ceph_branch tools_branch cc
             \<and> returncode p = 0 \<and> json_loads w (stdout p) = Some entries
             \<and> images_of_entries entries = Inr images \<and> returncode q = 0
             \<and> run_for_local_s3gw w wspath config ceph_branch images (strip (stdout q))
                  (h @ resolve @ cc
                     @ [Exec None [''podman'', ''images'', ''--format'', ''json''] (Some p),
                        Exec (Some (repo_path wspath ''ceph'')) [''git'', ''rev-parse'', ''--short'', ''HEAD''] (Some q)])
                  = (rest, Inr ())
             \<and> list_all (\<lambda>e. step_of e = None \<or> step_of e = Some Revision \<or> step_of e = Some Build
                               \<or> step_of e = Some Test) rest
             \<and> length (filter (\<lambda>e. step_of e = Some Listing) evs) = 1))"
proof -
  have sorted: "sorted (steps evs)"
    using phased_run_for_local[of w wspath config ceph_branch tools_pr_id] run
    by (auto simp: phased_def ordered_within_def dest: spec[of _ h])
  have ff: "stops_at_failure evs \<and> (list_ex fatal evs \<longrightarrow> isl r)"
    using failfast_run_for_local[of w wspath config ceph_branch tools_pr_id] run
    by (auto simp: failfast_def fail_fast_def dest: spec[of _ h])
  from run have rest: "length (filter (\<lambda>e. step_of e = Some Listing) evs) \<le> 1 \<and>
     (r = Inr () \<longrightarrow>
            (\<exists>resolve tools_branch cc p entries images q rest.
               evs = resolve @ cc
                       @ [Exec None [''podman'', ''images'', ''--format'', ''json''] (Some p),
                          Exec (Some (repo_path wspath ''ceph'')) [''git'', ''rev-parse'', ''--short'', ''HEAD''] (Some q)]
                       @ rest
             \<and> run_for_local_tools w wspath tools_pr_id h = (resolve, Inr tools_branch)
             \<and> list_all (\<lambda>e. step_of e = None \<or> step_of e = Some Resolve) resolve
             \<and> clean_and_checkout wspath ceph_branch tools_branch cc
             \<and> returncode p = 0 \<and> json_loads w (stdout p) = Some entries
             \<and> images_of_entries entries = Inr images \<and> returncode q = 0
             \<and> run_for_local_s3gw w wspath config ceph_branch images (strip (stdout q))
                  (h @ resolve @ cc
                     @ [Exec None [''podman'', ''images'', ''--format'', ''json''] (Some p),
                        Exec (Some (repo_path wspath ''ceph'')) [''git'', ''rev-parse'', ''--short'', ''HEAD''] (Some q)])
                  = (rest, Inr ())
             \<and> list_all (\<lambda>e. step_of e = None \<or> step_of e = Some Revision \<or> step_of e = Some Build
                               \<or> step_of e = Some Test) rest
             \<and> length (filter (\<lambda>e. step_of e = Some Listing) evs) = 1))"
  proof (cases rule: run_for_local_cases)
    case (prelude e)
    from no_listing[OF phased_prelude prelude(1)] prelude(2) show ?thesis by simp
  next
    case (images e0 e1 e)
    from no_listing[OF phased_prelude images(1)] images_stage_listing[OF images(2)] images(3,4)
    show ?thesis by simp
  next
    case (s3gw e0 e1 imgs c e2)
    from images_stage_ok[OF s3gw(2)] obtain p entries q where
      e1: "e1 = [Exec None [''podman'', ''images'', ''--format'', ''json''] (Some p),
                 Exec (Some (repo_path wspath ''ceph'')) [''git'', ''rev-parse'', ''--short'', ''HEAD''] (Some q)]"
      and p: "returncode p = 0" "json_loads w (stdout p) = Some entries" "images_of_entries entries = Inr imgs"
      and q: "returncode q = 0" "c = strip (stdout q)"
      by blast
    from prelude_ok[OF s3gw(1)] obtain et tb cc where
      t: "run_for_local_tools w wspath tools_pr_id h = (et, Inr tb)"
      and e0: "e0 = et @ cc" and cc: "clean_and_checkout wspath ceph_branch tb cc"
      by blast
    have l0: "filter (\<lambda>e. step_of e = Some Listing) e0 = []"
      using no_listing[OF phased_prelude s3gw(1)] by simp
    have l2: "filter (\<lambda>e. step_of e = Some Listing) e2 = []"
      using no_listing[OF phased_s3gw s3gw(3)] by simp
    have l1: "length (filter (\<lambda>e. step_of e = Some Listing) e1) = 1"
      unfolding e1 by (simp add: step_of_cmd_def)
    have cnt: "length (filter (\<lambda>e. step_of e = Some Listing) evs) = 1"
      unfolding s3gw(4) using l0 l1 l2 by simp
    have pre: "list_all (\<lambda>e. step_of e = None \<or> step_of e = Some Resolve) et"
    proof -
      have "\<And>x s. x \<in> set et \<Longrightarrow> step_of x = Some s \<Longrightarrow> s = Resolve"
      proof -
        fix x s assume "x \<in> set et" "step_of x = Some s"
        from phased_events[OF phased_tools t this] show "s = Resolve" by (cases s) simp_all
      qed
      then show ?thesis unfolding list_all_iff by (metis not_Some_eq)
    qed
    have post: "list_all (\<lambda>e. step_of e = None \<or> step_of e = Some Revision \<or> step_of e = Some Build
                               \<or> step_of e = Some Test) e2"
    proof -
      have "\<And>x s. x \<in> set e2 \<Longrightarrow> step_of x = Some s \<Longrightarrow> s = Revision \<or> s = Build \<or> s = Test"
      proof -
        fix x s assume "x \<in> set e2" "step_of x = Some s"
        from phased_events[OF phased_s3gw s3gw(3) this] show "s = Revision \<or> s = Build \<or> s = Test"
          by (cases s) simp_all
      qed
      then show ?thesis unfolding list_all_iff by (metis not_Some_eq)
    qed
    show ?thesis
    proof (intro conjI impI)
      show "length (filter (\<lambda>e. step_of e = Some Listing) evs) \<le> 1" using cnt by simp
    next
      assume r: "r = Inr ()"
      have evs: "evs = et @ cc @ e1 @ e2" by (simp add: s3gw(4) e0)
      have run2: "run_for_local_s3gw w wspath config ceph_branch imgs (strip (stdout q)) (h @ et @ cc @ e1) = (e2, Inr ())"
        using s3gw(3) r q(2) e0 by simp
      from evs run2 t pre cc p q(1) post cnt
      show "\<exists>resolve tools_branch cc p entries images q rest.
               evs = resolve @ cc
                       @ [Exec None [''podman'', ''images'', ''--format'', ''json''] (Some p),
                          Exec (Some (repo_path wspath ''ceph'')) [''git'', ''rev-parse'', ''--short'', ''HEAD''] (Some q)]
                       @ rest
             \<and> run_for_local_tools w wspath tools_pr_id h = (resolve, Inr tools_branch)
             \<and> list_all (\<lambda>e. step_of e = None \<or> step_of e = Some Resolve) resolve
             \<and> clean_and_checkout wspath ceph_branch tools_branch cc
             \<and> returncode p = 0 \<and> json_loads w (stdout p) = Some entries
             \<and> images_of_entries entries = Inr images \<and> returncode q = 0
             \<and> run_for_local_s3gw w wspath config ceph_branch images (strip (stdout q))
                  (h @ resolve @ cc
                     @ [Exec None [''podman'', ''images'', ''--format'', ''json''] (Some p),
                        Exec (Some (repo_path wspath ''ceph'')) [''git'', ''rev-parse'', ''--short'', ''HEAD''] (Some q)])
                  = (rest, Inr ())
             \<and> list_all (\<lambda>e. step_of e = None \<or> step_of e = Some Revision \<or> step_of e = Some Build
                               \<or> step_of e = Some Test) rest
             \<and> length (filter (\<lambda>e. step_of e = Some Listing) evs) = 1"
        unfolding e1 by blast
    qed
  qed
  from sorted ff rest show ?thesis by blast
qed

text \<open>A world in which \<open>git checkout\<close> fails, and the transcript of the run there.\<close>

definition w_conflict :: world where
  "w_conflict = w_fail\<lparr>run_result := (\<lambda>h cwd cmd.
      if take 2 cmd = [''git'', ''checkout'']
      then Some \<lparr>returncode = 1, stdout = [], stderr = ''conflict''\<rparr>
      else run_result w_fail h cwd cmd)\<rparr>"

lemma run_w_conflict:
  "run_for_local w_conflict ''/ws'' cfg0 ''popcorn/origin/fix-123'' None [] =
     ([Echo (''cleanup repository '' @ sq @ ''ceph'' @ sq @ ''...''),
       Exec (Some ''/ws/ceph.git'') [''git'', ''submodule'', ''foreach'', ''git clean -fdx'']
         (Some \<lparr>returncode = 0, stdout = ''c0ffee'' @ [CHR 0x0A], stderr = []\<rparr>),
       Exec (Some ''/ws/ceph.git'') [''git'', ''clean'', ''-fdx'']
         (Some \<lparr>returncode = 0, stdout = ''c0ffee'' @ [CHR 0x0A], stderr = []\<rparr>),
       Echo ''cleanup repository s3gw-tools...'',
       Exec (Some ''/ws/s3gw-tools.git'') [''git'', ''submodule'', ''foreach'', ''git clean -fdx'']
         (Some \<lparr>returncode = 0, stdout = ''c0ffee'' @ [CHR 0x0A], stderr = []\<rparr>),
       Exec (Some ''/ws/s3gw-tools.git'') [''git'', ''clean'', ''-fdx'']
         (Some \<lparr>returncode = 0, stdout = ''c0ffee'' @ [CHR 0x0A], stderr = []\<rparr>),
       Echo (''checkout branch popcorn/origin/fix-123 on repository '' @ sq @ ''ceph'' @ sq @ ''...''),
       Exec (Some ''/ws/ceph.git'') [''git'', ''checkout'', ''popcorn/origin/fix-123'']
         (Some \<lparr>returncode = 1, stdout = [], stderr = ''conflict''\<rparr>),
       Echo (''error checking out branch popcorn/origin/fix-123: b'' @ sq @ ''conflict'' @ sq)],
      Inl (SystemExit 1))"
  by code_simp

text \<open>The theorem of claim C9 on the successful run in the world \<open>w_fail\<close> and on the run in
  the world \<open>w_conflict\<close>, which stops at the failed checkout.\<close>

theorem workflow_step_order_witness:
  "steps (fst (run_for_local w_fail ''/ws'' cfg0 ''popcorn/origin/fix-123'' None []))
     = [1, 1, 1, 1, 2, 2, 3, 4, 6, 6, 6]
   \<and> sorted (steps (fst (run_for_local w_fail ''/ws'' cfg0 ''popcorn/origin/fix-123'' None [])))
   \<and> length (filter (\<lambda>e. step_of e = Some Listing)
        (fst (run_for_local w_fail ''/ws'' cfg0 ''popcorn/origin/fix-123'' None []))) = 1
   \<and> list_ex fatal (fst (run_for_local w_conflict ''/ws'' cfg0 ''popcorn/origin/fix-123'' None []))
   \<and> isl (snd (run_for_local w_conflict ''/ws'' cfg0 ''popcorn/origin/fix-123'' None []))
   \<and> stops_at_failure (fst (run_for_local w_conflict ''/ws'' cfg0 ''popcorn/origin/fix-123'' None []))"
proof -
  have 1: "steps (fst (run_for_local w_fail ''/ws'' cfg0 ''popcorn/origin/fix-123'' None []))
     = [1, 1, 1, 1, 2, 2, 3, 4, 6, 6, 6]"
    unfolding run_w_fail by (simp add: steps_Cons step_of_cmd_def)
  obtain evs r where eq: "run_for_local w_fail ''/ws'' cfg0 ''popcorn/origin/fix-123'' None [] = (evs, r)"
    by (cases "run_for_local w_fail ''/ws'' cfg0 ''popcorn/origin/fix-123'' None []")
  with run_w_fail have r: "r = Inr ()" by simp
  from workflow_step_order [OF eq] r
  have 2: "sorted (steps evs)" "length (filter (\<lambda>e. step_of e = Some Listing) evs) = 1"
    by blast+
  obtain evs' r' where eq': "run_for_local w_conflict ''/ws'' cfg0 ''popcorn/origin/fix-123'' None [] = (evs', r')"
    by (cases "run_for_local w_conflict ''/ws'' cfg0 ''popcorn/origin/fix-123'' None []")
  have 3: "list_ex fatal evs'"
    using eq' unfolding run_w_conflict by (auto simp: fatal_def step_of_cmd_def)
  from workflow_step_order [OF eq'] 3 have 4: "isl r'" "stops_at_failure evs'" by blast+
  from 1 2 3 4 show ?thesis by (simp add: eq eq')
qed


section \<open>Claims about the tooling ref\<close>

text \<open>
  What an event has to do with the tooling repository when no tooling PR was given: a request
  is not about that repository at the provider, and a command run in the tooling repository
  neither resolves a ref (\<open>git branch\<close>, \<open>git fetch\<close>, \<open>git pull\<close>, \<open>git remote\<close>) nor checks
  out anything but \<open>main\<close>.
\<close>

definition tools_at_main :: "string \<Rightarrow> event \<Rightarrow> bool" where
  "tools_at_main wspath e =
     (case e of
        Get url res \<Rightarrow> \<not> prefix ''https://api.github.com/repos/aquarist-labs/s3gw-tools/'' url
      | Exec cwd cmd res \<Rightarrow>
          cwd = Some (repo_path wspath ''s3gw-tools'') \<longrightarrow>
            step_of_cmd cmd \<noteq> Some Resolve
            \<and> (step_of_cmd cmd = Some Checkout \<longrightarrow> cmd = [''git'', ''checkout'', ''main''])
      | Echo s \<Rightarrow> True)"

lemma run_for_local_main:
  "run_for_local w wspath config ceph_branch None =
     io_seq (run_for_local_clean w wspath)
    (io_seq (run_for_local_checkout w wspath ceph_branch ''main'')
    (io_bind (run_for_local_images w wspath) (\<lambda>(images, ceph_commit).
       run_for_local_s3gw w wspath config ceph_branch images ceph_commit)))"
  by (rule ext) (simp add: run_for_local_def run_for_local_tools_def bind_return)

lemma repo_path_neq': "repo_path wspath ''ceph'' \<noteq> repo_path wspath ''s3gw-tools''"
  by (simp add: repo_path_def joinpath_def)

lemma emits_main_run_for_local:
  "emits (tools_at_main wspath) (run_for_local w wspath config ceph_branch None)"
  unfolding run_for_local_main run_for_local_clean_def run_for_local_checkout_def run_for_local_images_def
    run_for_local_s3gw_def run_for_local_build_def run_tests_def build_image_def run_def
    get_latest_commit_def list_images_def clean_repo_def checkout_branch_def assert_repo_def Let_def split_def
  by (intro emits_intros allI impI)
     (simp_all add: tools_at_main_def repo_path_neq' step_of_cmd_def)

lemma emits_add_remote_from_config:
  "emits (tools_at_main wspath) (add_remote_from_config w wspath origin repos)"
proof (induction repos)
  case Nil
  show ?case by (simp add: emits_return)
next
  case (Cons r rs)
  have "emits (tools_at_main wspath) (add_remote w wspath ''ceph'' (repo_name r) (repo_url r))"
    unfolding add_remote_def assert_repo_def Let_def
    by (intro emits_intros allI impI) (simp_all add: tools_at_main_def repo_path_neq')
  with Cons show ?case by (auto intro: emits_seq emits_return)
qed

lemma emits_get_remotes: "emits (tools_at_main wspath) (get_remotes w wspath ''ceph'')"
  unfolding get_remotes_def assert_repo_def Let_def
  by (intro emits_intros allI impI) (simp_all add: tools_at_main_def repo_path_neq')

lemma emits_fetch_ceph: "emits (tools_at_main wspath) (fetch w wspath ''ceph'' origin branch)"
  unfolding fetch_def assert_repo_def Let_def
  by (intro emits_intros allI impI) (simp_all add: tools_at_main_def repo_path_neq')

lemma emits_main_workflow_run_branch:
  "emits (tools_at_main (workspace cfg)) (workflow_run_branch w (Some cfg) bname remote None)"
  unfolding workflow_run_branch_def resolve_remote_def update_def assert_repo_def Let_def
  apply simp
  apply (intro emits_intros allI impI emits_main_run_for_local emits_add_remote_from_config emits_get_remotes
      emits_fetch_ceph)
  apply (simp_all add: tools_at_main_def repo_path_neq')
  done

lemma emits_main_workflow_run_pr:
  "emits (tools_at_main (workspace cfg)) (workflow_run_pr w (Some cfg) pr_id None)"
  unfolding workflow_run_pr_def check_pr_exists_def pr_exists_def pr_fetch_def Let_def
  apply simp
  apply (intro emits_intros emits_catch allI impI emits_main_run_for_local emits_fetch_ceph)
  apply (auto simp: tools_at_main_def split: exn.splits intro!: emits_intros)
  done

text \<open>
  Claim C10. When no tooling PR id is given (\<open>tools_pr_id = None\<close>): every event of a run of
  \<open>run_for_local\<close> satisfies \<open>tools_at_main\<close>, and the run resolves no ref at all (no request,
  no fetch); a successful run has checked out \<open>main\<close> in the tooling repository, the command
  having exited 0; and every event of the commands \<open>run pr\<close> and \<open>run branch\<close> satisfies
  \<open>tools_at_main\<close> too, their requests and fetches being for the ceph repository.
\<close>

theorem tools_default_branch:
  "list_all (tools_at_main wspath) (fst (run_for_local w wspath config ceph_branch None h))
   \<and> list_all (\<lambda>e. step_of e \<noteq> Some Resolve) (fst (run_for_local w wspath config ceph_branch None h))
   \<and> (snd (run_for_local w wspath config ceph_branch None h) = Inr () \<longrightarrow>
        (\<exists>k. Exec (Some (repo_path wspath ''s3gw-tools'')) [''git'', ''checkout'', ''main''] (Some k)
                \<in> set (fst (run_for_local w wspath config ceph_branch None h))
            \<and> returncode k = 0))
   \<and> list_all (tools_at_main (workspace cfg)) (fst (workflow_run_pr w (Some cfg) pr_id None h))
   \<and> list_all (tools_at_main (workspace cfg)) (fst (workflow_run_branch w (Some cfg) bname remote None h))"
proof -
  obtain evs r where run: "run_for_local w wspath config ceph_branch None h = (evs, r)"
    by (cases "run_for_local w wspath config ceph_branch None h")
  have 1: "list_all (tools_at_main wspath) evs"
    using emits_main_run_for_local[of wspath w config ceph_branch] run
    by (auto simp: emits_def dest: spec[of _ h])
  have ph: "phased 1 6 (run_for_local w wspath config ceph_branch None)"
    unfolding run_for_local_main
    apply (rule phased_seq[where mid=1], rule phased_clean)
      apply (rule phased_seq[where mid=2])
         apply (rule phased_mono[OF phased_checkout], simp, simp)
        apply (rule phased_bind[where mid=4])
           apply (rule phased_mono[OF phased_images], simp, simp)
          apply (simp add: split_def phased_s3gw)
         apply simp_all
    done
  have 2: "list_all (\<lambda>e. step_of e \<noteq> Some Resolve) evs"
  proof -
    have "\<And>x. x \<in> set evs \<Longrightarrow> step_of x \<noteq> Some Resolve"
      using phased_events[OF ph run] by fastforce
    then show ?thesis by (simp add: list_all_iff)
  qed
  have 3: "r = Inr () \<longrightarrow>
        (\<exists>k. Exec (Some (repo_path wspath ''s3gw-tools'')) [''git'', ''checkout'', ''main''] (Some k) \<in> set evs
            \<and> returncode k = 0)"
  proof
    assume r: "r = Inr ()"
    from run show "\<exists>k. Exec (Some (repo_path wspath ''s3gw-tools'')) [''git'', ''checkout'', ''main''] (Some k) \<in> set evs
            \<and> returncode k = 0"
    proof (cases rule: run_for_local_cases)
      case (prelude e)
      with r show ?thesis by simp
    next
      case (images e0 e1 e)
      with r show ?thesis by simp
    next
      case (s3gw e0 e1 imgs c e2)
      from prelude_ok[OF s3gw(1)] obtain et tb cc where
        t: "run_for_local_tools w wspath None h = (et, Inr tb)"
        and e0: "e0 = et @ cc" and cc: "clean_and_checkout wspath ceph_branch tb cc"
        by blast
      from t have tb: "tb = ''main''" by (simp add: run_for_local_tools_def io_return_apply)
      from cc obtain k pre where
        "cc = pre @ [Exec (Some (repo_path wspath ''s3gw-tools'')) [''git'', ''checkout'', ''main''] (Some k)]"
        "returncode k = 0"
        unfolding clean_and_checkout_def tb by fastforce
      then show ?thesis unfolding s3gw(4) e0 by auto
    qed
  qed
  have 4: "list_all (tools_at_main (workspace cfg)) (fst (workflow_run_pr w (Some cfg) pr_id None h))"
    using emits_main_workflow_run_pr[of cfg w pr_id] by (simp add: emits_def)
  have 5: "list_all (tools_at_main (workspace cfg)) (fst (workflow_run_branch w (Some cfg) bname remote None h))"
    using emits_main_workflow_run_branch[of cfg w bname remote] by (simp add: emits_def)
  from 1 2 3 4 5 show ?thesis by (simp add: run)
qed

text \<open>The theorem of claim C10 on the run in the world \<open>w_fail\<close>.\<close>

theorem tools_default_branch_witness:
  "Exec (Some ''/ws/s3gw-tools.git'') [''git'', ''checkout'', ''main'']
       (Some \<lparr>returncode = 0, stdout = ''c0ffee'' @ [CHR 0x0A], stderr = []\<rparr>)
     \<in> set (fst (run_for_local w_fail ''/ws'' cfg0 ''popcorn/origin/fix-123'' None []))
   \<and> list_all (tools_at_main ''/ws'') (fst (run_for_local w_fail ''/ws'' cfg0 ''popcorn/origin/fix-123'' None []))
   \<and> list_all (\<lambda>e. step_of e \<noteq> Some Resolve)
        (fst (run_for_local w_fail ''/ws'' cfg0 ''popcorn/origin/fix-123'' None []))"
proof -
  have "snd (run_for_local w_fail ''/ws'' cfg0 ''popcorn/origin/fix-123'' None []) = Inr ()"
    by (simp add: run_w_fail)
  with tools_default_branch [of "''/ws''" w_fail cfg0 "''popcorn/origin/fix-123''" "[]"]
  have "list_all (tools_at_main ''/ws'') (fst (run_for_local w_fail ''/ws'' cfg0 ''popcorn/origin/fix-123'' None []))"
    and "list_all (\<lambda>e. step_of e \<noteq> Some Resolve)
        (fst (run_for_local w_fail ''/ws'' cfg0 ''popcorn/origin/fix-123'' None []))"
    by blast+
  moreover have "Exec (Some ''/ws/s3gw-tools.git'') [''git'', ''checkout'', ''main'']
       (Some \<lparr>returncode = 0, stdout = ''c0ffee'' @ [CHR 0x0A], stderr = []\<rparr>)
     \<in> set (fst (run_for_local w_fail ''/ws'' cfg0 ''popcorn/origin/fix-123'' None []))"
    unfolding run_w_fail by simp
  ultimately show ?thesis by simp
qed


section \<open>Claims about the scope of the two lookups\<close>

text \<open>The names \<open>popcorn/builder\<close> and \<open>popcorn/s3gw\<close> do not overlap: a name made of a
  prefix and \<open>popcorn/s3gw\<close> contains \<open>popcorn/builder\<close> only if the prefix does.\<close>

lemma no_overlap:
  assumes "prefix xs2 ''popcorn/s3gw''" "suffix xs2 ''popcorn/builder''"
  shows "xs2 = []"
proof -
  from assms(1) have "xs2 \<in> set (prefixes ''popcorn/s3gw'')" by (simp only: in_set_prefixes)
  with assms(2) show ?thesis by (auto simp: suffix_to_prefix)
qed

lemma builder_not_in_runtime_name:
  "str_in build_img_name (registry @ s3gw_image_name) \<longleftrightarrow> str_in build_img_name registry"
proof -
  have a: "\<not> sublist ''popcorn/builder'' ''popcorn/s3gw''" by (simp add: sublist_code)
  have b: "\<And>xs1 xs2. ''popcorn/builder'' = xs1 @ xs2 \<Longrightarrow> suffix xs1 registry \<Longrightarrow> prefix xs2 ''popcorn/s3gw''
            \<Longrightarrow> sublist ''popcorn/builder'' registry"
  proof -
    fix xs1 xs2 assume x: "''popcorn/builder'' = xs1 @ xs2" "suffix xs1 registry" "prefix xs2 ''popcorn/s3gw''"
    from x(1) have "suffix xs2 ''popcorn/builder''" by (metis suffixI)
    with x(3) have "xs2 = []" by (rule no_overlap)
    with x(1,2) show "sublist ''popcorn/builder'' registry" by simp
  qed
  show ?thesis
    unfolding str_in_def build_img_name_def s3gw_image_name_def sublist_append
    using a b by blast
qed

lemma builder_name_not_runtime:
  "endswith n build_img_name \<Longrightarrow> \<not> endswith n s3gw_image_name"
  by (auto simp: endswith_def build_img_name_def s3gw_image_name_def suffix_def)

lemma find_s3gw_image_filter:
  "(\<And>img. endswith (name img) s3gw_image_name \<Longrightarrow> revision = tag img \<Longrightarrow> P img)
   \<Longrightarrow> find_s3gw_image (filter P images) revision = find_s3gw_image images revision"
  by (induction images) auto

lemma find_build_image_filter:
  "(\<And>img. str_in build_img_name (name img) \<Longrightarrow> revision = tag img \<Longrightarrow> P img)
   \<Longrightarrow> find_build_image (filter P images) revision = find_build_image images revision"
  by (induction images) auto

lemma fst_emit: "fst (emit es x) = es @ fst x" by (simp add: emit_def)

lemma s3gw_begins:
  "prefix [Echo (''check for existing s3gw image for commit '' @ ceph_commit @ ''...''),
           (case find_s3gw_image images ceph_commit of
              Some s3gw_image \<Rightarrow> Echo (''found image '' @ s3gw_image @ '', skip building.'')
            | None \<Rightarrow> Echo (''must build an s3gw image for branch '' @ ceph_branch @ ''...''))]
     (fst (run_for_local_s3gw w wspath config ceph_branch images ceph_commit h))"
  unfolding run_for_local_s3gw_def run_for_local_build_def Let_def
  by (cases "find_s3gw_image images ceph_commit") (simp_all add: seq_echo fst_emit)

lemma build_begins:
  assumes "get_latest_commit w wspath ''s3gw-tools''
             (h @ [Echo (''must build an s3gw image for branch '' @ ceph_branch @ ''...'')]) = (e, Inr tools_commit)"
      and "tools_commit \<noteq> []"
  shows "prefix ([Echo (''must build an s3gw image for branch '' @ ceph_branch @ ''...'')] @ e @
           [case find_build_image images tools_commit of
              Some build_image_found \<Rightarrow> Echo (''found builder image '' @ build_image_found)
            | None \<Rightarrow> Echo ''creating new builder image...''])
     (fst (run_for_local_build w wspath config ceph_branch images ceph_commit h))"
proof -
  let ?h1 = "h @ [Echo (''must build an s3gw image for branch '' @ ceph_branch @ ''...'')]"
  from assms(1) have 1: "exit_on_error (get_latest_commit w wspath ''s3gw-tools'') ?h1 = (e, Inr tools_commit)"
    by (simp add: exit_on_error_Inr)
  show ?thesis
    using 1 assms(2) unfolding run_for_local_build_def Let_def
    apply (simp add: seq_echo fst_emit)
    apply (simp add: bind_cont[of "exit_on_error (get_latest_commit w wspath ''s3gw-tools'')"] cont_simps
        fst_emit seq_assert)
    apply (cases "find_build_image images tools_commit")
     apply (simp_all add: bind_seq_assoc seq_echo bind_return fst_emit)
    done
qed


lemma run_for_local_after_images:
  assumes "run_for_local_prelude w wspath ceph_branch tools_pr_id h = (e0, Inr ())"
      and "run_for_local_images w wspath (h @ e0) = (e1, Inr (imgs, ceph_commit))"
  shows "run_for_local w wspath config ceph_branch tools_pr_id h =
           (e0 @ e1 @ fst (run_for_local_s3gw w wspath config ceph_branch imgs ceph_commit (h @ e0 @ e1)),
            snd (run_for_local_s3gw w wspath config ceph_branch imgs ceph_commit (h @ e0 @ e1)))"
  using assms unfolding run_for_local_split
  by (simp add: io_seq_apply io_bind_apply split: prod.splits)

text \<open>
  Claim C4 holds of the runtime lookup and of the keys of both lookups; it does not hold of
  the builder lookup, because of the containment test of line 431. What the code does, for
  every registry listing and revision: removing from the listing the images whose name ends
  with \<open>popcorn/builder\<close> does not change the result of the runtime lookup, so no such image
  is ever returned by it, equal revisions or not; removing the images named
  \<open>registry @ popcorn/s3gw\<close> does not change the result of the builder lookup when
  \<open>registry\<close> does not itself contain \<open>popcorn/builder\<close>; the input given after the theorem shows
  what happens when it does. The runtime lookup
  of \<open>run_for_local\<close> is made with the revision read from the ceph repository: the key
  returned by the listing stage is the stripped output of \<open>git rev-parse\<close> there, the run
  continues as \<open>run_for_local_s3gw\<close> on that key, and the first thing this does is the lookup
  with it. The builder lookup is made with the revision that \<open>get_latest_commit\<close> reads from
  the tooling repository, right after reading it.
\<close>

theorem lookups_scoped:
  "find_s3gw_image (filter (\<lambda>i. \<not> endswith (name i) build_img_name) images) revision
     = find_s3gw_image images revision
   \<and> (\<not> str_in build_img_name registry \<longrightarrow>
        find_build_image (filter (\<lambda>i. name i \<noteq> registry @ s3gw_image_name) images) revision
          = find_build_image images revision)
   \<and> (run_for_local_prelude w wspath ceph_branch tools_pr_id h = (e0, Inr ())
        \<and> run_for_local_images w wspath (h @ e0) = (e1, Inr (images, ceph_commit))
      \<longrightarrow> (\<exists>p q. e1 = [Exec None [''podman'', ''images'', ''--format'', ''json''] (Some p),
                        Exec (Some (repo_path wspath ''ceph'')) [''git'', ''rev-parse'', ''--short'', ''HEAD''] (Some q)]
                \<and> ceph_commit = strip (stdout q))
        \<and> run_for_local w wspath config ceph_branch tools_pr_id h =
           (e0 @ e1 @ fst (run_for_local_s3gw w wspath config ceph_branch images ceph_commit (h @ e0 @ e1)),
            snd (run_for_local_s3gw w wspath config ceph_branch images ceph_commit (h @ e0 @ e1))))
   \<and> prefix [Echo (''check for existing s3gw image for commit '' @ ceph_commit @ ''...''),
             (case find_s3gw_image images ceph_commit of
                Some s3gw_image \<Rightarrow> Echo (''found image '' @ s3gw_image @ '', skip building.'')
              | None \<Rightarrow> Echo (''must build an s3gw image for branch '' @ ceph_branch @ ''...''))]
        (fst (run_for_local_s3gw w wspath config ceph_branch images ceph_commit h'))
   \<and> (get_latest_commit w wspath ''s3gw-tools''
         (h' @ [Echo (''must build an s3gw image for branch '' @ ceph_branch @ ''...'')]) = (e, Inr tools_commit)
        \<and> tools_commit \<noteq> []
      \<longrightarrow> (\<exists>q. e = [Exec (Some (repo_path wspath ''s3gw-tools'')) [''git'', ''rev-parse'', ''--short'', ''HEAD''] (Some q)]
               \<and> tools_commit = strip (stdout q))
        \<and> prefix ([Echo (''must build an s3gw image for branch '' @ ceph_branch @ ''...'')] @ e @
             [case find_build_image images tools_commit of
                Some build_image_found \<Rightarrow> Echo (''found builder image '' @ build_image_found)
              | None \<Rightarrow> Echo ''creating new builder image...''])
            (fst (run_for_local_build w wspath config ceph_branch images ceph_commit h')))"
proof (intro conjI impI)
  show "find_s3gw_image (filter (\<lambda>i. \<not> endswith (name i) build_img_name) images) revision
     = find_s3gw_image images revision"
    by (rule find_s3gw_image_filter) (auto dest: builder_name_not_runtime)
next
  assume "\<not> str_in build_img_name registry"
  then show "find_build_image (filter (\<lambda>i. name i \<noteq> registry @ s3gw_image_name) images) revision
          = find_build_image images revision"
    by (intro find_build_image_filter) (auto simp: builder_not_in_runtime_name)
next
  assume a: "run_for_local_prelude w wspath ceph_branch tools_pr_id h = (e0, Inr ())
        \<and> run_for_local_images w wspath (h @ e0) = (e1, Inr (images, ceph_commit))"
  from images_stage_ok[OF conjunct2[OF a]]
  show "\<exists>p q. e1 = [Exec None [''podman'', ''images'', ''--format'', ''json''] (Some p),
                        Exec (Some (repo_path wspath ''ceph'')) [''git'', ''rev-parse'', ''--short'', ''HEAD''] (Some q)]
                \<and> ceph_commit = strip (stdout q)"
    by blast
  from a show "run_for_local w wspath config ceph_branch tools_pr_id h =
           (e0 @ e1 @ fst (run_for_local_s3gw w wspath config ceph_branch images ceph_commit (h @ e0 @ e1)),
            snd (run_for_local_s3gw w wspath config ceph_branch images ceph_commit (h @ e0 @ e1)))"
    by (intro run_for_local_after_images) simp_all
next
  show "prefix [Echo (''check for existing s3gw image for commit '' @ ceph_commit @ ''...''),
             (case find_s3gw_image images ceph_commit of
                Some s3gw_image \<Rightarrow> Echo (''found image '' @ s3gw_image @ '', skip building.'')
              | None \<Rightarrow> Echo (''must build an s3gw image for branch '' @ ceph_branch @ ''...''))]
        (fst (run_for_local_s3gw w wspath config ceph_branch images ceph_commit h'))"
    by (rule s3gw_begins)
next
  assume a: "get_latest_commit w wspath ''s3gw-tools''
         (h' @ [Echo (''must build an s3gw image for branch '' @ ceph_branch @ ''...'')]) = (e, Inr tools_commit)
        \<and> tools_commit \<noteq> []"
  from get_latest_commit_ok[OF conjunct1[OF a]]
  show "\<exists>q. e = [Exec (Some (repo_path wspath ''s3gw-tools'')) [''git'', ''rev-parse'', ''--short'', ''HEAD''] (Some q)]
               \<and> tools_commit = strip (stdout q)"
    by blast
  from a show "prefix ([Echo (''must build an s3gw image for branch '' @ ceph_branch @ ''...'')] @ e @
             [case find_build_image images tools_commit of
                Some build_image_found \<Rightarrow> Echo (''found builder image '' @ build_image_found)
              | None \<Rightarrow> Echo ''creating new builder image...''])
            (fst (run_for_local_build w wspath config ceph_branch images ceph_commit h'))"
    by (intro build_begins) simp_all
qed

text \<open>A listing with a runtime image and a builder image of the same tag.\<close>

definition both_kinds :: "PodmanImage list" where
  "both_kinds = [\<lparr>name = ''localhost/popcorn/s3gw'', tag = ''abc1234'', sha = ''01''\<rparr>,
                 \<lparr>name = ''localhost/popcorn/builder'', tag = ''abc1234'', sha = ''02''\<rparr>]"

lemma tools_commit_w_fail:
  "get_latest_commit w_fail ''/ws'' ''s3gw-tools''
     ([] @ [Echo (''must build an s3gw image for branch '' @ ''fix-123'' @ ''...'')])
   = ([Exec (Some (repo_path ''/ws'' ''s3gw-tools'')) [''git'', ''rev-parse'', ''--short'', ''HEAD'']
          (Some \<lparr>returncode = 0, stdout = ''abc1234'' @ [CHR 0x0A], stderr = []\<rparr>)], Inr ''abc1234'')"
  by code_simp

text \<open>The theorem on that listing, with equal revisions.\<close>

theorem lookups_scoped_witness:
  "find_s3gw_image both_kinds ''abc1234'' = Some ''localhost/popcorn/s3gw:abc1234''
   \<and> find_s3gw_image (filter (\<lambda>i. \<not> endswith (name i) build_img_name) both_kinds) ''abc1234''
       = Some ''localhost/popcorn/s3gw:abc1234''
   \<and> find_build_image both_kinds ''abc1234'' = Some ''localhost/popcorn/builder:abc1234''
   \<and> find_build_image (filter (\<lambda>i. name i \<noteq> ''localhost/'' @ s3gw_image_name) both_kinds) ''abc1234''
       = Some ''localhost/popcorn/builder:abc1234''
   \<and> prefix [Echo ''must build an s3gw image for branch fix-123...'',
              Exec (Some ''/ws/s3gw-tools.git'') [''git'', ''rev-parse'', ''--short'', ''HEAD'']
                (Some \<lparr>returncode = 0, stdout = ''abc1234'' @ [CHR 0x0A], stderr = []\<rparr>),
              Echo ''found builder image localhost/popcorn/builder:abc1234'']
        (fst (run_for_local_build w_fail ''/ws'' cfg0 ''fix-123'' both_kinds ''abc1234'' []))"
proof -
  have r: "find_s3gw_image both_kinds ''abc1234'' = Some ''localhost/popcorn/s3gw:abc1234''"
    by (simp add: both_kinds_def endswith_def s3gw_image_name_def suffix_to_prefix image_ref_def)
  have b: "find_build_image both_kinds ''abc1234'' = Some ''localhost/popcorn/builder:abc1234''"
    by (simp add: both_kinds_def str_in_def build_img_name_def sublist_code image_ref_def)
  have n: "\<not> str_in build_img_name ''localhost/''"
    by (simp add: str_in_def build_img_name_def sublist_code)
  have t: "''abc1234'' \<noteq> []" by simp
  note inst = lookups_scoped [where images = both_kinds and revision = "''abc1234''"
      and registry = "''localhost/''" and w = w_fail and wspath = "''/ws''" and ceph_branch = "''fix-123''"
      and config = cfg0 and ceph_commit = "''abc1234''" and h' = "[]" and tools_commit = "''abc1234''"]
  from inst have 1: "find_s3gw_image (filter (\<lambda>i. \<not> endswith (name i) build_img_name) both_kinds) ''abc1234''
       = find_s3gw_image both_kinds ''abc1234''"
    by blast
  from inst n have 2: "find_build_image (filter (\<lambda>i. name i \<noteq> ''localhost/'' @ s3gw_image_name) both_kinds) ''abc1234''
       = find_build_image both_kinds ''abc1234''"
    by blast
  from inst tools_commit_w_fail t
  have 3: "prefix ([Echo (''must build an s3gw image for branch '' @ ''fix-123'' @ ''...'')] @
             [Exec (Some (repo_path ''/ws'' ''s3gw-tools'')) [''git'', ''rev-parse'', ''--short'', ''HEAD'']
                (Some \<lparr>returncode = 0, stdout = ''abc1234'' @ [CHR 0x0A], stderr = []\<rparr>)] @
             [case find_build_image both_kinds ''abc1234'' of
                Some build_image_found \<Rightarrow> Echo (''found builder image '' @ build_image_found)
              | None \<Rightarrow> Echo ''creating new builder image...''])
            (fst (run_for_local_build w_fail ''/ws'' cfg0 ''fix-123'' both_kinds ''abc1234'' []))"
    by blast
  from r b 1 2 3 show ?thesis
    by (simp add: repo_path_def joinpath_def)
qed

text \<open>
  The input on which the builder lookup departs from claim C4: it tests whether the name
  \<^emph>\<open>contains\<close> \<open>popcorn/builder\<close>, so it returns an image whose name ends with \<open>popcorn/s3gw\<close>
  (one the runtime lookup returns too, for an equal revision) when that name has
  \<open>popcorn/builder\<close> somewhere before.
\<close>

theorem builder_lookup_returns_runtime_image:
  "find_build_image [\<lparr>name = ''localhost/popcorn/builder/popcorn/s3gw'', tag = ''abc1234'', sha = ''01''\<rparr>] ''abc1234''
     = Some ''localhost/popcorn/builder/popcorn/s3gw:abc1234''
   \<and> find_s3gw_image [\<lparr>name = ''localhost/popcorn/builder/popcorn/s3gw'', tag = ''abc1234'', sha = ''01''\<rparr>] ''abc1234''
     = Some ''localhost/popcorn/builder/popcorn/s3gw:abc1234''
   \<and> endswith ''localhost/popcorn/builder/popcorn/s3gw'' ''popcorn/s3gw''"
  by (simp add: str_in_def build_img_name_def s3gw_image_name_def image_ref_def sublist_code endswith_def
      suffix_to_prefix)


section \<open>Claims about the exit status\<close>

text \<open>
  Claim C1 does not hold of the code: \<open>run_tests\<close> returns whether the harness exited 0, but
  \<open>run_for_local\<close> calls it as a statement and returns (lines 414 and 492). What holds
  instead: when the runtime lookup finds an image and the test runner returns a verdict
  \<open>passed\<close>, true or false, the run ends normally after the events of the test runner, and the
  exit status is 0.
\<close>

theorem harness_verdict_discarded:
  assumes hit: "find_s3gw_image images ceph_commit = Some img"
      and tests: "run_tests w (joinpath wspath ''s3gw-tools.git'') img
                    (h @ [Echo (''check for existing s3gw image for commit '' @ ceph_commit @ ''...''),
                          Echo (''found image '' @ img @ '', skip building.'')]) = (tests, Inr passed)"
  shows "run_for_local_s3gw w wspath config ceph_branch images ceph_commit h =
           ([Echo (''check for existing s3gw image for commit '' @ ceph_commit @ ''...''),
             Echo (''found image '' @ img @ '', skip building.'')] @ tests, Inr ())
       \<and> exit_code (run_for_local_s3gw w wspath config ceph_branch images ceph_commit h) = 0"
  using hit tests unfolding run_for_local_s3gw_def
  apply (simp add: seq_echo emit_def)
  apply (simp add: io_seq_apply io_return_apply exit_code_def)
  done

text \<open>The test runner and the command \<open>run branch\<close> in the world \<open>w_fail\<close>, where the harness
  exits 1.\<close>

lemma run_tests_w_fail:
  "run_tests w_fail (joinpath ''/ws'' ''s3gw-tools.git'') ''localhost/popcorn/s3gw:abc1234''
     ([] @ [Echo (''check for existing s3gw image for commit '' @ ''abc1234'' @ ''...''),
            Echo (''found image '' @ ''localhost/popcorn/s3gw:abc1234'' @ '', skip building.'')]) =
     ([Echo ''running tests...'',
       Echo ''/ws/s3gw-tools.git/tests/run-tests.sh'',
       Echo ''starting s3gw image localhost/popcorn/s3gw:abc1234...'',
       Exec None [''podman'', ''run'', ''--detach'', ''--replace'', ''--name'', ''popcorn-s3gw'',
                  ''-p'', ''7480:7480'', ''localhost/popcorn/s3gw:abc1234'']
         (Some \<lparr>returncode = 0, stdout = ''c0ffee'' @ [CHR 0x0A], stderr = []\<rparr>),
       Echo ''run tests against s3gw running on port 7480...'',
       Exec (Some ''/ws/s3gw-tools.git/tests'') [''./run-tests.sh'']
         (Some \<lparr>returncode = 1, stdout = [], stderr = []\<rparr>),
       Echo ''error running tests!!'',
       Echo ''stop s3gw container...'',
       Exec None [''podman'', ''stop'', ''popcorn-s3gw'']
         (Some \<lparr>returncode = 0, stdout = ''c0ffee'' @ [CHR 0x0A], stderr = []\<rparr>)],
      Inr False)"
  by code_simp

lemma branch_w_fail:
  "snd (workflow_run_branch w_fail (Some cfg0) ''fix-123'' None None []) = Inr ()
   \<and> Exec (Some ''/ws/s3gw-tools.git/tests'') [''./run-tests.sh'']
         (Some \<lparr>returncode = 1, stdout = [], stderr = []\<rparr>)
       \<in> set (fst (workflow_run_branch w_fail (Some cfg0) ''fix-123'' None None []))"
  by code_simp

text \<open>The theorem on that run: the harness exited 1 and the exit status is 0.\<close>

theorem harness_verdict_discarded_witness:
  "exit_code (run_for_local_s3gw w_fail ''/ws'' cfg0 ''popcorn/origin/fix-123''
       [\<lparr>name = ''localhost/popcorn/s3gw'', tag = ''abc1234'', sha = ''01''\<rparr>] ''abc1234'' []) = 0
   \<and> exit_code (workflow_run_branch w_fail (Some cfg0) ''fix-123'' None None []) = 0
   \<and> Exec (Some ''/ws/s3gw-tools.git/tests'') [''./run-tests.sh'']
         (Some \<lparr>returncode = 1, stdout = [], stderr = []\<rparr>)
       \<in> set (fst (workflow_run_branch w_fail (Some cfg0) ''fix-123'' None None []))"
proof -
  have hit: "find_s3gw_image [\<lparr>name = ''localhost/popcorn/s3gw'', tag = ''abc1234'', sha = ''01''\<rparr>] ''abc1234''
       = Some ''localhost/popcorn/s3gw:abc1234''"
    by (simp add: endswith_def s3gw_image_name_def suffix_to_prefix image_ref_def)
  from harness_verdict_discarded [OF hit run_tests_w_fail]
  have "exit_code (run_for_local_s3gw w_fail ''/ws'' cfg0 ''popcorn/origin/fix-123''
       [\<lparr>name = ''localhost/popcorn/s3gw'', tag = ''abc1234'', sha = ''01''\<rparr>] ''abc1234'' []) = 0"
    by blast
  with branch_w_fail show ?thesis by (simp add: exit_code_def)
qed

end
